theory Spec2Isabelle
  imports Complex_Main "HOL-Library.AList" "HOL-Library.Char_ord" "HOL-Library.List_Lexorder"
    "HOL-Library.Product_Lexorder"
begin

section \<open>Values, strings and records of the application\<close>

text \<open>
  A JavaScript string is modelled by \<^typ>\<open>string\<close>: the list of its UTF-16 code units,
  restricted to the units below 256. A JavaScript \<open>number\<close> is modelled by \<^typ>\<open>real\<close>;
  the only arithmetic in the code is \<open>view_count + 1\<close>, which is exact in a double for every
  integer of magnitude below \<open>2^53\<close>. Console output is not modelled.
\<close>

type_synonym number = real

datatype jsval = VNull | VBool bool | VNum number | VStr string | VArr "jsval list"

text \<open>An object literal: its keys in insertion order.\<close>

type_synonym jsobj = "(string \<times> jsval) list"

text \<open>\<open>{...obj, k: v}\<close>: an existing key keeps its position and takes the new value, a new
  key is appended.\<close>

definition spread_set :: "jsobj \<Rightarrow> string \<Rightarrow> jsval \<Rightarrow> jsobj" where
  "spread_set obj k v = AList.update k v obj"

text \<open>\<open>String.prototype.trim\<close> on code units below 256: TAB, LF, VT, FF, CR, SP, NBSP.\<close>

definition js_whitespace :: "char \<Rightarrow> bool" where
  "js_whitespace c = (c \<in> set [CHR 0x09, CHR 0x0A, CHR 0x0B, CHR 0x0C, CHR 0x0D, CHR 0x20, CHR 0xA0])"

definition trim :: "string \<Rightarrow> string" where
  "trim s = rev (dropWhile js_whitespace (rev (dropWhile js_whitespace s)))"

definition startsWith :: "string \<Rightarrow> string \<Rightarrow> bool" where
  "startsWith s p = (take (length p) s = p)"

text \<open>The regular-expression class \<open>\d\<close>: the ten ASCII digits.\<close>

definition is_digit :: "char \<Rightarrow> bool" where
  "is_digit c = (c \<in> set ''0123456789'')"

text \<open>\<open>/^\d{7}$/\<close> (no flags: \<open>$\<close> is the end of the input).\<close>

definition match_guest :: "string \<Rightarrow> bool" where
  "match_guest u = (length u = 7 \<and> list_all is_digit u)"

text \<open>\<open>/^\d+$/.test(u)\<close>.\<close>

definition test_digits :: "string \<Rightarrow> bool" where
  "test_digits u = (u \<noteq> [] \<and> list_all is_digit u)"

text \<open>\<open>s.split('.')\<close>: never the empty array.\<close>

fun split_dot :: "string \<Rightarrow> string list" where
  "split_dot [] = [[]]"
| "split_dot (c # cs) =
     (if c = CHR ''.'' then [] # split_dot cs
      else (case split_dot cs of [] \<Rightarrow> [[c]] | p # ps \<Rightarrow> (c # p) # ps))"

text \<open>Decimal rendering of a non-negative integer, as a template literal prints it.\<close>

definition digit_char :: "nat \<Rightarrow> char" where
  "digit_char d = ''0123456789'' ! (d mod 10)"

fun dec :: "nat \<Rightarrow> string" where
  "dec n = (if n < 10 then [digit_char n] else dec (n div 10) @ [digit_char (n mod 10)])"

declare dec.simps [simp del]

datatype role = RoleUser | RoleAdmin

record Pin =
  pin_id :: string
  pin_username :: string
  pin_lat :: number
  pin_lng :: number
  pin_description :: string
  pin_images :: "string list"
  pin_pin_color :: "string option"
  pin_storage_paths :: "string list option"
  pin_is_authenticated :: "bool option"
  pin_created_at :: string
  pin_likes_count :: "number option"
  pin_comments_count :: "number option"
  pin_continent :: "string option"
  pin_country :: "string option"
  pin_state :: "string option"
  pin_locality :: "string option"

record Profile =
  profile_id :: string
  profile_username :: string
  profile_role :: role
  profile_contact_info :: "string option"
  profile_about_me :: "string option"
  profile_picture_url :: "string option"
  profile_banner_url :: "string option"
  profile_created_at :: string
  profile_updated_at :: string

record MarketplaceItem =
  item_id :: string
  item_seller_username :: string
  item_title :: string
  item_description :: string
  item_price :: number
  item_images :: "string list"
  item_storage_paths :: "string list"
  item_created_at :: string
  item_updated_at :: string
  item_is_active :: bool

record BlogPost =
  post_id :: string
  post_author_username :: string
  post_title :: string
  post_content :: string
  post_excerpt :: "string option"
  post_created_at :: string
  post_updated_at :: string
  post_is_published :: bool
  post_view_count :: number

record File =
  file_name :: string
  file_type :: string
  file_size :: nat

section \<open>The backend client\<close>

text \<open>
  The backend is outside the repository. It is a parameter of the model: a record of
  operations over a world \<open>'w\<close> the code cannot see. Awaiting an operation either throws or
  returns the library's \<open>{ data, error }\<close> object. Every operation the code invokes is
  appended to a log of calls, so that "no backend call" and "exactly one query" are
  statements about that log.
\<close>

datatype exn = Error string

datatype 'a outcome = Throws exn | Returns 'a

record pg_error =
  message :: string

record 'd response =
  resp_data :: "'d option"
  resp_error :: "pg_error option"

text \<open>The query builder: \<open>.select(cols)\<close>, then \<open>.eq(col, v)\<close> and
  \<open>.order(col, { ascending })\<close> in any order.\<close>

record query =
  columns :: string
  filters :: "(string \<times> jsval) list"
  order_by :: "(string \<times> bool) list"

text \<open>The builder of \<open>update(..)\<close> and \<open>delete()\<close> starts with no column list.\<close>

definition builder :: query where
  "builder = \<lparr>columns = [], filters = [], order_by = []\<rparr>"

definition select :: "string \<Rightarrow> query" where
  "select cols = builder\<lparr>columns := cols\<rparr>"

definition eq :: "string \<Rightarrow> jsval \<Rightarrow> query \<Rightarrow> query" where
  "eq col v q = q\<lparr>filters := filters q @ [(col, v)]\<rparr>"

definition order :: "string \<Rightarrow> bool \<Rightarrow> query \<Rightarrow> query" where
  "order col ascending q = q\<lparr>order_by := order_by q @ [(col, ascending)]\<rparr>"

record upload_options =
  cacheControl :: string
  upsert :: bool

record upload_data =
  path :: string

record public_url_data =
  publicUrl :: string

record auth_user =
  user_id :: string

datatype call =
    AuthGetUser
  | Select string query
  | SelectSingle string query
  | Insert string "jsobj list"
  | Update string jsobj query
  | Delete string query
  | StorageUpload string string File upload_options
  | StorageGetPublicUrl string string
  | StorageRemove string "string list"

text \<open>The operations of one table: \<open>from(t).select(..)\<close>, \<open>...single()\<close>,
  \<open>insert([..]).select().single()\<close>, \<open>update(..)\<close>, \<open>delete()\<close>.\<close>

record ('r, 'w) table =
  select_rows :: "query \<Rightarrow> 'w \<Rightarrow> 'r list response outcome \<times> 'w"
  select_single :: "query \<Rightarrow> 'w \<Rightarrow> 'r response outcome \<times> 'w"
  insert_single :: "jsobj list \<Rightarrow> 'w \<Rightarrow> 'r response outcome \<times> 'w"
  update_rows :: "jsobj \<Rightarrow> query \<Rightarrow> 'w \<Rightarrow> unit response outcome \<times> 'w"
  delete_rows :: "query \<Rightarrow> 'w \<Rightarrow> unit response outcome \<times> 'w"

record 'w client =
  auth_getUser :: "'w \<Rightarrow> auth_user option outcome \<times> 'w"
  from_profiles :: "(Profile, 'w) table"
  from_pins :: "(Pin, 'w) table"
  from_marketplace_items :: "(MarketplaceItem, 'w) table"
  from_blog_posts :: "(BlogPost, 'w) table"
  storage_upload :: "string \<Rightarrow> string \<Rightarrow> File \<Rightarrow> upload_options \<Rightarrow> 'w \<Rightarrow> upload_data response outcome \<times> 'w"
  storage_getPublicUrl :: "string \<Rightarrow> string \<Rightarrow> 'w \<Rightarrow> public_url_data outcome \<times> 'w"
  storage_remove :: "string \<Rightarrow> string list \<Rightarrow> 'w \<Rightarrow> unit response outcome \<times> 'w"

text \<open>
  The module's environment: the client \<open>supabase\<close> (\<open>null\<close> when a connection parameter
  is missing), and the clock and random source of the runtime:
  \<open>new Date().toISOString()\<close>, \<open>Date.now()\<close> and \<open>Math.random().toString(36)\<close>.
\<close>

record 'w env =
  supabase :: "'w client option"
  date_toISOString :: "'w \<Rightarrow> string \<times> 'w"
  date_now :: "'w \<Rightarrow> nat \<times> 'w"
  random_toString36 :: "'w \<Rightarrow> string \<times> 'w"

text \<open>The module builds the client once: \<open>supabaseUrl && supabaseAnonKey ?
  createClient(supabaseUrl, supabaseAnonKey) : null\<close>, each parameter being the environment
  variable or the empty string.\<close>

definition module_supabase :: "string \<Rightarrow> string \<Rightarrow> (string \<Rightarrow> string \<Rightarrow> 'w client) \<Rightarrow> 'w client option" where
  "module_supabase supabaseUrl supabaseAnonKey createClient =
     (if supabaseUrl \<noteq> [] \<and> supabaseAnonKey \<noteq> [] then Some (createClient supabaseUrl supabaseAnonKey)
      else None)"

record 'w sys =
  world :: 'w
  calls :: "call list"

text \<open>Invoking a backend operation: the call is logged, the world answers.\<close>

definition request :: "call \<Rightarrow> ('w \<Rightarrow> 'a \<times> 'w) \<Rightarrow> 'w sys \<Rightarrow> 'a \<times> 'w sys" where
  "request c op s = (case op (world s) of (r, w') \<Rightarrow> (r, \<lparr>world = w', calls = calls s @ [c]\<rparr>))"

text \<open>Reading the clock or the random source: no backend call.\<close>

definition runtime :: "('w \<Rightarrow> 'a \<times> 'w) \<Rightarrow> 'w sys \<Rightarrow> 'a \<times> 'w sys" where
  "runtime op s = (case op (world s) of (r, w') \<Rightarrow> (r, s\<lparr>world := w'\<rparr>))"

section \<open>Data-access functions\<close>

definition getCurrentUserProfile :: "'w env \<Rightarrow> 'w sys \<Rightarrow> Profile option \<times> 'w sys" where
  "getCurrentUserProfile env s =
     (case supabase env of
        None \<Rightarrow> (None, s)
      | Some sb \<Rightarrow>
          (case request AuthGetUser (auth_getUser sb) s of
             (Throws err, s1) \<Rightarrow> (None, s1)
           | (Returns None, s1) \<Rightarrow> (None, s1)
           | (Returns (Some user), s1) \<Rightarrow>
               (let q = eq ''id'' (VStr (user_id user)) (select ''*'') in
                case request (SelectSingle ''profiles'' q) (select_single (from_profiles sb) q) s1 of
                  (Throws err, s2) \<Rightarrow> (None, s2)
                | (Returns r, s2) \<Rightarrow>
                    (if resp_error r \<noteq> None then (None, s2)
                     else (case resp_data r of
                             None \<Rightarrow> (None, s2)
                           | Some profile \<Rightarrow> (Some profile, s2))))))"

definition getProfileByUsername :: "'w env \<Rightarrow> string \<Rightarrow> 'w sys \<Rightarrow> Profile option \<times> 'w sys" where
  "getProfileByUsername env username s =
     (case supabase env of
        None \<Rightarrow> (None, s)
      | Some sb \<Rightarrow>
          (let q = eq ''username'' (VStr username) (select ''*'') in
           case request (Select ''profiles'' q) (select_rows (from_profiles sb) q) s of
             (Throws err, s1) \<Rightarrow> (None, s1)
           | (Returns r, s1) \<Rightarrow>
               (if resp_error r \<noteq> None then (None, s1)
                else (case resp_data r of
                        Some (p # ps) \<Rightarrow> (Some p, s1)
                      | _ \<Rightarrow> (None, s1)))))"

definition updateUserProfile :: "'w env \<Rightarrow> string \<Rightarrow> jsobj \<Rightarrow> 'w sys \<Rightarrow> bool \<times> 'w sys" where
  "updateUserProfile env userId profileData s =
     (case supabase env of
        None \<Rightarrow> (False, s)
      | Some sb \<Rightarrow>
          (case runtime (date_toISOString env) s of
             (now, s0) \<Rightarrow>
               (let payload = spread_set profileData ''updated_at'' (VStr now);
                    q = eq ''id'' (VStr userId) builder in
                case request (Update ''profiles'' payload q) (update_rows (from_profiles sb) payload q) s0 of
                  (Throws err, s1) \<Rightarrow> (False, s1)
                | (Returns r, s1) \<Rightarrow> (resp_error r = None, s1))))"

definition getUserPins :: "'w env \<Rightarrow> string \<Rightarrow> 'w sys \<Rightarrow> (exn + Pin list) \<times> 'w sys" where
  "getUserPins env username s =
     (case supabase env of
        None \<Rightarrow> (Inr [], s)
      | Some sb \<Rightarrow>
          (let q = order ''created_at'' False (eq ''username'' (VStr username) (select ''*'')) in
           case request (Select ''pins'' q) (select_rows (from_pins sb) q) s of
             (Throws err, s1) \<Rightarrow> (Inl err, s1)
           | (Returns r, s1) \<Rightarrow>
               (case resp_data r of
                  None \<Rightarrow> (Inr [], s1)
                | Some pins \<Rightarrow> (Inr pins, s1))))"

text \<open>\<open>file.name.split('.').pop()\<close>.\<close>

definition fileExt :: "File \<Rightarrow> string" where
  "fileExt file = last (split_dot (file_name file))"

definition uploadImage :: "'w env \<Rightarrow> File \<Rightarrow> string \<Rightarrow> string \<Rightarrow> 'w sys \<Rightarrow> string option \<times> 'w sys" where
  "uploadImage env file userId bucketName s =
     (case supabase env of
        None \<Rightarrow> (None, s)
      | Some sb \<Rightarrow>
          (case runtime (date_now env) s of
             (now, s0) \<Rightarrow>
               (case runtime (random_toString36 env) s0 of
                  (rnd, s1) \<Rightarrow>
                    (let fileName = userId @ ''/'' @ dec now @ ''-'' @ drop 2 rnd @ ''.'' @ fileExt file;
                         opts = \<lparr>cacheControl = ''3600'', upsert = False\<rparr> in
                     case request (StorageUpload bucketName fileName file opts)
                            (storage_upload sb bucketName fileName file opts) s1 of
                       (Throws err, s2) \<Rightarrow> (None, s2)
                     | (Returns r, s2) \<Rightarrow>
                         (if resp_error r \<noteq> None then (None, s2)
                          else (case resp_data r of
                                  None \<Rightarrow> (None, s2)
                                | Some d \<Rightarrow> (Some (path d), s2)))))))"

definition getImageUrl :: "'w env \<Rightarrow> string \<Rightarrow> string \<Rightarrow> 'w sys \<Rightarrow> (exn + string) \<times> 'w sys" where
  "getImageUrl env pth bucketName s =
     (case supabase env of
        None \<Rightarrow> (Inr [], s)
      | Some sb \<Rightarrow>
          (case request (StorageGetPublicUrl bucketName pth) (storage_getPublicUrl sb bucketName pth) s of
             (Throws err, s1) \<Rightarrow> (Inl err, s1)
           | (Returns d, s1) \<Rightarrow> (Inr (publicUrl d), s1)))"

definition deleteImage :: "'w env \<Rightarrow> string \<Rightarrow> string \<Rightarrow> 'w sys \<Rightarrow> bool \<times> 'w sys" where
  "deleteImage env pth bucketName s =
     (case supabase env of
        None \<Rightarrow> (False, s)
      | Some sb \<Rightarrow>
          (case request (StorageRemove bucketName [pth]) (storage_remove sb bucketName [pth]) s of
             (Throws err, s1) \<Rightarrow> (False, s1)
           | (Returns r, s1) \<Rightarrow> (resp_error r = None, s1)))"

text \<open>The tail shared by the list fetches that sit in a \<open>try\<close>: a reported error or a
  thrown exception gives \<open>[]\<close>, otherwise \<open>data || []\<close>.\<close>

definition rows_or_empty :: "'r list response outcome \<Rightarrow> 'r list" where
  "rows_or_empty out =
     (case out of
        Throws err \<Rightarrow> []
      | Returns r \<Rightarrow>
          (if resp_error r \<noteq> None then []
           else (case resp_data r of None \<Rightarrow> [] | Some rows \<Rightarrow> rows)))"

definition getMarketplaceItems :: "'w env \<Rightarrow> 'w sys \<Rightarrow> MarketplaceItem list \<times> 'w sys" where
  "getMarketplaceItems env s =
     (case supabase env of
        None \<Rightarrow> ([], s)
      | Some sb \<Rightarrow>
          (let q = order ''created_at'' False (eq ''is_active'' (VBool True) (select ''*'')) in
           case request (Select ''marketplace_items'' q) (select_rows (from_marketplace_items sb) q) s of
             (out, s1) \<Rightarrow> (rows_or_empty out, s1)))"

definition marketplace_row :: "Profile \<Rightarrow> string \<Rightarrow> string \<Rightarrow> number \<Rightarrow> string list \<Rightarrow> string list \<Rightarrow> jsobj" where
  "marketplace_row profile title description price images storagePaths =
     [(''seller_username'', VStr (profile_username profile)),
      (''title'', VStr (trim title)),
      (''description'', VStr (trim description)),
      (''price'', VNum price),
      (''images'', VArr (map VStr images)),
      (''storage_paths'', VArr (map VStr storagePaths)),
      (''is_active'', VBool True)]"

text \<open>The tail shared by the two creation functions: a reported error is thrown as
  \<open>new Error(error.message)\<close>, and the \<open>catch\<close> re-throws whatever was thrown.\<close>

definition created_or_throw :: "'r response outcome \<Rightarrow> exn + 'r option" where
  "created_or_throw out =
     (case out of
        Throws err \<Rightarrow> Inl err
      | Returns r \<Rightarrow>
          (case resp_error r of
             Some e \<Rightarrow> Inl (Error (message e))
           | None \<Rightarrow> Inr (resp_data r)))"

definition createMarketplaceItem ::
  "'w env \<Rightarrow> string \<Rightarrow> string \<Rightarrow> number \<Rightarrow> string list \<Rightarrow> string list \<Rightarrow> 'w sys
     \<Rightarrow> (exn + MarketplaceItem option) \<times> 'w sys" where
  "createMarketplaceItem env title description price images storagePaths s =
     (case supabase env of
        None \<Rightarrow> (Inr None, s)
      | Some sb \<Rightarrow>
          (case getCurrentUserProfile env s of
             (None, s1) \<Rightarrow> (Inl (Error ''User not authenticated''), s1)
           | (Some profile, s1) \<Rightarrow>
               (let rows = [marketplace_row profile title description price images storagePaths] in
                case request (Insert ''marketplace_items'' rows)
                       (insert_single (from_marketplace_items sb) rows) s1 of
                  (out, s2) \<Rightarrow> (created_or_throw out, s2))))"

definition updateMarketplaceItem :: "'w env \<Rightarrow> string \<Rightarrow> jsobj \<Rightarrow> 'w sys \<Rightarrow> bool \<times> 'w sys" where
  "updateMarketplaceItem env itemId updates s =
     (case supabase env of
        None \<Rightarrow> (False, s)
      | Some sb \<Rightarrow>
          (case runtime (date_toISOString env) s of
             (now, s0) \<Rightarrow>
               (let payload = spread_set updates ''updated_at'' (VStr now);
                    q = eq ''id'' (VStr itemId) builder in
                case request (Update ''marketplace_items'' payload q)
                       (update_rows (from_marketplace_items sb) payload q) s0 of
                  (Throws err, s1) \<Rightarrow> (False, s1)
                | (Returns r, s1) \<Rightarrow> (resp_error r = None, s1))))"

definition deleteMarketplaceItem :: "'w env \<Rightarrow> string \<Rightarrow> 'w sys \<Rightarrow> bool \<times> 'w sys" where
  "deleteMarketplaceItem env itemId s =
     (case supabase env of
        None \<Rightarrow> (False, s)
      | Some sb \<Rightarrow>
          (let q = eq ''id'' (VStr itemId) builder in
           case request (Delete ''marketplace_items'' q) (delete_rows (from_marketplace_items sb) q) s of
             (Throws err, s1) \<Rightarrow> (False, s1)
           | (Returns r, s1) \<Rightarrow> (resp_error r = None, s1)))"

definition getUserMarketplaceItems :: "'w env \<Rightarrow> string \<Rightarrow> 'w sys \<Rightarrow> MarketplaceItem list \<times> 'w sys" where
  "getUserMarketplaceItems env username s =
     (case supabase env of
        None \<Rightarrow> ([], s)
      | Some sb \<Rightarrow>
          (let q = order ''created_at'' False (eq ''seller_username'' (VStr username) (select ''*'')) in
           case request (Select ''marketplace_items'' q) (select_rows (from_marketplace_items sb) q) s of
             (out, s1) \<Rightarrow> (rows_or_empty out, s1)))"

definition getBlogPosts :: "'w env \<Rightarrow> bool \<Rightarrow> 'w sys \<Rightarrow> BlogPost list \<times> 'w sys" where
  "getBlogPosts env publishedOnly s =
     (case supabase env of
        None \<Rightarrow> ([], s)
      | Some sb \<Rightarrow>
          (let query0 = order ''created_at'' False (select ''*'');
               q = (if publishedOnly then eq ''is_published'' (VBool True) query0 else query0) in
           case request (Select ''blog_posts'' q) (select_rows (from_blog_posts sb) q) s of
             (out, s1) \<Rightarrow> (rows_or_empty out, s1)))"

definition getUserBlogPosts :: "'w env \<Rightarrow> string \<Rightarrow> 'w sys \<Rightarrow> BlogPost list \<times> 'w sys" where
  "getUserBlogPosts env username s =
     (case supabase env of
        None \<Rightarrow> ([], s)
      | Some sb \<Rightarrow>
          (let q = order ''created_at'' False (eq ''author_username'' (VStr username) (select ''*'')) in
           case request (Select ''blog_posts'' q) (select_rows (from_blog_posts sb) q) s of
             (out, s1) \<Rightarrow> (rows_or_empty out, s1)))"

definition blog_row :: "Profile \<Rightarrow> string \<Rightarrow> string \<Rightarrow> bool \<Rightarrow> jsobj" where
  "blog_row profile title content isPublished =
     [(''author_username'', VStr (profile_username profile)),
      (''title'', VStr (trim title)),
      (''content'', VStr (trim content)),
      (''is_published'', VBool isPublished)]"

definition createBlogPost ::
  "'w env \<Rightarrow> string \<Rightarrow> string \<Rightarrow> bool \<Rightarrow> 'w sys \<Rightarrow> (exn + BlogPost option) \<times> 'w sys" where
  "createBlogPost env title content isPublished s =
     (case supabase env of
        None \<Rightarrow> (Inr None, s)
      | Some sb \<Rightarrow>
          (case getCurrentUserProfile env s of
             (None, s1) \<Rightarrow> (Inl (Error ''User not authenticated''), s1)
           | (Some profile, s1) \<Rightarrow>
               (let rows = [blog_row profile title content isPublished] in
                case request (Insert ''blog_posts'' rows) (insert_single (from_blog_posts sb) rows) s1 of
                  (out, s2) \<Rightarrow> (created_or_throw out, s2))))"

definition updateBlogPost :: "'w env \<Rightarrow> string \<Rightarrow> jsobj \<Rightarrow> 'w sys \<Rightarrow> bool \<times> 'w sys" where
  "updateBlogPost env postId updates s =
     (case supabase env of
        None \<Rightarrow> (False, s)
      | Some sb \<Rightarrow>
          (case runtime (date_toISOString env) s of
             (now, s0) \<Rightarrow>
               (let payload = spread_set updates ''updated_at'' (VStr now);
                    q = eq ''id'' (VStr postId) builder in
                case request (Update ''blog_posts'' payload q) (update_rows (from_blog_posts sb) payload q) s0 of
                  (Throws err, s1) \<Rightarrow> (False, s1)
                | (Returns r, s1) \<Rightarrow> (resp_error r = None, s1))))"

definition deleteBlogPost :: "'w env \<Rightarrow> string \<Rightarrow> 'w sys \<Rightarrow> bool \<times> 'w sys" where
  "deleteBlogPost env postId s =
     (case supabase env of
        None \<Rightarrow> (False, s)
      | Some sb \<Rightarrow>
          (let q = eq ''id'' (VStr postId) builder in
           case request (Delete ''blog_posts'' q) (delete_rows (from_blog_posts sb) q) s of
             (Throws err, s1) \<Rightarrow> (False, s1)
           | (Returns r, s1) \<Rightarrow> (resp_error r = None, s1)))"

text \<open>
  \<open>getBlogPost\<close> suspends twice. \<open>getBlogPost_fetch\<close> is the code up to the point where
  the first \<open>await\<close> has resolved and \<open>error\<close> has been tested; \<open>getBlogPost_increment\<close>
  is the rest: the update of \<open>view_count\<close>, whose result is discarded, and the
  \<open>return\<close>. An exception thrown at either point lands in the one \<open>catch\<close>, which
  returns \<open>null\<close>.
\<close>

datatype fetched = Failed | Fetched "BlogPost option"

definition getBlogPost_fetch :: "'w client \<Rightarrow> string \<Rightarrow> 'w sys \<Rightarrow> fetched \<times> 'w sys" where
  "getBlogPost_fetch sb postId s =
     (let q = eq ''id'' (VStr postId) (select ''*'') in
      case request (SelectSingle ''blog_posts'' q) (select_single (from_blog_posts sb) q) s of
        (Throws err, s1) \<Rightarrow> (Failed, s1)
      | (Returns r, s1) \<Rightarrow>
          (if resp_error r \<noteq> None then (Failed, s1) else (Fetched (resp_data r), s1)))"

definition getBlogPost_increment :: "'w client \<Rightarrow> string \<Rightarrow> fetched \<Rightarrow> 'w sys \<Rightarrow> BlogPost option \<times> 'w sys" where
  "getBlogPost_increment sb postId f s =
     (case f of
        Failed \<Rightarrow> (None, s)
      | Fetched None \<Rightarrow> (None, s)
      | Fetched (Some data) \<Rightarrow>
          (let payload = [(''view_count'', VNum (post_view_count data + 1))];
               q = eq ''id'' (VStr postId) builder in
           case request (Update ''blog_posts'' payload q) (update_rows (from_blog_posts sb) payload q) s of
             (Throws err, s1) \<Rightarrow> (None, s1)
           | (Returns r, s1) \<Rightarrow> (Some data, s1)))"

definition getBlogPost :: "'w env \<Rightarrow> string \<Rightarrow> 'w sys \<Rightarrow> BlogPost option \<times> 'w sys" where
  "getBlogPost env postId s =
     (case supabase env of
        None \<Rightarrow> (None, s)
      | Some sb \<Rightarrow>
          (case getBlogPost_fetch sb postId s of
             (f, s1) \<Rightarrow> getBlogPost_increment sb postId f s1))"

section \<open>The profile modal\<close>

text \<open>
  The component's props and the part of its state the handlers below read or write.
  \<open>alerts\<close> collects the texts passed to \<open>alert\<close>, \<open>usernameChanges\<close> the arguments
  the handlers pass to the prop \<open>onUsernameChange\<close>. \<open>userProfile\<close> is \<open>null\<close>, a row
  of the profiles table, or the mock record built for a guest.
\<close>

record props =
  prop_isOpen :: bool
  prop_username :: string
  prop_currentUser :: string

record guest_profile =
  guest_id :: "string option"
  guest_username :: string
  guest_role :: string
  guest_created_at :: string
  guest_updated_at :: string
  guest_contact_info :: "string option"
  guest_about_me :: "string option"
  guest_profile_picture_url :: "string option"
  guest_banner_url :: "string option"

datatype profile_view = FromDb Profile | Mock guest_profile

record modal =
  userPins :: "Pin list"
  loading :: bool
  newUsername :: string
  isEditingUsername :: bool
  isAuthenticated :: bool
  userProfile :: "profile_view option"
  isUploadingProfilePicture :: bool
  editAboutMe :: string
  editContactInfo :: string
  alerts :: "string list"
  usernameChanges :: "string list"

definition isOwnProfile :: "props \<Rightarrow> bool" where
  "isOwnProfile pr = (prop_username pr = prop_currentUser pr)"

definition isGuestUser :: "props \<Rightarrow> bool" where
  "isGuestUser pr = match_guest (prop_username pr)"

definition alert :: "string \<Rightarrow> modal \<Rightarrow> modal" where
  "alert msg m = m\<lparr>alerts := alerts m @ [msg]\<rparr>"

text \<open>\<open>x || ''\<close> on an optional string.\<close>

definition or_empty :: "string option \<Rightarrow> string" where
  "or_empty x = (case x of None \<Rightarrow> [] | Some v \<Rightarrow> v)"

text \<open>A \<open>null\<close> where a string is interpolated prints as \<open>null\<close>.\<close>

definition or_null :: "string option \<Rightarrow> string" where
  "or_null x = (case x of None \<Rightarrow> ''null'' | Some v \<Rightarrow> v)"

definition checkAuthStatus :: "'w env \<Rightarrow> modal \<times> 'w sys \<Rightarrow> modal \<times> 'w sys" where
  "checkAuthStatus env ms =
     (case ms of (m, s) \<Rightarrow>
        (case supabase env of
           None \<Rightarrow> (m, s)
         | Some sb \<Rightarrow>
             (case request AuthGetUser (auth_getUser sb) s of
                (Throws err, s1) \<Rightarrow> (m\<lparr>isAuthenticated := False\<rparr>, s1)
              | (Returns None, s1) \<Rightarrow> (m\<lparr>isAuthenticated := False\<rparr>, s1)
              | (Returns (Some user), s1) \<Rightarrow>
                  (case getCurrentUserProfile env s1 of
                     (profile, s2) \<Rightarrow>
                       (m\<lparr>isAuthenticated := True, userProfile := map_option FromDb profile\<rparr>, s2)))))"

definition mockProfile :: "string \<Rightarrow> string \<Rightarrow> string \<Rightarrow> guest_profile" where
  "mockProfile u created updated =
     \<lparr>guest_id = None, guest_username = u, guest_role = ''guest'',
      guest_created_at = created, guest_updated_at = updated,
      guest_contact_info = None, guest_about_me = None,
      guest_profile_picture_url = None, guest_banner_url = None\<rparr>"

definition fetchProfileData :: "'w env \<Rightarrow> props \<Rightarrow> modal \<times> 'w sys \<Rightarrow> modal \<times> 'w sys" where
  "fetchProfileData env pr ms =
     (case ms of (m, s) \<Rightarrow>
        (let m0 = m\<lparr>loading := True\<rparr> in
         case getUserPins env (prop_username pr) s of
           (Inl err, s1) \<Rightarrow> (m0\<lparr>loading := False\<rparr>, s1)
         | (Inr pins, s1) \<Rightarrow>
             (let m1 = m0\<lparr>userPins := pins\<rparr> in
              if \<not> isGuestUser pr then
                (case (if isOwnProfile pr then getCurrentUserProfile env s1
                       else getProfileByUsername env (prop_username pr) s1) of
                   (profile, s2) \<Rightarrow>
                     (let m2 = m1\<lparr>userProfile := map_option FromDb profile\<rparr>;
                          m3 = (case profile of
                                  None \<Rightarrow> m2
                                | Some p \<Rightarrow> m2\<lparr>editAboutMe := or_empty (profile_about_me p),
                                               editContactInfo := or_empty (profile_contact_info p)\<rparr>)
                      in (m3\<lparr>loading := False\<rparr>, s2)))
              else
                (case runtime (date_toISOString env) s1 of
                   (created, s2) \<Rightarrow>
                     (case runtime (date_toISOString env) s2 of
                        (updated, s3) \<Rightarrow>
                          (m1\<lparr>userProfile := Some (Mock (mockProfile (prop_username pr) created updated)),
                              loading := False\<rparr>, s3))))))"

text \<open>
  The effect that runs when the modal opens calls \<open>fetchProfileData()\<close> and
  \<open>checkAuthStatus()\<close> and awaits neither. Each runs to its first \<open>await\<close> at once, so
  the query on the pins and the first \<open>auth.getUser()\<close> are issued, in that order, before
  any reply. From then on the two are tasks: a task waits for the reply to the one request
  it has in flight, and when the reply is delivered it runs on to its next \<open>await\<close>,
  where it issues its next request, or to its end. A request is logged when it is issued,
  answered by the backend at some later moment, and its reply delivered at that moment or
  later.
\<close>

text \<open>Issuing a request logs it; the backend's answer changes the world, not the log.\<close>

definition issue :: "call \<Rightarrow> 'w sys \<Rightarrow> 'w sys" where
  "issue c s = s\<lparr>calls := calls s @ [c]\<rparr>"

definition respond :: "('w \<Rightarrow> 'a \<times> 'w) \<Rightarrow> 'w sys \<Rightarrow> 'a \<times> 'w sys" where
  "respond op s = (case op (world s) of (r, w') \<Rightarrow> (r, s\<lparr>world := w'\<rparr>))"

text \<open>The queries of \<open>getUserPins\<close>, \<open>getProfileByUsername\<close> and \<open>getCurrentUserProfile\<close>.\<close>

definition pins_query :: "string \<Rightarrow> query" where
  "pins_query u = order ''created_at'' False (eq ''username'' (VStr u) (select ''*''))"

definition profile_by_username_query :: "string \<Rightarrow> query" where
  "profile_by_username_query u = eq ''username'' (VStr u) (select ''*'')"

definition profile_by_id_query :: "string \<Rightarrow> query" where
  "profile_by_id_query i = eq ''id'' (VStr i) (select ''*'')"

text \<open>Where a task waits, with the reply once the backend has answered. \<open>fetchProfileData\<close>
  waits for the pins, then inside \<open>getCurrentUserProfile\<close> (own profile) for the user and
  for the profile row, or inside \<open>getProfileByUsername\<close> for the profile rows.
  \<open>checkAuthStatus\<close> waits for the user, then inside \<open>getCurrentUserProfile\<close> for the
  user again and for the profile row.\<close>

datatype fetch_task =
    AwaitPins "Pin list response outcome option"
  | AwaitOwnUser "auth_user option outcome option"
  | AwaitOwnProfile query "Profile response outcome option"
  | AwaitOtherProfile "Profile list response outcome option"
  | FetchDone

datatype auth_task =
    AwaitUser "auth_user option outcome option"
  | AwaitProfileUser "auth_user option outcome option"
  | AwaitProfileRow query "Profile response outcome option"
  | AuthDone

text \<open>What can happen next: the backend answers the request a task has in flight, or the
  reply is delivered to the task (a request not yet answered is answered at that moment).\<close>

datatype event = AnswerFetch | DeliverFetch | AnswerAuth | DeliverAuth

fun answer_fetch :: "'w client \<Rightarrow> props \<Rightarrow> fetch_task \<Rightarrow> 'w sys \<Rightarrow> fetch_task \<times> 'w sys" where
  "answer_fetch sb pr (AwaitPins None) s =
     (case respond (select_rows (from_pins sb) (pins_query (prop_username pr))) s of
        (out, s1) \<Rightarrow> (AwaitPins (Some out), s1))"
| "answer_fetch sb pr (AwaitOwnUser None) s =
     (case respond (auth_getUser sb) s of (out, s1) \<Rightarrow> (AwaitOwnUser (Some out), s1))"
| "answer_fetch sb pr (AwaitOwnProfile q None) s =
     (case respond (select_single (from_profiles sb) q) s of (out, s1) \<Rightarrow> (AwaitOwnProfile q (Some out), s1))"
| "answer_fetch sb pr (AwaitOtherProfile None) s =
     (case respond (select_rows (from_profiles sb) (profile_by_username_query (prop_username pr))) s of
        (out, s1) \<Rightarrow> (AwaitOtherProfile (Some out), s1))"
| "answer_fetch sb pr t s = (t, s)"

text \<open>What \<open>getCurrentUserProfile\<close> and \<open>getProfileByUsername\<close> return once their query
  has been answered.\<close>

definition current_profile_row :: "Profile response outcome \<Rightarrow> Profile option" where
  "current_profile_row out =
     (case out of
        Throws err \<Rightarrow> None
      | Returns r \<Rightarrow>
          (if resp_error r \<noteq> None then None
           else (case resp_data r of None \<Rightarrow> None | Some profile \<Rightarrow> Some profile)))"

definition first_profile :: "Profile list response outcome \<Rightarrow> Profile option" where
  "first_profile out =
     (case out of
        Throws err \<Rightarrow> None
      | Returns r \<Rightarrow>
          (if resp_error r \<noteq> None then None
           else (case resp_data r of Some (p # ps) \<Rightarrow> Some p | _ \<Rightarrow> None)))"

text \<open>The end of \<open>fetchProfileData\<close> for a user who is not a guest: the profile is set, the
  edit fields are initialised, and \<open>finally\<close> clears \<open>loading\<close>.\<close>

definition profile_fetched :: "Profile option \<Rightarrow> modal \<Rightarrow> modal" where
  "profile_fetched profile m =
     (let m2 = m\<lparr>userProfile := map_option FromDb profile\<rparr>;
          m3 = (case profile of
                  None \<Rightarrow> m2
                | Some p \<Rightarrow> m2\<lparr>editAboutMe := or_empty (profile_about_me p),
                               editContactInfo := or_empty (profile_contact_info p)\<rparr>)
      in m3\<lparr>loading := False\<rparr>)"

text \<open>\<open>fetchProfileData\<close> from the delivery of a reply to its next \<open>await\<close> or its end.\<close>

fun continue_fetch :: "'w env \<Rightarrow> props \<Rightarrow> fetch_task \<Rightarrow> modal \<Rightarrow> 'w sys \<Rightarrow> fetch_task \<times> modal \<times> 'w sys" where
  "continue_fetch env pr (AwaitPins (Some (Throws err))) m s = (FetchDone, m\<lparr>loading := False\<rparr>, s)"
| "continue_fetch env pr (AwaitPins (Some (Returns r))) m s =
     (let m1 = m\<lparr>userPins := (case resp_data r of None \<Rightarrow> [] | Some pins \<Rightarrow> pins)\<rparr> in
      if \<not> isGuestUser pr then
        (if isOwnProfile pr then (AwaitOwnUser None, m1, issue AuthGetUser s)
         else (AwaitOtherProfile None, m1,
               issue (Select ''profiles'' (profile_by_username_query (prop_username pr))) s))
      else
        (case runtime (date_toISOString env) s of
           (created, s2) \<Rightarrow>
             (case runtime (date_toISOString env) s2 of
                (updated, s3) \<Rightarrow>
                  (FetchDone,
                   m1\<lparr>userProfile := Some (Mock (mockProfile (prop_username pr) created updated)),
                      loading := False\<rparr>, s3))))"
| "continue_fetch env pr (AwaitOwnUser (Some (Returns (Some user)))) m s =
     (AwaitOwnProfile (profile_by_id_query (user_id user)) None, m,
      issue (SelectSingle ''profiles'' (profile_by_id_query (user_id user))) s)"
| "continue_fetch env pr (AwaitOwnUser (Some out)) m s = (FetchDone, profile_fetched None m, s)"
| "continue_fetch env pr (AwaitOwnProfile q (Some out)) m s =
     (FetchDone, profile_fetched (current_profile_row out) m, s)"
| "continue_fetch env pr (AwaitOtherProfile (Some out)) m s =
     (FetchDone, profile_fetched (first_profile out) m, s)"
| "continue_fetch env pr t m s = (t, m, s)"

fun answer_auth :: "'w client \<Rightarrow> auth_task \<Rightarrow> 'w sys \<Rightarrow> auth_task \<times> 'w sys" where
  "answer_auth sb (AwaitUser None) s =
     (case respond (auth_getUser sb) s of (out, s1) \<Rightarrow> (AwaitUser (Some out), s1))"
| "answer_auth sb (AwaitProfileUser None) s =
     (case respond (auth_getUser sb) s of (out, s1) \<Rightarrow> (AwaitProfileUser (Some out), s1))"
| "answer_auth sb (AwaitProfileRow q None) s =
     (case respond (select_single (from_profiles sb) q) s of (out, s1) \<Rightarrow> (AwaitProfileRow q (Some out), s1))"
| "answer_auth sb t s = (t, s)"

text \<open>\<open>checkAuthStatus\<close> from the delivery of a reply to its next \<open>await\<close> or its end.\<close>

fun continue_auth :: "auth_task \<Rightarrow> modal \<Rightarrow> 'w sys \<Rightarrow> auth_task \<times> modal \<times> 'w sys" where
  "continue_auth (AwaitUser (Some (Returns (Some user)))) m s =
     (AwaitProfileUser None, m\<lparr>isAuthenticated := True\<rparr>, issue AuthGetUser s)"
| "continue_auth (AwaitUser (Some out)) m s = (AuthDone, m\<lparr>isAuthenticated := False\<rparr>, s)"
| "continue_auth (AwaitProfileUser (Some (Returns (Some user)))) m s =
     (AwaitProfileRow (profile_by_id_query (user_id user)) None, m,
      issue (SelectSingle ''profiles'' (profile_by_id_query (user_id user))) s)"
| "continue_auth (AwaitProfileUser (Some out)) m s = (AuthDone, m\<lparr>userProfile := None\<rparr>, s)"
| "continue_auth (AwaitProfileRow q (Some out)) m s =
     (AuthDone, m\<lparr>userProfile := map_option FromDb (current_profile_row out)\<rparr>, s)"
| "continue_auth t m s = (t, m, s)"

record 'w effect =
  fetchTask :: fetch_task
  authTask :: auth_task
  ui :: modal
  system :: "'w sys"

definition step :: "'w env \<Rightarrow> 'w client \<Rightarrow> props \<Rightarrow> event \<Rightarrow> 'w effect \<Rightarrow> 'w effect" where
  "step env sb pr ev st =
     (case ev of
        AnswerFetch \<Rightarrow>
          (case answer_fetch sb pr (fetchTask st) (system st) of
             (t, s1) \<Rightarrow> st\<lparr>fetchTask := t, system := s1\<rparr>)
      | DeliverFetch \<Rightarrow>
          (case answer_fetch sb pr (fetchTask st) (system st) of
             (t, s1) \<Rightarrow>
               (case continue_fetch env pr t (ui st) s1 of
                  (t', m', s2) \<Rightarrow> st\<lparr>fetchTask := t', ui := m', system := s2\<rparr>))
      | AnswerAuth \<Rightarrow>
          (case answer_auth sb (authTask st) (system st) of
             (t, s1) \<Rightarrow> st\<lparr>authTask := t, system := s1\<rparr>)
      | DeliverAuth \<Rightarrow>
          (case answer_auth sb (authTask st) (system st) of
             (t, s1) \<Rightarrow>
               (case continue_auth t (ui st) s1 of
                  (t', m', s2) \<Rightarrow> st\<lparr>authTask := t', ui := m', system := s2\<rparr>)))"

text \<open>After the schedule, what is still in flight is delivered: each task has at most three
  replies to wait for.\<close>

definition completion :: "event list" where
  "completion = [DeliverFetch, DeliverFetch, DeliverFetch, DeliverAuth, DeliverAuth, DeliverAuth]"

text \<open>The effect under a schedule. Without a client \<open>checkAuthStatus\<close> returns at once and
  \<open>fetchProfileData\<close> has no reply to wait for.\<close>

definition openModal :: "'w env \<Rightarrow> props \<Rightarrow> event list \<Rightarrow> modal \<times> 'w sys \<Rightarrow> modal \<times> 'w sys" where
  "openModal env pr schedule ms =
     (case ms of (m, s) \<Rightarrow>
        if prop_isOpen pr \<and> prop_username pr \<noteq> [] then
          (case supabase env of
             None \<Rightarrow> fetchProfileData env pr (m, s)
           | Some sb \<Rightarrow>
               (let st0 = \<lparr>fetchTask = AwaitPins None, authTask = AwaitUser None,
                           ui = m\<lparr>loading := True\<rparr>,
                           system = issue AuthGetUser (issue (Select ''pins'' (pins_query (prop_username pr))) s)\<rparr>;
                    st = fold (step env sb pr) (schedule @ completion) st0
                in (ui st, system st)))
        else (m, s))"

definition handleUsernameSubmit :: "modal \<Rightarrow> modal" where
  "handleUsernameSubmit m =
     (if trim (newUsername m) \<noteq> [] \<and> length (newUsername m) = 7 \<and> test_digits (newUsername m)
      then m\<lparr>usernameChanges := usernameChanges m @ [newUsername m],
              isEditingUsername := False, newUsername := []\<rparr>
      else m)"

text \<open>\<open>userProfile.id\<close> where a \<open>string\<close> is expected: the mock's \<open>null\<close> prints as
  \<open>null\<close> in the object key and in the filter sent to the backend.\<close>

definition profile_view_id :: "profile_view \<Rightarrow> string" where
  "profile_view_id v = (case v of FromDb p \<Rightarrow> profile_id p | Mock g \<Rightarrow> or_null (guest_id g))"

text \<open>The \<open>catch\<close> and \<open>finally\<close> of \<open>handleProfilePictureChange\<close>: the
  failure alert, then the upload flag is cleared (the reset of the file input element,
  which is not part of the state, is left out).\<close>

definition pictureFailed :: "modal \<Rightarrow> modal" where
  "pictureFailed m =
     (alert ''Failed to update profile picture. Please try again.'' m)\<lparr>isUploadingProfilePicture := False\<rparr>"

definition handleProfilePictureChange ::
  "'w env \<Rightarrow> props \<Rightarrow> File option \<Rightarrow> modal \<times> 'w sys \<Rightarrow> modal \<times> 'w sys" where
  "handleProfilePictureChange env pr selected ms =
     (case ms of (m, s) \<Rightarrow>
        (case selected of
           None \<Rightarrow> (m, s)
         | Some file \<Rightarrow>
             (case userProfile m of
                None \<Rightarrow> (m, s)
              | Some up \<Rightarrow>
                  if \<not> isAuthenticated m \<or> isGuestUser pr then (m, s)
                  else if \<not> startsWith (file_type file) ''image/'' then
                    (alert ''Please select an image file'' m, s)
                  else if file_size file > 5 * 1024 * 1024 then
                    (alert ''Image size must be less than 5MB'' m, s)
                  else
                    (let m1 = m\<lparr>isUploadingProfilePicture := True\<rparr> in
                     case uploadImage env file (profile_view_id up) ''profile-pictures'' s of
                       (None, s1) \<Rightarrow> (pictureFailed m1, s1)
                     | (Some pth, s1) \<Rightarrow>
                         if pth = [] then (pictureFailed m1, s1)
                         else
                           (case getImageUrl env pth ''profile-pictures'' s1 of
                              (Inl err, s2) \<Rightarrow> (pictureFailed m1, s2)
                            | (Inr url, s2) \<Rightarrow>
                                (case updateUserProfile env (profile_view_id up)
                                        [(''profile_picture_url'', VStr url)] s2 of
                                   (False, s3) \<Rightarrow> (pictureFailed m1, s3)
                                 | (True, s3) \<Rightarrow>
                                     (case fetchProfileData env pr (m1, s3) of
                                        (m4, s4) \<Rightarrow>
                                          ((alert ''Profile picture updated successfully!'' m4)
                                             \<lparr>isUploadingProfilePicture := False\<rparr>, s4))))))))"

section \<open>An in-memory backend\<close>

text \<open>
  A concrete backend to run the code against: typed tables in memory, answering a query
  by its equality filters and its ordering, a single-row fetch with an error unless
  exactly one row matches, an update by writing the payload's columns into the matching
  rows. Inserts report an error. Objects of a bucket are kept by key. The clock and the
  random source are fields of the store.
\<close>

record store =
  store_session :: "auth_user option"
  store_profiles :: "Profile list"
  store_pins :: "Pin list"
  store_marketplace_items :: "MarketplaceItem list"
  store_blog_posts :: "BlogPost list"
  store_objects :: "(string \<times> string) list"
  store_iso :: string
  store_ms :: nat
  store_random :: string

definition opt_str :: "string option \<Rightarrow> jsval" where
  "opt_str x = (case x of None \<Rightarrow> VNull | Some v \<Rightarrow> VStr v)"

definition opt_num :: "number option \<Rightarrow> jsval" where
  "opt_num x = (case x of None \<Rightarrow> VNull | Some v \<Rightarrow> VNum v)"

definition role_str :: "role \<Rightarrow> string" where
  "role_str r = (case r of RoleUser \<Rightarrow> ''user'' | RoleAdmin \<Rightarrow> ''admin'')"

definition profile_col :: "Profile \<Rightarrow> string \<Rightarrow> jsval" where
  "profile_col r c =
     (if c = ''id'' then VStr (profile_id r)
      else if c = ''username'' then VStr (profile_username r)
      else if c = ''role'' then VStr (role_str (profile_role r))
      else if c = ''contact_info'' then opt_str (profile_contact_info r)
      else if c = ''about_me'' then opt_str (profile_about_me r)
      else if c = ''profile_picture_url'' then opt_str (profile_picture_url r)
      else if c = ''banner_url'' then opt_str (profile_banner_url r)
      else if c = ''created_at'' then VStr (profile_created_at r)
      else if c = ''updated_at'' then VStr (profile_updated_at r)
      else VNull)"

definition pin_col :: "Pin \<Rightarrow> string \<Rightarrow> jsval" where
  "pin_col r c =
     (if c = ''id'' then VStr (pin_id r)
      else if c = ''username'' then VStr (pin_username r)
      else if c = ''lat'' then VNum (pin_lat r)
      else if c = ''lng'' then VNum (pin_lng r)
      else if c = ''description'' then VStr (pin_description r)
      else if c = ''images'' then VArr (map VStr (pin_images r))
      else if c = ''pin_color'' then opt_str (pin_pin_color r)
      else if c = ''storage_paths'' then
        (case pin_storage_paths r of None \<Rightarrow> VNull | Some ps \<Rightarrow> VArr (map VStr ps))
      else if c = ''is_authenticated'' then
        (case pin_is_authenticated r of None \<Rightarrow> VNull | Some b \<Rightarrow> VBool b)
      else if c = ''created_at'' then VStr (pin_created_at r)
      else if c = ''likes_count'' then opt_num (pin_likes_count r)
      else if c = ''comments_count'' then opt_num (pin_comments_count r)
      else if c = ''continent'' then opt_str (pin_continent r)
      else if c = ''country'' then opt_str (pin_country r)
      else if c = ''state'' then opt_str (pin_state r)
      else if c = ''locality'' then opt_str (pin_locality r)
      else VNull)"

definition item_col :: "MarketplaceItem \<Rightarrow> string \<Rightarrow> jsval" where
  "item_col r c =
     (if c = ''id'' then VStr (item_id r)
      else if c = ''seller_username'' then VStr (item_seller_username r)
      else if c = ''title'' then VStr (item_title r)
      else if c = ''description'' then VStr (item_description r)
      else if c = ''price'' then VNum (item_price r)
      else if c = ''images'' then VArr (map VStr (item_images r))
      else if c = ''storage_paths'' then VArr (map VStr (item_storage_paths r))
      else if c = ''created_at'' then VStr (item_created_at r)
      else if c = ''updated_at'' then VStr (item_updated_at r)
      else if c = ''is_active'' then VBool (item_is_active r)
      else VNull)"

definition post_col :: "BlogPost \<Rightarrow> string \<Rightarrow> jsval" where
  "post_col r c =
     (if c = ''id'' then VStr (post_id r)
      else if c = ''author_username'' then VStr (post_author_username r)
      else if c = ''title'' then VStr (post_title r)
      else if c = ''content'' then VStr (post_content r)
      else if c = ''excerpt'' then opt_str (post_excerpt r)
      else if c = ''created_at'' then VStr (post_created_at r)
      else if c = ''updated_at'' then VStr (post_updated_at r)
      else if c = ''is_published'' then VBool (post_is_published r)
      else if c = ''view_count'' then VNum (post_view_count r)
      else VNull)"

text \<open>Writing one column of a payload into a row. The key column \<open>id\<close>, an unknown
  column and a value of the wrong type leave the row as it is.\<close>

definition profile_set :: "string \<times> jsval \<Rightarrow> Profile \<Rightarrow> Profile" where
  "profile_set kv r =
     (case kv of
        (c, VStr v) \<Rightarrow>
          (if c = ''username'' then r\<lparr>profile_username := v\<rparr>
           else if c = ''role'' then
             (if v = ''user'' then r\<lparr>profile_role := RoleUser\<rparr>
              else if v = ''admin'' then r\<lparr>profile_role := RoleAdmin\<rparr> else r)
           else if c = ''contact_info'' then r\<lparr>profile_contact_info := Some v\<rparr>
           else if c = ''about_me'' then r\<lparr>profile_about_me := Some v\<rparr>
           else if c = ''profile_picture_url'' then r\<lparr>profile_picture_url := Some v\<rparr>
           else if c = ''banner_url'' then r\<lparr>profile_banner_url := Some v\<rparr>
           else if c = ''created_at'' then r\<lparr>profile_created_at := v\<rparr>
           else if c = ''updated_at'' then r\<lparr>profile_updated_at := v\<rparr>
           else r)
      | (c, VNull) \<Rightarrow>
          (if c = ''contact_info'' then r\<lparr>profile_contact_info := None\<rparr>
           else if c = ''about_me'' then r\<lparr>profile_about_me := None\<rparr>
           else if c = ''profile_picture_url'' then r\<lparr>profile_picture_url := None\<rparr>
           else if c = ''banner_url'' then r\<lparr>profile_banner_url := None\<rparr>
           else r)
      | _ \<Rightarrow> r)"

definition item_set :: "string \<times> jsval \<Rightarrow> MarketplaceItem \<Rightarrow> MarketplaceItem" where
  "item_set kv r =
     (case kv of
        (c, VStr v) \<Rightarrow>
          (if c = ''seller_username'' then r\<lparr>item_seller_username := v\<rparr>
           else if c = ''title'' then r\<lparr>item_title := v\<rparr>
           else if c = ''description'' then r\<lparr>item_description := v\<rparr>
           else if c = ''created_at'' then r\<lparr>item_created_at := v\<rparr>
           else if c = ''updated_at'' then r\<lparr>item_updated_at := v\<rparr>
           else r)
      | (c, VNum n) \<Rightarrow> (if c = ''price'' then r\<lparr>item_price := n\<rparr> else r)
      | (c, VBool b) \<Rightarrow> (if c = ''is_active'' then r\<lparr>item_is_active := b\<rparr> else r)
      | _ \<Rightarrow> r)"

definition post_set :: "string \<times> jsval \<Rightarrow> BlogPost \<Rightarrow> BlogPost" where
  "post_set kv r =
     (case kv of
        (c, VStr v) \<Rightarrow>
          (if c = ''author_username'' then r\<lparr>post_author_username := v\<rparr>
           else if c = ''title'' then r\<lparr>post_title := v\<rparr>
           else if c = ''content'' then r\<lparr>post_content := v\<rparr>
           else if c = ''excerpt'' then r\<lparr>post_excerpt := Some v\<rparr>
           else if c = ''created_at'' then r\<lparr>post_created_at := v\<rparr>
           else if c = ''updated_at'' then r\<lparr>post_updated_at := v\<rparr>
           else r)
      | (c, VNull) \<Rightarrow> (if c = ''excerpt'' then r\<lparr>post_excerpt := None\<rparr> else r)
      | (c, VNum n) \<Rightarrow> (if c = ''view_count'' then r\<lparr>post_view_count := n\<rparr> else r)
      | (c, VBool b) \<Rightarrow> (if c = ''is_published'' then r\<lparr>post_is_published := b\<rparr> else r)
      | _ \<Rightarrow> r)"

text \<open>The order the store sorts a column by: numbers by value, strings code unit by code
  unit (the order of ISO-8601 UTC timestamps of one format is their order in time).\<close>

definition jskey :: "jsval \<Rightarrow> nat \<times> real \<times> string" where
  "jskey v =
     (case v of
        VNull \<Rightarrow> (0, 0, [])
      | VBool b \<Rightarrow> (1, of_bool b, [])
      | VNum n \<Rightarrow> (2, n, [])
      | VStr s \<Rightarrow> (3, 0, s)
      | VArr xs \<Rightarrow> (4, 0, []))"

definition matches :: "('r \<Rightarrow> string \<Rightarrow> jsval) \<Rightarrow> query \<Rightarrow> 'r \<Rightarrow> bool" where
  "matches col q r = list_all (\<lambda>(c, v). col r c = v) (filters q)"

fun ordered :: "('r \<Rightarrow> string \<Rightarrow> jsval) \<Rightarrow> (string \<times> bool) list \<Rightarrow> 'r list \<Rightarrow> 'r list" where
  "ordered col [] rows = rows"
| "ordered col ((c, ascending) # later) rows =
     (let sorted_rows = sort_key (\<lambda>r. jskey (col r c)) (ordered col later rows)
      in if ascending then sorted_rows else rev sorted_rows)"

definition run_select :: "('r \<Rightarrow> string \<Rightarrow> jsval) \<Rightarrow> query \<Rightarrow> 'r list \<Rightarrow> 'r list" where
  "run_select col q rows = ordered col (order_by q) (filter (matches col q) rows)"

definition run_update ::
  "('r \<Rightarrow> string \<Rightarrow> jsval) \<Rightarrow> (string \<times> jsval \<Rightarrow> 'r \<Rightarrow> 'r) \<Rightarrow> jsobj \<Rightarrow> query \<Rightarrow> 'r list \<Rightarrow> 'r list" where
  "run_update col set_col payload q rows =
     map (\<lambda>r. if matches col q r then fold set_col payload r else r) rows"

definition ok :: "'d option \<Rightarrow> 'd response outcome" where
  "ok d = Returns \<lparr>resp_data = d, resp_error = None\<rparr>"

definition failed :: "string \<Rightarrow> 'd response outcome" where
  "failed msg = Returns \<lparr>resp_data = None, resp_error = Some \<lparr>message = msg\<rparr>\<rparr>"

definition memory_table ::
  "('r \<Rightarrow> string \<Rightarrow> jsval) \<Rightarrow> (string \<times> jsval \<Rightarrow> 'r \<Rightarrow> 'r) \<Rightarrow> (store \<Rightarrow> 'r list)
     \<Rightarrow> ('r list \<Rightarrow> store \<Rightarrow> store) \<Rightarrow> ('r, store) table" where
  "memory_table col set_col get put =
     \<lparr>select_rows = (\<lambda>q w. (ok (Some (run_select col q (get w))), w)),
      select_single = (\<lambda>q w.
        (case run_select col q (get w) of
           [r] \<Rightarrow> (ok (Some r), w)
         | _ \<Rightarrow> (failed ''JSON object requested, multiple (or no) rows returned'', w))),
      insert_single = (\<lambda>rows w. (failed ''insert is not available'', w)),
      update_rows = (\<lambda>payload q w. (ok None, put (run_update col set_col payload q (get w)) w)),
      delete_rows = (\<lambda>q w. (ok None, put (filter (\<lambda>r. \<not> matches col q r) (get w)) w))\<rparr>"

definition memory_client :: "store client" where
  "memory_client =
     \<lparr>auth_getUser = (\<lambda>w. (Returns (store_session w), w)),
      from_profiles = memory_table profile_col profile_set store_profiles
                        (\<lambda>rows w. w\<lparr>store_profiles := rows\<rparr>),
      from_pins = memory_table pin_col (\<lambda>kv r. r) store_pins (\<lambda>rows w. w\<lparr>store_pins := rows\<rparr>),
      from_marketplace_items = memory_table item_col item_set store_marketplace_items
                                 (\<lambda>rows w. w\<lparr>store_marketplace_items := rows\<rparr>),
      from_blog_posts = memory_table post_col post_set store_blog_posts
                          (\<lambda>rows w. w\<lparr>store_blog_posts := rows\<rparr>),
      storage_upload = (\<lambda>bucket key file opts w.
        (if (bucket, key) \<in> set (store_objects w) \<and> \<not> upsert opts
         then (failed ''The resource already exists'', w)
         else (ok (Some \<lparr>path = key\<rparr>), w\<lparr>store_objects := store_objects w @ [(bucket, key)]\<rparr>))),
      storage_getPublicUrl = (\<lambda>bucket pth w.
        (Returns \<lparr>publicUrl = ''https://backend.example/storage/v1/object/public/'' @ bucket @ ''/'' @ pth\<rparr>, w)),
      storage_remove = (\<lambda>bucket pths w.
        (ok None, w\<lparr>store_objects := filter (\<lambda>(b, k). \<not> (b = bucket \<and> k \<in> set pths)) (store_objects w)\<rparr>))\<rparr>"

definition memory_env :: "store env" where
  "memory_env =
     \<lparr>supabase = Some memory_client,
      date_toISOString = (\<lambda>w. (store_iso w, w)),
      date_now = (\<lambda>w. (store_ms w, w)),
      random_toString36 = (\<lambda>w. (store_random w, w))\<rparr>"

text \<open>The same runtime with the connection parameters absent.\<close>

definition offline_env :: "store env" where
  "offline_env = memory_env\<lparr>supabase := None\<rparr>"

text \<open>
  Two executions of \<open>getBlogPost(postId)\<close> on one client, scheduled at their suspension
  points: both fetches resolve before either update is issued.
\<close>

definition getBlogPost_interleaved ::
  "'w client \<Rightarrow> string \<Rightarrow> 'w sys \<Rightarrow> (BlogPost option \<times> BlogPost option) \<times> 'w sys" where
  "getBlogPost_interleaved sb postId s =
     (case getBlogPost_fetch sb postId s of
        (fa, s1) \<Rightarrow>
          (case getBlogPost_fetch sb postId s1 of
             (fb, s2) \<Rightarrow>
               (case getBlogPost_increment sb postId fa s2 of
                  (ra, s3) \<Rightarrow>
                    (case getBlogPost_increment sb postId fb s3 of
                       (rb, s4) \<Rightarrow> ((ra, rb), s4)))))"

text \<open>The same two executions one after the other.\<close>

definition getBlogPost_twice ::
  "'w env \<Rightarrow> string \<Rightarrow> 'w sys \<Rightarrow> (BlogPost option \<times> BlogPost option) \<times> 'w sys" where
  "getBlogPost_twice env postId s =
     (case getBlogPost env postId s of
        (ra, s1) \<Rightarrow> (case getBlogPost env postId s1 of (rb, s2) \<Rightarrow> ((ra, rb), s2)))"

text \<open>The stored view counts of the posts with a given id.\<close>

definition stored_view_counts :: "store \<Rightarrow> string \<Rightarrow> number list" where
  "stored_view_counts w postId = map post_view_count (filter (\<lambda>p. post_id p = postId) (store_blog_posts w))"

section \<open>Vocabulary of the properties\<close>

text \<open>The payloads of the \<open>update\<close> calls in a log.\<close>

definition update_payloads :: "call list \<Rightarrow> jsobj list" where
  "update_payloads cs = concat (map (\<lambda>c. case c of Update t p q \<Rightarrow> [p] | _ \<Rightarrow> []) cs)"

text \<open>The row an awaited single-row operation succeeded with: it returned, reported no
  error, and \<open>data\<close> is a row.\<close>

definition row_of :: "'r response outcome \<Rightarrow> 'r option" where
  "row_of out = (case out of Throws err \<Rightarrow> None | Returns r \<Rightarrow> if resp_error r \<noteq> None then None else resp_data r)"

definition is_insert :: "call \<Rightarrow> bool" where
  "is_insert c = (case c of Insert t rows \<Rightarrow> True | _ \<Rightarrow> False)"

text \<open>The table a call addresses, if it addresses one.\<close>

definition call_table :: "call \<Rightarrow> string option" where
  "call_table c =
     (case c of
        Select t q \<Rightarrow> Some t
      | SelectSingle t q \<Rightarrow> Some t
      | Insert t rows \<Rightarrow> Some t
      | Update t p q \<Rightarrow> Some t
      | Delete t q \<Rightarrow> Some t
      | _ \<Rightarrow> None)"

text \<open>A property of the world that the operations an opening on a guest can invoke keep:
  the two selects, \<open>auth.getUser()\<close> and the clock.\<close>

definition guest_open_preserves :: "'w env \<Rightarrow> 'w client \<Rightarrow> ('w \<Rightarrow> bool) \<Rightarrow> bool" where
  "guest_open_preserves env sb P =
     (\<forall>w. P w \<longrightarrow>
        P (snd (auth_getUser sb w)) \<and> P (snd (date_toISOString env w))
        \<and> (\<forall>q. P (snd (select_rows (from_pins sb) q w)) \<and> P (snd (select_single (from_profiles sb) q w))))"

text \<open>On a guest username \<open>fetchProfileData\<close> waits for the pins or has ended.\<close>

definition guest_fetch :: "fetch_task \<Rightarrow> bool" where
  "guest_fetch t = (case t of AwaitPins r \<Rightarrow> True | FetchDone \<Rightarrow> True | _ \<Rightarrow> False)"

text \<open>Where \<open>checkAuthStatus\<close> can be, and the log it has then produced after \<open>L\<close>, when
  nobody is signed in and when \<open>user\<close> is.\<close>

definition no_user :: "auth_user option outcome \<Rightarrow> bool" where
  "no_user out = (case out of Returns (Some u) \<Rightarrow> False | _ \<Rightarrow> True)"

definition signed_out_auth :: "auth_task \<Rightarrow> bool" where
  "signed_out_auth t =
     (case t of
        AwaitUser None \<Rightarrow> True
      | AwaitUser (Some out) \<Rightarrow> no_user out
      | AuthDone \<Rightarrow> True
      | _ \<Rightarrow> False)"

definition signed_in_auth :: "auth_user \<Rightarrow> call list \<Rightarrow> auth_task \<Rightarrow> call list \<Rightarrow> bool" where
  "signed_in_auth user L t cs =
     (case t of
        AwaitUser r \<Rightarrow> (r = None \<or> r = Some (Returns (Some user))) \<and> cs = L
      | AwaitProfileUser r \<Rightarrow> (r = None \<or> r = Some (Returns (Some user))) \<and> cs = L @ [AuthGetUser]
      | AwaitProfileRow q r \<Rightarrow>
          q = profile_by_id_query (user_id user) \<and> cs = L @ [AuthGetUser, SelectSingle ''profiles'' q]
      | AuthDone \<Rightarrow> cs = L @ [AuthGetUser, SelectSingle ''profiles'' (profile_by_id_query (user_id user))])"

fun auth_rank :: "auth_task \<Rightarrow> nat" where
  "auth_rank (AwaitUser r) = 3"
| "auth_rank (AwaitProfileUser r) = 2"
| "auth_rank (AwaitProfileRow q r) = 1"
| "auth_rank AuthDone = 0"

section \<open>Concrete stores\<close>

definition w0 :: store where
  "w0 = \<lparr>store_session = None, store_profiles = [], store_pins = [], store_marketplace_items = [],
          store_blog_posts = [], store_objects = [], store_iso = ''2024-05-01T10:00:00.000Z'',
          store_ms = 1714557600000, store_random = ''0.k3j9x2a''\<rparr>"

definition post1 :: BlogPost where
  "post1 = \<lparr>post_id = ''p1'', post_author_username = ''alice'', post_title = ''Hello'',
     post_content = ''First post'', post_excerpt = None,
     post_created_at = ''2024-04-01T09:00:00.000Z'', post_updated_at = ''2024-04-01T09:00:00.000Z'',
     post_is_published = True, post_view_count = 5\<rparr>"

definition w_blog :: store where
  "w_blog = w0\<lparr>store_blog_posts := [post1]\<rparr>"

definition alice :: Profile where
  "alice = \<lparr>profile_id = ''u1'', profile_username = ''alice'', profile_role = RoleUser,
     profile_contact_info = None, profile_about_me = Some ''Hi'', profile_picture_url = None,
     profile_banner_url = None, profile_created_at = ''2024-01-01T00:00:00.000Z'',
     profile_updated_at = ''2024-01-01T00:00:00.000Z''\<rparr>"

definition w_alice :: store where
  "w_alice = w_blog\<lparr>store_session := Some \<lparr>user_id = ''u1''\<rparr>, store_profiles := [alice]\<rparr>"

definition mk_pin :: "string \<Rightarrow> string \<Rightarrow> string \<Rightarrow> Pin" where
  "mk_pin i u created =
     \<lparr>pin_id = i, pin_username = u, pin_lat = 0, pin_lng = 0, pin_description = [], pin_images = [],
      pin_pin_color = None, pin_storage_paths = None, pin_is_authenticated = None,
      pin_created_at = created, pin_likes_count = None, pin_comments_count = None,
      pin_continent = None, pin_country = None, pin_state = None, pin_locality = None\<rparr>"

definition w_pins :: store where
  "w_pins = w_alice\<lparr>store_pins := [mk_pin ''1'' ''alice'' ''2024-01-02'', mk_pin ''2'' ''bob'' ''2024-01-03'',
                                      mk_pin ''3'' ''alice'' ''2024-02-01'']\<rparr>"

definition m_init :: modal where
  "m_init = \<lparr>userPins = [], loading = False, newUsername = [], isEditingUsername = False,
             isAuthenticated = False, userProfile = None, isUploadingProfilePicture = False,
             editAboutMe = [], editContactInfo = [], alerts = [], usernameChanges = []\<rparr>"

definition photo :: File where
  "photo = \<lparr>file_name = ''me.photo.png'', file_type = ''image/png'', file_size = 204800\<rparr>"

definition guest_props :: props where
  "guest_props = \<lparr>prop_isOpen = True, prop_username = ''1234567'', prop_currentUser = ''alice''\<rparr>"

definition alice_props :: props where
  "alice_props = \<lparr>prop_isOpen = True, prop_username = ''alice'', prop_currentUser = ''alice''\<rparr>"

definition m_alice :: modal where
  "m_alice = m_init\<lparr>isAuthenticated := True, userProfile := Some (FromDb alice)\<rparr>"

definition big_photo :: File where
  "big_photo = \<lparr>file_name = ''poster.png'', file_type = ''image/png'', file_size = 6 * 1024 * 1024\<rparr>"

definition w_taken :: store where
  "w_taken = w_alice\<lparr>store_objects := [(''profile-pictures'', ''u1/1714557600000-k3j9x2a.png'')]\<rparr>"

text \<open>The in-memory client with a blog table whose \<open>update\<close> throws when awaited.\<close>

definition update_throws_client :: "store client" where
  "update_throws_client =
     memory_client\<lparr>from_blog_posts :=
       (from_blog_posts memory_client)\<lparr>update_rows := (\<lambda>payload q w. (Throws (Error ''Failed to fetch''), w))\<rparr>\<rparr>"

definition update_throws_env :: "store env" where
  "update_throws_env = memory_env\<lparr>supabase := Some update_throws_client\<rparr>"

section \<open>Properties\<close>

subsection \<open>The client is absent\<close>

lemma absent_parameters_no_client:
  "supabaseUrl = [] \<or> supabaseAnonKey = [] \<Longrightarrow> module_supabase supabaseUrl supabaseAnonKey createClient = None"
  by (auto simp: module_supabase_def)

text \<open>
  C1. When the client is \<open>null\<close>, every data-access and storage function returns its
  fallback: the empty list for the five list fetches, \<open>null\<close> for the single-record
  fetches, the two creations and the upload, \<open>false\<close> for the updates and deletions, the
  empty string for \<open>getImageUrl\<close>. None throws (the two creations and \<open>getUserPins\<close>
  and \<open>getImageUrl\<close>, which can throw, return on the right), and the system is returned as
  it was given: the log of backend calls has not grown.
\<close>

theorem null_facade_fallbacks:
  assumes "supabase env = None"
  shows "getUserPins env username s = (Inr [], s)
       \<and> getMarketplaceItems env s = ([], s)
       \<and> getUserMarketplaceItems env username s = ([], s)
       \<and> getBlogPosts env publishedOnly s = ([], s)
       \<and> getUserBlogPosts env username s = ([], s)
       \<and> getCurrentUserProfile env s = (None, s)
       \<and> getProfileByUsername env username s = (None, s)
       \<and> getBlogPost env postId s = (None, s)
       \<and> createMarketplaceItem env title description price images storagePaths s = (Inr None, s)
       \<and> createBlogPost env title content isPublished s = (Inr None, s)
       \<and> uploadImage env file userId bucketName s = (None, s)
       \<and> updateUserProfile env userId profileData s = (False, s)
       \<and> updateMarketplaceItem env itemId updates s = (False, s)
       \<and> deleteMarketplaceItem env itemId s = (False, s)
       \<and> updateBlogPost env postId updates s = (False, s)
       \<and> deleteBlogPost env postId s = (False, s)
       \<and> deleteImage env pth bucketName s = (False, s)
       \<and> getImageUrl env pth bucketName s = (Inr [], s)"
  using assms
  by (simp add: getUserPins_def getMarketplaceItems_def getUserMarketplaceItems_def
      getBlogPosts_def getUserBlogPosts_def getCurrentUserProfile_def getProfileByUsername_def
      getBlogPost_def createMarketplaceItem_def createBlogPost_def uploadImage_def
      updateUserProfile_def updateMarketplaceItem_def deleteMarketplaceItem_def
      updateBlogPost_def deleteBlogPost_def deleteImage_def getImageUrl_def)

theorem null_facade_fallbacks_witness:
  "supabase offline_env = None
   \<and> getUserPins offline_env ''alice'' \<lparr>world = w_blog, calls = []\<rparr> = (Inr [], \<lparr>world = w_blog, calls = []\<rparr>)
   \<and> getBlogPost offline_env ''p1'' \<lparr>world = w_blog, calls = []\<rparr> = (None, \<lparr>world = w_blog, calls = []\<rparr>)
   \<and> updateBlogPost offline_env ''p1'' [(''title'', VStr ''Hi'')] \<lparr>world = w_blog, calls = []\<rparr>
       = (False, \<lparr>world = w_blog, calls = []\<rparr>)
   \<and> getImageUrl offline_env ''a/b.png'' ''pin-images'' \<lparr>world = w_blog, calls = []\<rparr>
       = (Inr [], \<lparr>world = w_blog, calls = []\<rparr>)"
proof -
  have h: "supabase offline_env = None"
    by (simp add: offline_env_def)
  from null_facade_fallbacks [OF h, where s = "\<lparr>world = w_blog, calls = []\<rparr>" and username = "''alice''"
      and postId = "''p1''" and pth = "''a/b.png''" and bucketName = "''pin-images''"
      and updates = "[(''title'', VStr ''Hi'')]"]
  show ?thesis using h by simp
qed

subsection \<open>Backend calls of the single operations\<close>

lemma calls_request: "calls (snd (request c op s)) = calls s @ [c]"
  by (simp add: request_def split: prod.splits)

lemma calls_runtime: "calls (snd (runtime op s)) = calls s"
  by (simp add: runtime_def split: prod.splits)

lemma updateUserProfile_calls:
  "supabase env = Some sb \<Longrightarrow>
   calls (snd (updateUserProfile env userId profileData s)) =
     calls s @ [Update ''profiles'' (spread_set profileData ''updated_at'' (VStr (fst (date_toISOString env (world s)))))
                  (eq ''id'' (VStr userId) builder)]"
  by (auto simp: updateUserProfile_def runtime_def request_def Let_def split: prod.splits outcome.splits)

lemma updateMarketplaceItem_calls:
  "supabase env = Some sb \<Longrightarrow>
   calls (snd (updateMarketplaceItem env itemId updates s)) =
     calls s @ [Update ''marketplace_items'' (spread_set updates ''updated_at'' (VStr (fst (date_toISOString env (world s)))))
                  (eq ''id'' (VStr itemId) builder)]"
  by (auto simp: updateMarketplaceItem_def runtime_def request_def Let_def split: prod.splits outcome.splits)

lemma updateBlogPost_calls:
  "supabase env = Some sb \<Longrightarrow>
   calls (snd (updateBlogPost env postId updates s)) =
     calls s @ [Update ''blog_posts'' (spread_set updates ''updated_at'' (VStr (fst (date_toISOString env (world s)))))
                  (eq ''id'' (VStr postId) builder)]"
  by (auto simp: updateBlogPost_def runtime_def request_def Let_def split: prod.splits outcome.splits)

lemma spread_set_lookup: "map_of (spread_set obj k v) k' = (if k' = k then Some v else map_of obj k')"
  by (simp add: spread_set_def update_conv')

lemma spread_set_distinct: "distinct (map fst obj) \<Longrightarrow> distinct (map fst (spread_set obj k v))"
  by (simp add: spread_set_def distinct_update)

lemma spread_set_entry:
  assumes "distinct (map fst obj)" and "(k, x) \<in> set (spread_set obj k v)"
  shows "x = v"
proof -
  have "distinct (map fst (spread_set obj k v))" using assms(1) by (rule spread_set_distinct)
  then have "map_of (spread_set obj k v) k = Some x" using assms(2) by simp
  then show ?thesis by (simp add: spread_set_lookup)
qed

lemma getBlogPost_calls:
  assumes "supabase env = Some sb"
    and "select_single (from_blog_posts sb) (eq ''id'' (VStr postId) (select ''*'')) (world s) = (out, w1)"
  shows "calls (snd (getBlogPost env postId s)) =
           calls s @ SelectSingle ''blog_posts'' (eq ''id'' (VStr postId) (select ''*'')) #
             (case row_of out of
                None \<Rightarrow> []
              | Some post \<Rightarrow> [Update ''blog_posts'' [(''view_count'', VNum (post_view_count post + 1))]
                                (eq ''id'' (VStr postId) builder)])"
  using assms
  by (auto simp: getBlogPost_def getBlogPost_fetch_def getBlogPost_increment_def request_def Let_def row_of_def
       split: prod.splits outcome.splits option.splits fetched.splits)

lemma getBlogPost_result:
  assumes "supabase env = Some sb"
    and "select_single (from_blog_posts sb) (eq ''id'' (VStr postId) (select ''*'')) (world s) = (out, w1)"
  shows "fst (getBlogPost env postId s) =
           (case row_of out of
              None \<Rightarrow> None
            | Some post \<Rightarrow>
                (case fst (update_rows (from_blog_posts sb) [(''view_count'', VNum (post_view_count post + 1))]
                             (eq ''id'' (VStr postId) builder) w1) of
                   Throws err \<Rightarrow> None
                 | Returns r \<Rightarrow> Some post))"
  using assms
  by (auto simp: getBlogPost_def getBlogPost_fetch_def getBlogPost_increment_def request_def Let_def row_of_def
       split: prod.splits outcome.splits option.splits fetched.splits)

lemma getBlogPost_update_payloads:
  assumes "supabase env = Some sb"
  shows "\<forall>p \<in> set (update_payloads (drop (length (calls s)) (calls (snd (getBlogPost env postId s))))).
           map fst p = [''view_count'']"
proof -
  obtain out w1 where h: "select_single (from_blog_posts sb) (eq ''id'' (VStr postId) (select ''*'')) (world s) = (out, w1)"
    by (cases "select_single (from_blog_posts sb) (eq ''id'' (VStr postId) (select ''*'')) (world s)")
  show ?thesis
    by (cases "row_of out") (simp_all add: getBlogPost_calls [OF assms h] update_payloads_def)
qed

subsection \<open>The column \<open>updated_at\<close>\<close>

text \<open>
  C2, as the code has it. Each of the three update functions issues one \<open>update\<close>
  whose payload is the caller's fields with \<open>updated_at\<close> set to the clock read inside the
  function: for a caller's object (distinct keys) the payload has that value under
  \<open>updated_at\<close> and no other, whatever the caller supplied there, and every other key as the
  caller gave it. The update that \<open>getBlogPost\<close> issues is not of this kind: its payload
  has the single key \<open>view_count\<close>.
\<close>

theorem update_functions_rederive_updated_at:
  assumes "supabase env = Some sb" and "distinct (map fst updates)"
  shows "calls (snd (updateUserProfile env rowId updates s)) =
           calls s @ [Update ''profiles''
                        (spread_set updates ''updated_at'' (VStr (fst (date_toISOString env (world s)))))
                        (eq ''id'' (VStr rowId) builder)]
       \<and> calls (snd (updateMarketplaceItem env rowId updates s)) =
           calls s @ [Update ''marketplace_items''
                        (spread_set updates ''updated_at'' (VStr (fst (date_toISOString env (world s)))))
                        (eq ''id'' (VStr rowId) builder)]
       \<and> calls (snd (updateBlogPost env rowId updates s)) =
           calls s @ [Update ''blog_posts''
                        (spread_set updates ''updated_at'' (VStr (fst (date_toISOString env (world s)))))
                        (eq ''id'' (VStr rowId) builder)]
       \<and> map_of (spread_set updates ''updated_at'' (VStr now)) ''updated_at'' = Some (VStr now)
       \<and> (\<forall>x. (''updated_at'', x) \<in> set (spread_set updates ''updated_at'' (VStr now)) \<longrightarrow> x = VStr now)
       \<and> (\<forall>k. k \<noteq> ''updated_at'' \<longrightarrow>
              map_of (spread_set updates ''updated_at'' (VStr now)) k = map_of updates k)
       \<and> (\<forall>p \<in> set (update_payloads (drop (length (calls s)) (calls (snd (getBlogPost env rowId s))))).
              map fst p = [''view_count''])"
proof -
  have a: "\<forall>x. (''updated_at'', x) \<in> set (spread_set updates ''updated_at'' (VStr now)) \<longrightarrow> x = VStr now"
    using spread_set_entry [OF assms(2)] by blast
  show ?thesis
    using a getBlogPost_update_payloads [OF assms(1)]
    by (simp add: updateUserProfile_calls [OF assms(1)] updateMarketplaceItem_calls [OF assms(1)]
        updateBlogPost_calls [OF assms(1)] spread_set_lookup)
qed

theorem update_functions_rederive_updated_at_witness:
  "supabase memory_env = Some memory_client
   \<and> distinct (map fst [(''title'', VStr ''New''), (''updated_at'', VStr ''1999-01-01T00:00:00.000Z'')])
   \<and> calls (snd (updateBlogPost memory_env ''p1''
               [(''title'', VStr ''New''), (''updated_at'', VStr ''1999-01-01T00:00:00.000Z'')]
               \<lparr>world = w_blog, calls = []\<rparr>)) =
       [Update ''blog_posts'' [(''title'', VStr ''New''), (''updated_at'', VStr ''2024-05-01T10:00:00.000Z'')]
          \<lparr>columns = [], filters = [(''id'', VStr ''p1'')], order_by = []\<rparr>]"
proof -
  have h1: "supabase memory_env = Some memory_client"
    by (simp add: memory_env_def)
  have h2: "distinct (map fst [(''title'', VStr ''New''), (''updated_at'', VStr ''1999-01-01T00:00:00.000Z'')])"
    by simp
  from update_functions_rederive_updated_at [OF h1 h2, where s = "\<lparr>world = w_blog, calls = []\<rparr>" and rowId = "''p1''"]
  show ?thesis using h1
    by (simp add: spread_set_def memory_env_def w_blog_def w0_def eq_def builder_def)
qed

text \<open>
  C2 as stated fails on the write inside \<open>getBlogPost\<close>: reading post \<open>p1\<close> (5 views)
  issues an update whose payload carries no \<open>updated_at\<close>.
\<close>

theorem view_count_update_counterexample:
  "calls (snd (getBlogPost memory_env ''p1'' \<lparr>world = w_blog, calls = []\<rparr>)) =
     [SelectSingle ''blog_posts'' \<lparr>columns = ''*'', filters = [(''id'', VStr ''p1'')], order_by = []\<rparr>,
      Update ''blog_posts'' [(''view_count'', VNum 6)] \<lparr>columns = [], filters = [(''id'', VStr ''p1'')], order_by = []\<rparr>]
   \<and> map_of [(''view_count'', VNum 6)] ''updated_at'' = None"
  by (simp add: getBlogPost_def getBlogPost_fetch_def getBlogPost_increment_def request_def Let_def
      memory_env_def memory_client_def memory_table_def run_select_def run_update_def matches_def
      eq_def select_def builder_def ok_def failed_def w_blog_def w0_def post1_def post_col_def)

subsection \<open>Creation without a profile, creation that fails\<close>

lemma getCurrentUserProfile_no_insert:
  "filter is_insert (calls (snd (getCurrentUserProfile env s))) = filter is_insert (calls s)"
  by (auto simp: getCurrentUserProfile_def request_def Let_def is_insert_def
       split: prod.splits outcome.splits option.splits)

text \<open>
  C3. With the client present: when \<open>getCurrentUserProfile\<close> returns \<open>null\<close>,
  \<open>createMarketplaceItem\<close> and \<open>createBlogPost\<close> throw the error
  \<open>User not authenticated\<close>, and the log has gained no insert (only the calls of the
  profile lookup). When a profile is found, the one insert is issued, and its failure is
  thrown to the caller: a reported error as an error with the same message, a thrown
  exception as it is; nothing is mapped to a fallback value.
\<close>

theorem create_requires_profile:
  assumes "supabase env = Some sb"
  shows "(getCurrentUserProfile env s = (None, s1) \<longrightarrow>
            createMarketplaceItem env title description price images storagePaths s
              = (Inl (Error ''User not authenticated''), s1)
          \<and> createBlogPost env title content isPublished s = (Inl (Error ''User not authenticated''), s1)
          \<and> filter is_insert (calls s1) = filter is_insert (calls s))
       \<and> (getCurrentUserProfile env s = (Some profile, s1) \<longrightarrow>
            createMarketplaceItem env title description price images storagePaths s
              = (case insert_single (from_marketplace_items sb)
                        [marketplace_row profile title description price images storagePaths] (world s1) of
                   (out, w2) \<Rightarrow>
                     (case out of
                        Throws err \<Rightarrow> Inl err
                      | Returns r \<Rightarrow>
                          (case resp_error r of
                             Some e \<Rightarrow> Inl (Error (message e))
                           | None \<Rightarrow> Inr (resp_data r)),
                      \<lparr>world = w2, calls = calls s1 @ [Insert ''marketplace_items''
                          [marketplace_row profile title description price images storagePaths]]\<rparr>))
          \<and> createBlogPost env title content isPublished s
              = (case insert_single (from_blog_posts sb) [blog_row profile title content isPublished] (world s1) of
                   (out, w2) \<Rightarrow>
                     (case out of
                        Throws err \<Rightarrow> Inl err
                      | Returns r \<Rightarrow>
                          (case resp_error r of
                             Some e \<Rightarrow> Inl (Error (message e))
                           | None \<Rightarrow> Inr (resp_data r)),
                      \<lparr>world = w2, calls = calls s1 @ [Insert ''blog_posts''
                          [blog_row profile title content isPublished]]\<rparr>)))"
proof -
  have "getCurrentUserProfile env s = (None, s1) \<Longrightarrow> filter is_insert (calls s1) = filter is_insert (calls s)"
    using getCurrentUserProfile_no_insert [of env s] by simp
  then show ?thesis
    using assms
    by (auto simp: createMarketplaceItem_def createBlogPost_def created_or_throw_def request_def Let_def
        split: prod.splits)
qed

theorem create_requires_profile_witness:
  "supabase memory_env = Some memory_client
   \<and> getCurrentUserProfile memory_env \<lparr>world = w0, calls = []\<rparr> = (None, \<lparr>world = w0, calls = [AuthGetUser]\<rparr>)
   \<and> createMarketplaceItem memory_env ''Bike'' ''Red'' 50 [] [] \<lparr>world = w0, calls = []\<rparr>
       = (Inl (Error ''User not authenticated''), \<lparr>world = w0, calls = [AuthGetUser]\<rparr>)
   \<and> filter is_insert [AuthGetUser] = []
   \<and> getCurrentUserProfile memory_env \<lparr>world = w_alice, calls = []\<rparr>
       = (Some alice,
          \<lparr>world = w_alice,
           calls = [AuthGetUser,
                    SelectSingle ''profiles'' \<lparr>columns = ''*'', filters = [(''id'', VStr ''u1'')], order_by = []\<rparr>]\<rparr>)
   \<and> createBlogPost memory_env '' Title '' ''Body'' True \<lparr>world = w_alice, calls = []\<rparr>
       = (Inl (Error ''insert is not available''),
          \<lparr>world = w_alice,
           calls = [AuthGetUser,
                    SelectSingle ''profiles'' \<lparr>columns = ''*'', filters = [(''id'', VStr ''u1'')], order_by = []\<rparr>,
                    Insert ''blog_posts'' [[(''author_username'', VStr ''alice''), (''title'', VStr ''Title''),
                                            (''content'', VStr ''Body''), (''is_published'', VBool True)]]]\<rparr>)"
proof -
  have h1: "supabase memory_env = Some memory_client"
    by (simp add: memory_env_def)
  have h2: "getCurrentUserProfile memory_env \<lparr>world = w0, calls = []\<rparr> = (None, \<lparr>world = w0, calls = [AuthGetUser]\<rparr>)"
    by (simp add: getCurrentUserProfile_def memory_env_def memory_client_def request_def w0_def)
  have h3: "getCurrentUserProfile memory_env \<lparr>world = w_alice, calls = []\<rparr>
       = (Some alice,
          \<lparr>world = w_alice,
           calls = [AuthGetUser,
                    SelectSingle ''profiles'' \<lparr>columns = ''*'', filters = [(''id'', VStr ''u1'')], order_by = []\<rparr>]\<rparr>)"
    by (simp add: getCurrentUserProfile_def request_def Let_def
      memory_env_def memory_client_def memory_table_def run_select_def matches_def
      eq_def select_def builder_def ok_def failed_def w_alice_def w_blog_def w0_def alice_def profile_col_def)
  have a: "createMarketplaceItem memory_env ''Bike'' ''Red'' 50 [] [] \<lparr>world = w0, calls = []\<rparr>
       = (Inl (Error ''User not authenticated''), \<lparr>world = w0, calls = [AuthGetUser]\<rparr>)"
    using create_requires_profile [OF h1, where s = "\<lparr>world = w0, calls = []\<rparr>"
      and ?s1.0 = "\<lparr>world = w0, calls = [AuthGetUser]\<rparr>" and title = "''Bike''" and description = "''Red''"
      and price = 50 and images = "[]" and storagePaths = "[]"] h2
    by simp
  have b: "createBlogPost memory_env '' Title '' ''Body'' True \<lparr>world = w_alice, calls = []\<rparr>
       = (Inl (Error ''insert is not available''),
          \<lparr>world = w_alice,
           calls = [AuthGetUser,
                    SelectSingle ''profiles'' \<lparr>columns = ''*'', filters = [(''id'', VStr ''u1'')], order_by = []\<rparr>,
                    Insert ''blog_posts'' [[(''author_username'', VStr ''alice''), (''title'', VStr ''Title''),
                                            (''content'', VStr ''Body''), (''is_published'', VBool True)]]]\<rparr>)"
    using create_requires_profile [OF h1, where s = "\<lparr>world = w_alice, calls = []\<rparr>"
      and profile = alice and title = "'' Title ''" and content = "''Body''" and isPublished = True
      and ?s1.0 = "\<lparr>world = w_alice,
           calls = [AuthGetUser,
                    SelectSingle ''profiles'' \<lparr>columns = ''*'', filters = [(''id'', VStr ''u1'')], order_by = []\<rparr>]\<rparr>"] h3
    by (simp add: memory_env_def memory_client_def memory_table_def failed_def blog_row_def trim_def
        js_whitespace_def alice_def)
  show ?thesis
    using h1 h2 h3 a b by (simp add: is_insert_def)
qed

subsection \<open>The list endpoints\<close>

lemma list_calls:
  assumes "supabase env = Some sb"
  shows "calls (snd (getUserPins env u s)) =
           calls s @ [Select ''pins'' \<lparr>columns = ''*'', filters = [(''username'', VStr u)],
                                        order_by = [(''created_at'', False)]\<rparr>]"
    and "calls (snd (getMarketplaceItems env s)) =
           calls s @ [Select ''marketplace_items'' \<lparr>columns = ''*'', filters = [(''is_active'', VBool True)],
                                                     order_by = [(''created_at'', False)]\<rparr>]"
    and "calls (snd (getUserMarketplaceItems env u s)) =
           calls s @ [Select ''marketplace_items'' \<lparr>columns = ''*'', filters = [(''seller_username'', VStr u)],
                                                     order_by = [(''created_at'', False)]\<rparr>]"
    and "calls (snd (getBlogPosts env publishedOnly s)) =
           calls s @ [Select ''blog_posts''
                        \<lparr>columns = ''*'',
                         filters = (if publishedOnly then [(''is_published'', VBool True)] else []),
                         order_by = [(''created_at'', False)]\<rparr>]"
    and "calls (snd (getUserBlogPosts env u s)) =
           calls s @ [Select ''blog_posts'' \<lparr>columns = ''*'', filters = [(''author_username'', VStr u)],
                                              order_by = [(''created_at'', False)]\<rparr>]"
  using assms
  by (auto simp: getUserPins_def getMarketplaceItems_def getUserMarketplaceItems_def getBlogPosts_def
      getUserBlogPosts_def request_def Let_def eq_def order_def select_def builder_def
      split: prod.splits outcome.splits option.splits)

lemma matches_username:
  "matches pin_col (order ''created_at'' False (eq ''username'' (VStr u) (select ''*''))) = (\<lambda>p. pin_username p = u)"
  by (rule ext) (simp add: matches_def order_def eq_def select_def builder_def pin_col_def)

lemma getUserPins_memory:
  "fst (getUserPins memory_env u s) =
     Inr (rev (sort_key (\<lambda>p. jskey (VStr (pin_created_at p))) (filter (\<lambda>p. pin_username p = u) (store_pins (world s)))))"
proof -
  have "run_select pin_col (order ''created_at'' False (eq ''username'' (VStr u) (select ''*''))) rows
          = rev (sort_key (\<lambda>p. jskey (VStr (pin_created_at p))) (filter (\<lambda>p. pin_username p = u) rows))" for rows
    by (simp add: run_select_def matches_username)
       (simp add: order_def eq_def select_def builder_def pin_col_def)
  then show ?thesis
    by (simp add: getUserPins_def memory_env_def memory_client_def memory_table_def request_def ok_def Let_def)
qed

lemma jskey_str_le: "jskey (VStr a) \<le> jskey (VStr b) \<longleftrightarrow> a \<le> b"
  by (simp add: jskey_def)

lemma newest_first:
  "sorted_wrt (\<lambda>a b. pin_created_at b \<le> pin_created_at a)
     (rev (sort_key (\<lambda>p. jskey (VStr (pin_created_at p))) rows))"
proof -
  have "sorted (map (\<lambda>p. jskey (VStr (pin_created_at p))) (sort_key (\<lambda>p. jskey (VStr (pin_created_at p))) rows))"
    by (rule sorted_sort_key)
  then have "sorted_wrt (\<lambda>a b. pin_created_at a \<le> pin_created_at b)
               (sort_key (\<lambda>p. jskey (VStr (pin_created_at p))) rows)"
    by (simp add: sorted_map jskey_str_le)
  then show ?thesis
    by (simp add: sorted_wrt_rev)
qed

text \<open>
  C4, as the code has it. With the client present each list endpoint issues exactly one
  call, a \<open>select('*')\<close> ordered by \<open>created_at\<close> descending. \<open>getUserPins\<close>,
  \<open>getMarketplaceItems\<close>, \<open>getUserMarketplaceItems\<close> and \<open>getUserBlogPosts\<close> filter by
  equality on one column; \<open>getBlogPosts\<close> filters on \<open>is_published\<close> when
  \<open>publishedOnly\<close> holds and does not filter otherwise. Against a backend that answers
  the query as written (the in-memory one), \<open>getUserPins(u)\<close> returns exactly the stored
  pins of \<open>u\<close>, newest first.
\<close>

theorem list_endpoints_one_ordered_query:
  assumes "supabase env = Some sb"
  shows "calls (snd (getUserPins env u s)) =
           calls s @ [Select ''pins'' \<lparr>columns = ''*'', filters = [(''username'', VStr u)],
                                        order_by = [(''created_at'', False)]\<rparr>]
       \<and> calls (snd (getMarketplaceItems env s)) =
           calls s @ [Select ''marketplace_items'' \<lparr>columns = ''*'', filters = [(''is_active'', VBool True)],
                                                     order_by = [(''created_at'', False)]\<rparr>]
       \<and> calls (snd (getUserMarketplaceItems env u s)) =
           calls s @ [Select ''marketplace_items'' \<lparr>columns = ''*'', filters = [(''seller_username'', VStr u)],
                                                     order_by = [(''created_at'', False)]\<rparr>]
       \<and> calls (snd (getBlogPosts env publishedOnly s)) =
           calls s @ [Select ''blog_posts''
                        \<lparr>columns = ''*'',
                         filters = (if publishedOnly then [(''is_published'', VBool True)] else []),
                         order_by = [(''created_at'', False)]\<rparr>]
       \<and> calls (snd (getUserBlogPosts env u s)) =
           calls s @ [Select ''blog_posts'' \<lparr>columns = ''*'', filters = [(''author_username'', VStr u)],
                                              order_by = [(''created_at'', False)]\<rparr>]
       \<and> (\<exists>pins. fst (getUserPins memory_env u t) = Inr pins
              \<and> set pins = {p \<in> set (store_pins (world t)). pin_username p = u}
              \<and> sorted_wrt (\<lambda>a b. pin_created_at b \<le> pin_created_at a) pins)"
  by (simp add: list_calls [OF assms] getUserPins_memory newest_first)

theorem list_endpoints_one_ordered_query_witness:
  "supabase memory_env = Some memory_client
   \<and> getUserPins memory_env ''alice'' \<lparr>world = w_pins, calls = []\<rparr> =
       (Inr [mk_pin ''3'' ''alice'' ''2024-02-01'', mk_pin ''1'' ''alice'' ''2024-01-02''],
        \<lparr>world = w_pins,
         calls = [Select ''pins'' \<lparr>columns = ''*'', filters = [(''username'', VStr ''alice'')],
                                   order_by = [(''created_at'', False)]\<rparr>]\<rparr>)"
proof -
  have h: "supabase memory_env = Some memory_client"
    by (simp add: memory_env_def)
  have "fst (getUserPins memory_env ''alice'' \<lparr>world = w_pins, calls = []\<rparr>) =
          Inr [mk_pin ''3'' ''alice'' ''2024-02-01'', mk_pin ''1'' ''alice'' ''2024-01-02'']"
    by (simp add: getUserPins_memory w_pins_def mk_pin_def jskey_def)
  moreover have "world (snd (getUserPins memory_env ''alice'' \<lparr>world = w_pins, calls = []\<rparr>)) = w_pins"
    by (simp add: getUserPins_def memory_env_def memory_client_def memory_table_def request_def ok_def Let_def)
  moreover note list_endpoints_one_ordered_query [OF h, where s = "\<lparr>world = w_pins, calls = []\<rparr>" and u = "''alice''"]
  ultimately show ?thesis using h
    by (cases "getUserPins memory_env ''alice'' \<lparr>world = w_pins, calls = []\<rparr>")
       (simp add: sys.equality)
qed

text \<open>
  C4 as stated fails on \<open>getBlogPosts(false)\<close>: its one query has no filter at all.
\<close>

theorem unfiltered_list_counterexample:
  "calls (snd (getBlogPosts memory_env False \<lparr>world = w_blog, calls = []\<rparr>)) =
     [Select ''blog_posts'' \<lparr>columns = ''*'', filters = [], order_by = [(''created_at'', False)]\<rparr>]"
  by (simp add: getBlogPosts_def memory_env_def memory_client_def memory_table_def request_def Let_def
      order_def select_def builder_def)

subsection \<open>Reading a blog post\<close>

text \<open>
  C5, as the code has it. With the client present, \<open>getBlogPost(postId)\<close> first issues
  the single-row fetch of the post. Exactly when that fetch returns a row without an
  error, it then issues one update, on the same id, of \<open>view_count\<close> to the fetched
  value plus 1. When the awaited update returns, with or without an error, the record
  returned is the fetched one, carrying the count as fetched; when it throws, the
  \<open>catch\<close> returns \<open>null\<close>. When the fetch fails (it throws, reports an error, or
  has no row) no update is issued and \<open>null\<close> is returned.
\<close>

theorem getBlogPost_fetch_then_increment:
  assumes "supabase env = Some sb"
    and "select_single (from_blog_posts sb) (eq ''id'' (VStr postId) (select ''*'')) (world s) = (out, w1)"
  shows "calls (snd (getBlogPost env postId s)) =
           calls s @ SelectSingle ''blog_posts'' (eq ''id'' (VStr postId) (select ''*'')) #
             (case row_of out of
                None \<Rightarrow> []
              | Some post \<Rightarrow> [Update ''blog_posts'' [(''view_count'', VNum (post_view_count post + 1))]
                                (eq ''id'' (VStr postId) builder)])
       \<and> fst (getBlogPost env postId s) =
           (case row_of out of
              None \<Rightarrow> None
            | Some post \<Rightarrow>
                (case fst (update_rows (from_blog_posts sb) [(''view_count'', VNum (post_view_count post + 1))]
                             (eq ''id'' (VStr postId) builder) w1) of
                   Throws err \<Rightarrow> None
                 | Returns r \<Rightarrow> Some post))"
  using getBlogPost_calls [OF assms] getBlogPost_result [OF assms] by simp

theorem getBlogPost_fetch_then_increment_witness:
  "supabase memory_env = Some memory_client
   \<and> select_single (from_blog_posts memory_client) (eq ''id'' (VStr ''p1'') (select ''*'')) w_blog
       = (Returns \<lparr>resp_data = Some post1, resp_error = None\<rparr>, w_blog)
   \<and> calls (snd (getBlogPost memory_env ''p1'' \<lparr>world = w_blog, calls = []\<rparr>)) =
       [SelectSingle ''blog_posts'' \<lparr>columns = ''*'', filters = [(''id'', VStr ''p1'')], order_by = []\<rparr>,
        Update ''blog_posts'' [(''view_count'', VNum 6)] \<lparr>columns = [], filters = [(''id'', VStr ''p1'')], order_by = []\<rparr>]
   \<and> fst (getBlogPost memory_env ''p1'' \<lparr>world = w_blog, calls = []\<rparr>) = Some post1
   \<and> post_view_count post1 = 5
   \<and> select_single (from_blog_posts memory_client) (eq ''id'' (VStr ''p2'') (select ''*'')) w_blog
       = (Returns \<lparr>resp_data = None,
                   resp_error = Some \<lparr>message = ''JSON object requested, multiple (or no) rows returned''\<rparr>\<rparr>, w_blog)
   \<and> getBlogPost memory_env ''p2'' \<lparr>world = w_blog, calls = []\<rparr> =
       (None, \<lparr>world = w_blog,
               calls = [SelectSingle ''blog_posts'' \<lparr>columns = ''*'', filters = [(''id'', VStr ''p2'')], order_by = []\<rparr>]\<rparr>)"
proof -
  have h1: "supabase memory_env = Some memory_client"
    by (simp add: memory_env_def)
  have h2: "select_single (from_blog_posts memory_client) (eq ''id'' (VStr ''p1'') (select ''*'')) w_blog
       = (Returns \<lparr>resp_data = Some post1, resp_error = None\<rparr>, w_blog)"
    by (simp add: memory_client_def memory_table_def run_select_def matches_def
      eq_def select_def builder_def ok_def w_blog_def w0_def post1_def post_col_def)
  have h3: "select_single (from_blog_posts memory_client) (eq ''id'' (VStr ''p2'') (select ''*'')) w_blog
       = (Returns \<lparr>resp_data = None,
                   resp_error = Some \<lparr>message = ''JSON object requested, multiple (or no) rows returned''\<rparr>\<rparr>, w_blog)"
    by (simp add: memory_client_def memory_table_def run_select_def matches_def
      eq_def select_def builder_def failed_def w_blog_def w0_def post1_def post_col_def)
  have a: "calls (snd (getBlogPost memory_env ''p1'' \<lparr>world = w_blog, calls = []\<rparr>)) =
       [SelectSingle ''blog_posts'' \<lparr>columns = ''*'', filters = [(''id'', VStr ''p1'')], order_by = []\<rparr>,
        Update ''blog_posts'' [(''view_count'', VNum 6)] \<lparr>columns = [], filters = [(''id'', VStr ''p1'')], order_by = []\<rparr>]
   \<and> fst (getBlogPost memory_env ''p1'' \<lparr>world = w_blog, calls = []\<rparr>) = Some post1"
    using getBlogPost_fetch_then_increment [OF h1, where s = "\<lparr>world = w_blog, calls = []\<rparr>" and postId = "''p1''"] h2
    by (simp add: row_of_def memory_client_def memory_table_def ok_def eq_def select_def builder_def post1_def)
  have b: "calls (snd (getBlogPost memory_env ''p2'' \<lparr>world = w_blog, calls = []\<rparr>)) =
       [SelectSingle ''blog_posts'' \<lparr>columns = ''*'', filters = [(''id'', VStr ''p2'')], order_by = []\<rparr>]
   \<and> fst (getBlogPost memory_env ''p2'' \<lparr>world = w_blog, calls = []\<rparr>) = None"
    using getBlogPost_fetch_then_increment [OF h1, where s = "\<lparr>world = w_blog, calls = []\<rparr>" and postId = "''p2''"] h3
    by (simp add: row_of_def eq_def select_def builder_def)
  have c: "world (snd (getBlogPost memory_env ''p2'' \<lparr>world = w_blog, calls = []\<rparr>)) = w_blog"
    using h3 by (simp add: getBlogPost_def getBlogPost_fetch_def getBlogPost_increment_def request_def
        memory_env_def Let_def)
  have d: "getBlogPost memory_env ''p2'' \<lparr>world = w_blog, calls = []\<rparr> =
       (None, \<lparr>world = w_blog,
               calls = [SelectSingle ''blog_posts'' \<lparr>columns = ''*'', filters = [(''id'', VStr ''p2'')], order_by = []\<rparr>]\<rparr>)"
    using b c by (cases "getBlogPost memory_env ''p2'' \<lparr>world = w_blog, calls = []\<rparr>") (simp add: sys.equality)
  show ?thesis using h1 h2 h3 a d by (simp add: post1_def)
qed

text \<open>
  C5 as stated fails where the update throws: the fetch of post \<open>p1\<close> succeeds with a
  row, the update is issued and throws, and the caller gets \<open>null\<close>, not the record.
\<close>

theorem update_throws_counterexample:
  "select_single (from_blog_posts update_throws_client) (eq ''id'' (VStr ''p1'') (select ''*'')) w_blog
     = (Returns \<lparr>resp_data = Some post1, resp_error = None\<rparr>, w_blog)
   \<and> getBlogPost update_throws_env ''p1'' \<lparr>world = w_blog, calls = []\<rparr> =
       (None,
        \<lparr>world = w_blog,
         calls = [SelectSingle ''blog_posts'' \<lparr>columns = ''*'', filters = [(''id'', VStr ''p1'')], order_by = []\<rparr>,
                  Update ''blog_posts'' [(''view_count'', VNum 6)]
                    \<lparr>columns = [], filters = [(''id'', VStr ''p1'')], order_by = []\<rparr>]\<rparr>)"
  by (simp add: getBlogPost_def getBlogPost_fetch_def getBlogPost_increment_def request_def Let_def
      update_throws_env_def update_throws_client_def
      memory_env_def memory_client_def memory_table_def run_select_def matches_def
      eq_def select_def builder_def ok_def failed_def w_blog_def w0_def post1_def post_col_def)

subsection \<open>The object key of an upload\<close>

lemma split_dot_nonempty: "split_dot n \<noteq> []"
  by (induction n) (simp_all split: list.split)

lemma length_split_dot: "length (split_dot n) = Suc (length (filter (\<lambda>c. c = CHR ''.'') n))"
  by (induction n) (auto split: list.split)

lemma split_dot_no_dot: "CHR ''.'' \<notin> set n \<Longrightarrow> split_dot n = [n]"
  by (induction n) auto

lemma takeWhile_snoc_dot:
  "takeWhile (\<lambda>c. c \<noteq> CHR ''.'') (xs @ [CHR ''.'']) = takeWhile (\<lambda>c. c \<noteq> CHR ''.'') xs"
  by (induction xs) simp_all

lemma takeWhile_snoc_other:
  "CHR ''.'' \<in> set xs \<Longrightarrow> takeWhile (\<lambda>c. c \<noteq> CHR ''.'') (xs @ [c]) = takeWhile (\<lambda>c. c \<noteq> CHR ''.'') xs"
  by (induction xs) auto

lemma last_split_dot: "last (split_dot n) = rev (takeWhile (\<lambda>c. c \<noteq> CHR ''.'') (rev n))"
proof (induction n)
  case Nil
  show ?case by simp
next
  case (Cons c cs)
  show ?case
  proof (cases "c = CHR ''.''")
    case True
    have "last (split_dot (c # cs)) = last (split_dot cs)"
      using True split_dot_nonempty [of cs] by simp
    then show ?thesis
      using True Cons.IH by (simp add: takeWhile_snoc_dot)
  next
    case False
    show ?thesis
    proof (cases "CHR ''.'' \<in> set cs")
      case True
      then have "filter (\<lambda>c. c = CHR ''.'') cs \<noteq> []"
        by (simp add: filter_empty_conv)
      then have "2 \<le> length (split_dot cs)"
        by (cases "filter (\<lambda>c. c = CHR ''.'') cs") (simp_all add: length_split_dot)
      then obtain p q ps where "split_dot cs = p # q # ps"
        by (cases "split_dot cs"; cases "tl (split_dot cs)") auto
      then have "last (split_dot (c # cs)) = last (split_dot cs)"
        using False by simp
      then show ?thesis
        using True Cons.IH by (simp add: takeWhile_snoc_other)
    next
      case no_dot: False
      have A: "split_dot (c # cs) = [c # cs]"
        using False no_dot by (simp add: split_dot_no_dot)
      have "\<forall>x \<in> set (rev (c # cs)). x \<noteq> CHR ''.''"
        using False no_dot by auto
      then have B: "takeWhile (\<lambda>c. c \<noteq> CHR ''.'') (rev (c # cs)) = rev (c # cs)"
        by (rule takeWhile_eq_all_conv [THEN iffD2])
      show ?thesis
        unfolding A B by simp
    qed
  qed
qed

lemma fileExt_after_last_dot:
  assumes "CHR ''.'' \<in> set (file_name file)"
  shows "\<exists>stem. file_name file = stem @ ''.'' @ fileExt file"
    and "CHR ''.'' \<notin> set (fileExt file)"
proof -
  let ?n = "file_name file"
  let ?P = "\<lambda>c. c \<noteq> CHR ''.''"
  have e: "fileExt file = rev (takeWhile ?P (rev ?n))"
    by (simp add: fileExt_def last_split_dot)
  have "dropWhile ?P (rev ?n) \<noteq> []"
    using assms by (simp add: dropWhile_eq_Nil_conv)
  then obtain d ds where d: "dropWhile ?P (rev ?n) = d # ds"
    by (cases "dropWhile ?P (rev ?n)") auto
  then have "d = CHR ''.''"
    using hd_dropWhile [of ?P "rev ?n"] by auto
  have "rev ?n = takeWhile ?P (rev ?n) @ dropWhile ?P (rev ?n)"
    by simp
  then have "rev (rev ?n) = rev (takeWhile ?P (rev ?n) @ dropWhile ?P (rev ?n))"
    by (rule arg_cong)
  then have "?n = rev (dropWhile ?P (rev ?n)) @ rev (takeWhile ?P (rev ?n))"
    by (simp only: rev_rev_ident rev_append)
  then have "?n = rev ds @ ''.'' @ fileExt file"
    using d \<open>d = CHR ''.''\<close> e by simp
  then show "\<exists>stem. file_name file = stem @ ''.'' @ fileExt file" by blast
  show "CHR ''.'' \<notin> set (fileExt file)"
    unfolding e using set_takeWhileD [of "CHR ''.''" ?P "rev ?n"] by auto
qed

lemma fileExt_no_dot: "CHR ''.'' \<notin> set (file_name file) \<Longrightarrow> fileExt file = file_name file"
  by (simp add: fileExt_def split_dot_no_dot)


lemma uploadImage_calls:
  assumes "supabase env = Some sb"
    and "date_now env (world s) = (now, w1)" and "random_toString36 env w1 = (rnd, w2)"
  shows "calls (snd (uploadImage env file userId bucketName s)) =
           calls s @ [StorageUpload bucketName
                        (userId @ ''/'' @ dec now @ ''-'' @ drop 2 rnd @ ''.'' @ fileExt file) file
                        \<lparr>cacheControl = ''3600'', upsert = False\<rparr>]"
  using assms
  by (auto simp: uploadImage_def runtime_def request_def Let_def
       split: prod.splits outcome.splits option.splits)

lemma uploadImage_result:
  assumes "supabase env = Some sb"
    and "date_now env (world s) = (now, w1)" and "random_toString36 env w1 = (rnd, w2)"
    and "storage_upload sb bucketName (userId @ ''/'' @ dec now @ ''-'' @ drop 2 rnd @ ''.'' @ fileExt file) file
           \<lparr>cacheControl = ''3600'', upsert = False\<rparr> w2 = (out, w3)"
  shows "fst (uploadImage env file userId bucketName s) = map_option path (row_of out)"
  using assms
  by (auto simp: uploadImage_def runtime_def request_def Let_def row_of_def
       split: prod.splits outcome.splits option.splits)

text \<open>
  C8. With the client present, \<open>uploadImage\<close> issues one upload, with
  \<open>upsert: false\<close>, under the key made of the owner id, \<open>/\<close>, the clock's
  milliseconds in decimal, \<open>-\<close>, the random number's base-36 text without its first two
  characters, \<open>.\<close>, and the extension of the file name. The extension is the part of
  the name after its last dot (the whole name when it has no dot). When the upload
  returns data without an error, the result is the path the storage reports; otherwise
  it is \<open>null\<close>.
\<close>

theorem uploadImage_object_key:
  assumes "supabase env = Some sb"
    and "date_now env (world s) = (now, w1)" and "random_toString36 env w1 = (rnd, w2)"
    and "storage_upload sb bucketName (userId @ ''/'' @ dec now @ ''-'' @ drop 2 rnd @ ''.'' @ fileExt file) file
           \<lparr>cacheControl = ''3600'', upsert = False\<rparr> w2 = (out, w3)"
  shows "calls (snd (uploadImage env file userId bucketName s)) =
           calls s @ [StorageUpload bucketName
                        (userId @ ''/'' @ dec now @ ''-'' @ drop 2 rnd @ ''.'' @ fileExt file) file
                        \<lparr>cacheControl = ''3600'', upsert = False\<rparr>]
       \<and> fst (uploadImage env file userId bucketName s) = map_option path (row_of out)
       \<and> (CHR ''.'' \<in> set (file_name file) \<longrightarrow>
            (\<exists>stem. file_name file = stem @ ''.'' @ fileExt file) \<and> CHR ''.'' \<notin> set (fileExt file))
       \<and> (CHR ''.'' \<notin> set (file_name file) \<longrightarrow> fileExt file = file_name file)"
  using uploadImage_calls [OF assms(1-3)] uploadImage_result [OF assms] fileExt_after_last_dot [of "file"]
    fileExt_no_dot [of "file"]
  by simp

theorem uploadImage_object_key_witness:
  "supabase memory_env = Some memory_client
   \<and> date_now memory_env w_alice = (1714557600000, w_alice)
   \<and> random_toString36 memory_env w_alice = (''0.k3j9x2a'', w_alice)
   \<and> storage_upload memory_client ''profile-pictures'' ''u1/1714557600000-k3j9x2a.png'' photo
        \<lparr>cacheControl = ''3600'', upsert = False\<rparr> w_alice
       = (Returns \<lparr>resp_data = Some \<lparr>path = ''u1/1714557600000-k3j9x2a.png''\<rparr>, resp_error = None\<rparr>,
          w_alice\<lparr>store_objects := [(''profile-pictures'', ''u1/1714557600000-k3j9x2a.png'')]\<rparr>)
   \<and> calls (snd (uploadImage memory_env photo ''u1'' ''profile-pictures'' \<lparr>world = w_alice, calls = []\<rparr>)) =
       [StorageUpload ''profile-pictures'' ''u1/1714557600000-k3j9x2a.png'' photo
          \<lparr>cacheControl = ''3600'', upsert = False\<rparr>]
   \<and> fst (uploadImage memory_env photo ''u1'' ''profile-pictures'' \<lparr>world = w_alice, calls = []\<rparr>)
       = Some ''u1/1714557600000-k3j9x2a.png''
   \<and> fileExt photo = ''png''"
proof -
  have h1: "supabase memory_env = Some memory_client"
    by (simp add: memory_env_def)
  have h2: "date_now memory_env w_alice = (1714557600000, w_alice)"
    by (simp add: memory_env_def w_alice_def w_blog_def w0_def)
  have h3: "random_toString36 memory_env w_alice = (''0.k3j9x2a'', w_alice)"
    by (simp add: memory_env_def w_alice_def w_blog_def w0_def)
  have ext: "fileExt photo = ''png''"
    by (simp add: fileExt_def photo_def)
  have d: "dec 1714557600000 = ''1714557600000''"
    by (simp add: dec.simps digit_char_def)
  have key: "''u1'' @ ''/'' @ dec 1714557600000 @ ''-'' @ drop 2 ''0.k3j9x2a'' @ ''.'' @ fileExt photo
               = ''u1/1714557600000-k3j9x2a.png''"
    by (simp add: ext d)
  have h4: "storage_upload memory_client ''profile-pictures'' ''u1/1714557600000-k3j9x2a.png'' photo
        \<lparr>cacheControl = ''3600'', upsert = False\<rparr> w_alice
       = (Returns \<lparr>resp_data = Some \<lparr>path = ''u1/1714557600000-k3j9x2a.png''\<rparr>, resp_error = None\<rparr>,
          w_alice\<lparr>store_objects := [(''profile-pictures'', ''u1/1714557600000-k3j9x2a.png'')]\<rparr>)"
    by (simp add: memory_client_def ok_def w_alice_def w_blog_def w0_def)
  have h4': "storage_upload memory_client ''profile-pictures''
        (''u1'' @ ''/'' @ dec 1714557600000 @ ''-'' @ drop 2 ''0.k3j9x2a'' @ ''.'' @ fileExt photo) photo
        \<lparr>cacheControl = ''3600'', upsert = False\<rparr> w_alice
       = (Returns \<lparr>resp_data = Some \<lparr>path = ''u1/1714557600000-k3j9x2a.png''\<rparr>, resp_error = None\<rparr>,
          w_alice\<lparr>store_objects := [(''profile-pictures'', ''u1/1714557600000-k3j9x2a.png'')]\<rparr>)"
    unfolding key by (rule h4)
  have s: "world \<lparr>world = w_alice, calls = []\<rparr> = w_alice"
    by simp
  from uploadImage_object_key [where s = "\<lparr>world = w_alice, calls = []\<rparr>", unfolded s, OF h1 h2 h3 h4']
  show ?thesis
    using h1 h2 h3 h4 ext unfolding key by (simp add: row_of_def)
qed

subsection \<open>Changing the username\<close>

lemma digit_not_whitespace: "is_digit c \<Longrightarrow> \<not> js_whitespace c"
  by (auto simp: is_digit_def js_whitespace_def)

lemma trim_digits: "list_all is_digit u \<Longrightarrow> trim u = u"
proof -
  assume a: "list_all is_digit u"
  have "dropWhile js_whitespace u = u"
    using a by (cases u) (simp_all add: digit_not_whitespace)
  moreover have "dropWhile js_whitespace (rev u) = rev u"
    using a by (cases "rev u" rule: list.exhaust) (auto simp: digit_not_whitespace list_all_iff dest: arg_cong [where f = set])
  ultimately show ?thesis
    by (simp add: trim_def)
qed

lemma submit_condition:
  "(trim u \<noteq> [] \<and> length u = 7 \<and> test_digits u) = match_guest u"
proof (cases "match_guest u")
  case True
  then have "list_all is_digit u" and "length u = 7"
    by (simp_all add: match_guest_def)
  then have "trim u = u" and "u \<noteq> []"
    by (auto simp: trim_digits)
  then show ?thesis
    using True by (simp add: match_guest_def test_digits_def)
next
  case False
  then show ?thesis
    by (auto simp: match_guest_def test_digits_def)
qed

text \<open>
  C10. \<open>handleUsernameSubmit\<close> passes the typed string to \<open>onUsernameChange\<close> exactly
  when its trimmed form is non-empty, its length is 7 and it consists of digits only; that
  condition is the guest pattern \<open>/^\d{7}$/\<close>, so the handler passes nothing else, and
  the strings passed so far all match the pattern if they did before.
\<close>

theorem handleUsernameSubmit_guest_pattern:
  "usernameChanges (handleUsernameSubmit m) =
     usernameChanges m @
       (if trim (newUsername m) \<noteq> [] \<and> length (newUsername m) = 7 \<and> list_all is_digit (newUsername m)
        then [newUsername m] else [])
   \<and> ((trim (newUsername m) \<noteq> [] \<and> length (newUsername m) = 7 \<and> list_all is_digit (newUsername m))
        = match_guest (newUsername m))
   \<and> (list_all match_guest (usernameChanges m) \<longrightarrow> list_all match_guest (usernameChanges (handleUsernameSubmit m)))"
  using submit_condition [of "newUsername m"]
  by (auto simp: handleUsernameSubmit_def test_digits_def match_guest_def)

theorem handleUsernameSubmit_guest_pattern_witness:
  "list_all match_guest (usernameChanges (m_init\<lparr>newUsername := ''1234567''\<rparr>))
   \<and> usernameChanges (handleUsernameSubmit (m_init\<lparr>newUsername := ''1234567''\<rparr>)) = [''1234567'']
   \<and> usernameChanges (handleUsernameSubmit (m_init\<lparr>newUsername := ''12345678''\<rparr>)) = []
   \<and> usernameChanges (handleUsernameSubmit (m_init\<lparr>newUsername := ''12a4567''\<rparr>)) = []
   \<and> usernameChanges (handleUsernameSubmit (m_init\<lparr>newUsername := '' 123456''\<rparr>)) = []"
  using handleUsernameSubmit_guest_pattern [of "m_init\<lparr>newUsername := ''1234567''\<rparr>"]
    handleUsernameSubmit_guest_pattern [of "m_init\<lparr>newUsername := ''12345678''\<rparr>"]
    handleUsernameSubmit_guest_pattern [of "m_init\<lparr>newUsername := ''12a4567''\<rparr>"]
    handleUsernameSubmit_guest_pattern [of "m_init\<lparr>newUsername := '' 123456''\<rparr>"]
  by (simp add: m_init_def match_guest_def is_digit_def)

subsection \<open>Two readers of one post\<close>

lemma matches_post_id_select: "matches post_col (eq ''id'' (VStr i) (select ''*'')) = (\<lambda>p. post_id p = i)"
  by (rule ext) (simp add: matches_def eq_def select_def builder_def post_col_def)

lemma matches_post_id_builder: "matches post_col (eq ''id'' (VStr i) builder) = (\<lambda>p. post_id p = i)"
  by (rule ext) (simp add: matches_def eq_def builder_def post_col_def)

lemma run_select_post_id:
  "run_select post_col (eq ''id'' (VStr i) (select ''*'')) rows = filter (\<lambda>p. post_id p = i) rows"
  by (simp add: run_select_def matches_post_id_select) (simp add: eq_def select_def builder_def)

lemma run_update_view_count:
  "run_update post_col post_set [(''view_count'', VNum n)] (eq ''id'' (VStr i) builder) rows =
     map (\<lambda>r. if post_id r = i then r\<lparr>post_view_count := n\<rparr> else r) rows"
  by (simp add: run_update_def matches_post_id_builder post_set_def)

lemma filter_bump:
  "filter (\<lambda>p. post_id p = i) (map (\<lambda>r. if post_id r = i then r\<lparr>post_view_count := n\<rparr> else r) rows) =
     map (\<lambda>r. r\<lparr>post_view_count := n\<rparr>) (filter (\<lambda>p. post_id p = i) rows)"
  by (induction rows) simp_all

lemma fetch_memory:
  assumes "filter (\<lambda>p. post_id p = i) (store_blog_posts (world s)) = [post]"
  shows "getBlogPost_fetch memory_client i s =
           (Fetched (Some post),
            \<lparr>world = world s, calls = calls s @ [SelectSingle ''blog_posts'' (eq ''id'' (VStr i) (select ''*''))]\<rparr>)"
  using assms
  by (simp add: getBlogPost_fetch_def request_def memory_client_def memory_table_def run_select_post_id
      ok_def Let_def)

lemma increment_memory:
  "getBlogPost_increment memory_client i (Fetched (Some post)) s =
     (Some post,
      \<lparr>world = (world s)\<lparr>store_blog_posts :=
                 map (\<lambda>r. if post_id r = i then r\<lparr>post_view_count := post_view_count post + 1\<rparr> else r)
                   (store_blog_posts (world s))\<rparr>,
       calls = calls s @ [Update ''blog_posts'' [(''view_count'', VNum (post_view_count post + 1))]
                            (eq ''id'' (VStr i) builder)]\<rparr>)"
  by (simp add: getBlogPost_increment_def request_def memory_client_def memory_table_def run_update_view_count
      ok_def Let_def)

lemma getBlogPost_memory:
  assumes "filter (\<lambda>p. post_id p = i) (store_blog_posts (world s)) = [post]"
  shows "getBlogPost memory_env i s =
     (Some post,
      \<lparr>world = (world s)\<lparr>store_blog_posts :=
                 map (\<lambda>r. if post_id r = i then r\<lparr>post_view_count := post_view_count post + 1\<rparr> else r)
                   (store_blog_posts (world s))\<rparr>,
       calls = calls s @ [SelectSingle ''blog_posts'' (eq ''id'' (VStr i) (select ''*'')),
                          Update ''blog_posts'' [(''view_count'', VNum (post_view_count post + 1))]
                            (eq ''id'' (VStr i) builder)]\<rparr>)"
  by (simp add: getBlogPost_def memory_env_def fetch_memory [OF assms] increment_memory)

text \<open>
  C9. \<open>getBlogPost\<close> suspends between its fetch and its update, so two executions on
  the same post can be scheduled fetch, fetch, update, update. On the in-memory backend,
  for every store holding exactly one post with the given id: both executions then read
  the same stored \<open>view_count\<close>, both write that value plus 1, both return the post as
  fetched, and the stored count has grown by 1; run one after the other, the same two
  executions make it grow by 2. Nothing in the code orders the two.
\<close>

theorem view_count_lost_update:
  assumes "filter (\<lambda>p. post_id p = postId) (store_blog_posts w) = [post]"
  shows "fst (getBlogPost_interleaved memory_client postId \<lparr>world = w, calls = []\<rparr>) = (Some post, Some post)
       \<and> stored_view_counts (world (snd (getBlogPost_interleaved memory_client postId \<lparr>world = w, calls = []\<rparr>))) postId
           = [post_view_count post + 1]
       \<and> calls (snd (getBlogPost_interleaved memory_client postId \<lparr>world = w, calls = []\<rparr>)) =
           [SelectSingle ''blog_posts'' (eq ''id'' (VStr postId) (select ''*'')),
            SelectSingle ''blog_posts'' (eq ''id'' (VStr postId) (select ''*'')),
            Update ''blog_posts'' [(''view_count'', VNum (post_view_count post + 1))] (eq ''id'' (VStr postId) builder),
            Update ''blog_posts'' [(''view_count'', VNum (post_view_count post + 1))] (eq ''id'' (VStr postId) builder)]
       \<and> fst (getBlogPost_twice memory_env postId \<lparr>world = w, calls = []\<rparr>)
           = (Some post, Some (post\<lparr>post_view_count := post_view_count post + 1\<rparr>))
       \<and> stored_view_counts (world (snd (getBlogPost_twice memory_env postId \<lparr>world = w, calls = []\<rparr>))) postId
           = [post_view_count post + 2]"
proof -
  have a: "filter (\<lambda>p. post_id p = postId) (store_blog_posts (world \<lparr>world = w, calls = cs\<rparr>)) = [post]" for cs
    using assms by simp
  have inter: "getBlogPost_interleaved memory_client postId \<lparr>world = w, calls = []\<rparr> =
      ((Some post, Some post),
       \<lparr>world = w\<lparr>store_blog_posts :=
                 map (\<lambda>r. if post_id r = postId then r\<lparr>post_view_count := post_view_count post + 1\<rparr> else r)
                   (map (\<lambda>r. if post_id r = postId then r\<lparr>post_view_count := post_view_count post + 1\<rparr> else r)
                   (store_blog_posts w))\<rparr>,
        calls = [SelectSingle ''blog_posts'' (eq ''id'' (VStr postId) (select ''*'')),
            SelectSingle ''blog_posts'' (eq ''id'' (VStr postId) (select ''*'')),
            Update ''blog_posts'' [(''view_count'', VNum (post_view_count post + 1))] (eq ''id'' (VStr postId) builder),
            Update ''blog_posts'' [(''view_count'', VNum (post_view_count post + 1))] (eq ''id'' (VStr postId) builder)]\<rparr>)"
    by (simp add: getBlogPost_interleaved_def fetch_memory [OF a] increment_memory)
  have b: "filter (\<lambda>p. post_id p = postId)
             (store_blog_posts (world \<lparr>world = w\<lparr>store_blog_posts :=
                 map (\<lambda>r. if post_id r = postId then r\<lparr>post_view_count := post_view_count post + 1\<rparr> else r)
                   (store_blog_posts w)\<rparr>, calls = cs\<rparr>)) = [post\<lparr>post_view_count := post_view_count post + 1\<rparr>]" for cs
    using assms by (simp add: filter_bump)
  have twice: "getBlogPost_twice memory_env postId \<lparr>world = w, calls = []\<rparr> =
      ((Some post, Some (post\<lparr>post_view_count := post_view_count post + 1\<rparr>)),
       \<lparr>world = w\<lparr>store_blog_posts :=
                 map (\<lambda>r. if post_id r = postId then r\<lparr>post_view_count := post_view_count post + 1 + 1\<rparr> else r)
                   (map (\<lambda>r. if post_id r = postId then r\<lparr>post_view_count := post_view_count post + 1\<rparr> else r)
                   (store_blog_posts w))\<rparr>,
        calls = [SelectSingle ''blog_posts'' (eq ''id'' (VStr postId) (select ''*'')),
            Update ''blog_posts'' [(''view_count'', VNum (post_view_count post + 1))] (eq ''id'' (VStr postId) builder),
            SelectSingle ''blog_posts'' (eq ''id'' (VStr postId) (select ''*'')),
            Update ''blog_posts'' [(''view_count'', VNum (post_view_count post + 1 + 1))] (eq ''id'' (VStr postId) builder)]\<rparr>)"
    by (simp add: getBlogPost_twice_def getBlogPost_memory [OF a] getBlogPost_memory [OF b])
  show ?thesis
    using assms by (simp add: inter twice stored_view_counts_def filter_bump del: map_map)
qed

theorem view_count_lost_update_witness:
  "filter (\<lambda>p. post_id p = ''p1'') (store_blog_posts w_blog) = [post1]
   \<and> post_view_count post1 = 5
   \<and> fst (getBlogPost_interleaved memory_client ''p1'' \<lparr>world = w_blog, calls = []\<rparr>) = (Some post1, Some post1)
   \<and> stored_view_counts (world (snd (getBlogPost_interleaved memory_client ''p1'' \<lparr>world = w_blog, calls = []\<rparr>))) ''p1'' = [6]
   \<and> stored_view_counts (world (snd (getBlogPost_twice memory_env ''p1'' \<lparr>world = w_blog, calls = []\<rparr>))) ''p1'' = [7]"
proof -
  have h: "filter (\<lambda>p. post_id p = ''p1'') (store_blog_posts w_blog) = [post1]"
    by (simp add: w_blog_def post1_def)
  have v: "post_view_count post1 = 5"
    by (simp add: post1_def)
  from view_count_lost_update [OF h] show ?thesis
    using h v by simp
qed

subsection \<open>Opening the modal on a guest\<close>

lemma getUserPins_calls:
  "calls (snd (getUserPins env u s)) =
     calls s @ (case supabase env of
                  None \<Rightarrow> []
                | Some sb \<Rightarrow> [Select ''pins'' \<lparr>columns = ''*'', filters = [(''username'', VStr u)],
                                               order_by = [(''created_at'', False)]\<rparr>])"
  by (auto simp: getUserPins_def request_def Let_def eq_def order_def select_def builder_def
      split: prod.splits outcome.splits option.splits)

lemma fetchProfileData_guest:
  assumes "match_guest (prop_username pr)"
  shows "fetchProfileData env pr (m, s) =
           (case getUserPins env (prop_username pr) s of
              (Inl err, s1) \<Rightarrow> (m\<lparr>loading := False\<rparr>, s1)
            | (Inr pins, s1) \<Rightarrow>
                (case runtime (date_toISOString env) s1 of
                   (created, s2) \<Rightarrow>
                     (case runtime (date_toISOString env) s2 of
                        (updated, s3) \<Rightarrow>
                          (m\<lparr>userPins := pins,
                             userProfile := Some (Mock (mockProfile (prop_username pr) created updated)),
                             loading := False\<rparr>, s3))))"
  using assms
  by (simp add: fetchProfileData_def isGuestUser_def Let_def split: prod.splits sum.splits)

lemma fetchProfileData_guest_calls:
  assumes "match_guest (prop_username pr)"
  shows "calls (snd (fetchProfileData env pr (m, s))) = calls (snd (getUserPins env (prop_username pr) s))"
  using calls_runtime [of "date_toISOString env"]
  by (simp add: fetchProfileData_guest [OF assms] runtime_def split: prod.splits sum.splits)

lemma fetchProfileData_guest_profile:
  assumes "match_guest (prop_username pr)" and "fst (getUserPins env (prop_username pr) s) = Inr pins"
  shows "\<exists>created updated. userProfile (fst (fetchProfileData env pr (m, s)))
           = Some (Mock (mockProfile (prop_username pr) created updated))"
  using assms(2)
  by (auto simp: fetchProfileData_guest [OF assms(1)] split: prod.splits sum.splits)

text \<open>A request made and awaited in one go is issued, then answered.\<close>

lemma request_issue: "request c op s = respond op (issue c s)"
  by (simp add: request_def respond_def issue_def split: prod.splits)

lemma runtime_respond: "runtime op s = respond op s"
  by (simp add: runtime_def respond_def)

lemma world_respond: "world (snd (respond op s)) = snd (op (world s))"
  by (simp add: respond_def split: prod.splits)

lemma calls_respond: "calls (snd (respond op s)) = calls s"
  by (simp add: respond_def split: prod.splits)

lemma world_issue [simp]: "world (issue c s) = world s"
  by (simp add: issue_def)

lemma calls_issue [simp]: "calls (issue c s) = calls s @ [c]"
  by (simp add: issue_def)

text \<open>On a guest username, whatever happens next, \<open>fetchProfileData\<close> stays at its first
  \<open>await\<close> or at its end, logs nothing, and the world keeps a property that the operations
  of the opening keep.\<close>

lemma fetch_step_guest:
  assumes g: "isGuestUser pr" and f: "guest_fetch (fetchTask st)" and pres: "guest_open_preserves env sb P"
    and p: "P (world (system st))" and ev: "ev = AnswerFetch \<or> ev = DeliverFetch"
  shows "guest_fetch (fetchTask (step env sb pr ev st))
       \<and> authTask (step env sb pr ev st) = authTask st
       \<and> calls (system (step env sb pr ev st)) = calls (system st)
       \<and> P (world (system (step env sb pr ev st)))"
proof -
  have p1: "P (snd (select_rows (from_pins sb) (pins_query (prop_username pr)) (world (system st))))"
    using pres p by (simp add: guest_open_preserves_def)
  have p2: "P w \<Longrightarrow> P (snd (date_toISOString env w))" for w
    using pres by (simp add: guest_open_preserves_def)
  have p3: "P (snd (date_toISOString env (snd (date_toISOString env w))))" if "P w" for w
    using that p2 by blast
  show ?thesis
  proof (cases "fetchTask st")
    case (AwaitPins r)
    show ?thesis
    proof (cases r)
      case None
      show ?thesis
      proof (cases "fst (select_rows (from_pins sb) (pins_query (prop_username pr)) (world (system st)))")
        case (Throws err)
        then show ?thesis
          using ev g p1 AwaitPins None
          by (auto simp: step_def guest_fetch_def respond_def case_prod_unfold)
      next
        case (Returns x)
        then show ?thesis
          using ev g p1 p3 [OF p1] AwaitPins None
          by (auto simp: step_def guest_fetch_def respond_def runtime_def case_prod_unfold Let_def)
      qed
    next
      case (Some out)
      show ?thesis
      proof (cases out)
        case (Throws err)
        then show ?thesis
          using ev g p AwaitPins Some
          by (auto simp: step_def guest_fetch_def)
      next
        case (Returns x)
        then show ?thesis
          using ev g p p3 [OF p] AwaitPins Some
          by (auto simp: step_def guest_fetch_def runtime_def case_prod_unfold Let_def)
      qed
    qed
  next
    case FetchDone
    then show ?thesis
      using ev p by (auto simp: step_def guest_fetch_def)
  qed (use f in \<open>simp_all add: guest_fetch_def\<close>)
qed

lemma fetch_step_auth:
  "ev = AnswerFetch \<or> ev = DeliverFetch \<Longrightarrow> authTask (step env sb pr ev st) = authTask st"
  by (auto simp: step_def case_prod_unfold)

lemma auth_step_fetch:
  "ev = AnswerAuth \<or> ev = DeliverAuth \<Longrightarrow> fetchTask (step env sb pr ev st) = fetchTask st"
  by (auto simp: step_def case_prod_unfold)

text \<open>\<open>checkAuthStatus\<close> step by step, when nobody is signed in and when a user is.\<close>

lemma auth_step_signed_out:
  assumes a: "signed_out_auth (authTask st)" and pres: "guest_open_preserves env sb P"
    and p: "P (world (system st))" and nobody: "\<And>w. P w \<Longrightarrow> no_user (fst (auth_getUser sb w))"
    and ev: "ev = AnswerAuth \<or> ev = DeliverAuth"
  shows "signed_out_auth (authTask (step env sb pr ev st))
       \<and> calls (system (step env sb pr ev st)) = calls (system st)
       \<and> P (world (system (step env sb pr ev st)))"
proof -
  have p1: "P (snd (auth_getUser sb (world (system st))))"
    using pres p by (simp add: guest_open_preserves_def)
  have n1: "no_user (fst (auth_getUser sb (world (system st))))"
    using nobody p by simp
  show ?thesis
  proof (cases "authTask st")
    case (AwaitUser r)
    show ?thesis
    proof (cases r)
      case None
      then show ?thesis
        using ev p1 n1 AwaitUser
        by (cases "fst (auth_getUser sb (world (system st)))";
            cases "case fst (auth_getUser sb (world (system st))) of Returns u \<Rightarrow> u | _ \<Rightarrow> None")
           (auto simp: step_def signed_out_auth_def no_user_def respond_def case_prod_unfold)
    next
      case (Some out)
      then show ?thesis
        using ev p a AwaitUser
        by (cases out; cases "case out of Returns u \<Rightarrow> u | _ \<Rightarrow> None")
           (auto simp: step_def signed_out_auth_def no_user_def)
    qed
  next
    case AuthDone
    then show ?thesis
      using ev p by (auto simp: step_def signed_out_auth_def)
  qed (use a in \<open>simp_all add: signed_out_auth_def\<close>)
qed

lemma auth_step_signed_in:
  assumes a: "signed_in_auth user L (authTask st) (calls (system st))" and pres: "guest_open_preserves env sb P"
    and p: "P (world (system st))"
    and somebody: "\<And>w. P w \<Longrightarrow> fst (auth_getUser sb w) = Returns (Some user)"
    and ev: "ev = AnswerAuth \<or> ev = DeliverAuth"
  shows "signed_in_auth user L (authTask (step env sb pr ev st)) (calls (system (step env sb pr ev st)))
       \<and> P (world (system (step env sb pr ev st)))"
proof -
  have p1: "P (snd (auth_getUser sb (world (system st))))"
    using pres p by (simp add: guest_open_preserves_def)
  have p2: "P (snd (select_single (from_profiles sb) q (world (system st))))" for q
    using pres p by (simp add: guest_open_preserves_def)
  have n1: "fst (auth_getUser sb (world (system st))) = Returns (Some user)"
    using somebody p by simp
  show ?thesis
  proof (cases "authTask st")
    case (AwaitUser r)
    then show ?thesis
      using ev p p1 n1 a
      by (cases r) (auto simp: step_def signed_in_auth_def respond_def case_prod_unfold)
  next
    case (AwaitProfileUser r)
    then show ?thesis
      using ev p p1 n1 a
      by (cases r) (auto simp: step_def signed_in_auth_def respond_def case_prod_unfold)
  next
    case (AwaitProfileRow q r)
    then show ?thesis
      using ev p p2 a
      by (cases r) (auto simp: step_def signed_in_auth_def respond_def case_prod_unfold)
  next
    case AuthDone
    then show ?thesis
      using ev p a by (auto simp: step_def signed_in_auth_def)
  qed
qed

text \<open>Three deliveries end \<open>checkAuthStatus\<close>.\<close>

lemma deliver_auth_rank:
  "auth_rank (authTask (step env sb pr DeliverAuth st)) \<le> auth_rank (authTask st) - 1"
proof (cases "authTask st")
  case (AwaitUser r)
  show ?thesis
  proof (cases r)
    case None
    then show ?thesis
      using AwaitUser
      by (cases "fst (auth_getUser sb (world (system st)))";
          cases "case fst (auth_getUser sb (world (system st))) of Returns u \<Rightarrow> u | _ \<Rightarrow> None")
         (auto simp: step_def respond_def case_prod_unfold)
  next
    case (Some out)
    then show ?thesis
      using AwaitUser
      by (cases out; cases "case out of Returns u \<Rightarrow> u | _ \<Rightarrow> None") (auto simp: step_def)
  qed
next
  case (AwaitProfileUser r)
  show ?thesis
  proof (cases r)
    case None
    then show ?thesis
      using AwaitProfileUser
      by (cases "fst (auth_getUser sb (world (system st)))";
          cases "case fst (auth_getUser sb (world (system st))) of Returns u \<Rightarrow> u | _ \<Rightarrow> None")
         (auto simp: step_def respond_def case_prod_unfold)
  next
    case (Some out)
    then show ?thesis
      using AwaitProfileUser
      by (cases out; cases "case out of Returns u \<Rightarrow> u | _ \<Rightarrow> None") (auto simp: step_def)
  qed
next
  case (AwaitProfileRow q r)
  then show ?thesis
    by (cases r) (auto simp: step_def respond_def case_prod_unfold)
next
  case AuthDone
  then show ?thesis
    by (simp add: step_def)
qed

lemma auth_completes:
  "authTask (fold (step env sb pr) [DeliverAuth, DeliverAuth, DeliverAuth] st) = AuthDone"
proof -
  let ?d = "step env sb pr DeliverAuth"
  have "auth_rank (authTask (?d (?d (?d st)))) \<le> auth_rank (authTask st) - 3"
    using deliver_auth_rank [of env sb pr st] deliver_auth_rank [of env sb pr "?d st"]
      deliver_auth_rank [of env sb pr "?d (?d st)"]
    by linarith
  moreover have "auth_rank (authTask st) \<le> 3"
    by (cases "authTask st") simp_all
  ultimately have "auth_rank (authTask (?d (?d (?d st)))) = 0"
    by linarith
  then show ?thesis
    by (cases "authTask (?d (?d (?d st)))") simp_all
qed

lemma run_signed_out:
  assumes g: "isGuestUser pr" and pres: "guest_open_preserves env sb P"
    and nobody: "\<And>w. P w \<Longrightarrow> no_user (fst (auth_getUser sb w))"
  shows "guest_fetch (fetchTask st) \<Longrightarrow> signed_out_auth (authTask st) \<Longrightarrow> P (world (system st)) \<Longrightarrow>
         guest_fetch (fetchTask (fold (step env sb pr) evs st))
         \<and> signed_out_auth (authTask (fold (step env sb pr) evs st))
         \<and> P (world (system (fold (step env sb pr) evs st)))
         \<and> calls (system (fold (step env sb pr) evs st)) = calls (system st)"
proof (induction evs arbitrary: st)
  case Nil
  then show ?case by simp
next
  case (Cons ev evs)
  have one: "guest_fetch (fetchTask (step env sb pr ev st))
         \<and> signed_out_auth (authTask (step env sb pr ev st))
         \<and> P (world (system (step env sb pr ev st)))
         \<and> calls (system (step env sb pr ev st)) = calls (system st)"
  proof (cases "ev = AnswerFetch \<or> ev = DeliverFetch")
    case True
    then show ?thesis
      using fetch_step_guest [OF g Cons.prems(1) pres Cons.prems(3) True] Cons.prems(2) by simp
  next
    case False
    then have a: "ev = AnswerAuth \<or> ev = DeliverAuth"
      by (cases ev) simp_all
    show ?thesis
      using auth_step_signed_out [OF Cons.prems(2) pres Cons.prems(3) nobody a, of pr]
        auth_step_fetch [OF a, of env sb pr st] Cons.prems(1)
      by simp
  qed
  show ?case
    using Cons.IH [of "step env sb pr ev st"] one by simp
qed

lemma run_signed_in:
  assumes g: "isGuestUser pr" and pres: "guest_open_preserves env sb P"
    and somebody: "\<And>w. P w \<Longrightarrow> fst (auth_getUser sb w) = Returns (Some user)"
  shows "guest_fetch (fetchTask st) \<Longrightarrow> signed_in_auth user L (authTask st) (calls (system st)) \<Longrightarrow>
         P (world (system st)) \<Longrightarrow>
         guest_fetch (fetchTask (fold (step env sb pr) evs st))
         \<and> signed_in_auth user L (authTask (fold (step env sb pr) evs st))
              (calls (system (fold (step env sb pr) evs st)))
         \<and> P (world (system (fold (step env sb pr) evs st)))"
proof (induction evs arbitrary: st)
  case Nil
  then show ?case by simp
next
  case (Cons ev evs)
  have one: "guest_fetch (fetchTask (step env sb pr ev st))
         \<and> signed_in_auth user L (authTask (step env sb pr ev st)) (calls (system (step env sb pr ev st)))
         \<and> P (world (system (step env sb pr ev st)))"
  proof (cases "ev = AnswerFetch \<or> ev = DeliverFetch")
    case True
    then show ?thesis
      using fetch_step_guest [OF g Cons.prems(1) pres Cons.prems(3) True] Cons.prems(2) by simp
  next
    case False
    then have a: "ev = AnswerAuth \<or> ev = DeliverAuth"
      by (cases ev) simp_all
    show ?thesis
      using auth_step_signed_in [OF Cons.prems(2) pres Cons.prems(3) somebody a, of pr]
        auth_step_fetch [OF a, of env sb pr st] Cons.prems(1)
      by simp
  qed
  show ?case
    using Cons.IH [of "step env sb pr ev st"] one by simp
qed

lemma completion_ends_auth:
  "authTask (fold (step env sb pr) (schedule @ completion) st) = AuthDone"
proof -
  have "schedule @ completion = (schedule @ [DeliverFetch, DeliverFetch, DeliverFetch])
          @ [DeliverAuth, DeliverAuth, DeliverAuth]"
    by (simp add: completion_def)
  then show ?thesis
    using auth_completes [of env sb pr "fold (step env sb pr) (schedule @ [DeliverFetch, DeliverFetch, DeliverFetch]) st"]
    by (simp only: fold_append comp_apply)
qed

text \<open>The log of an opening on a guest username, for every schedule.\<close>

lemma openModal_client:
  assumes "prop_isOpen pr" and "prop_username pr \<noteq> []" and "supabase env = Some sb"
  shows "snd (openModal env pr schedule (m, s)) =
           system (fold (step env sb pr) (schedule @ completion)
             \<lparr>fetchTask = AwaitPins None, authTask = AwaitUser None, ui = m\<lparr>loading := True\<rparr>,
              system = issue AuthGetUser (issue (Select ''pins'' (pins_query (prop_username pr))) s)\<rparr>)"
  using assms by (simp add: openModal_def Let_def)

lemma open_signed_out:
  assumes g: "match_guest (prop_username pr)" and o: "prop_isOpen pr" and sb: "supabase env = Some sb"
    and pres: "guest_open_preserves env sb P" and p: "P (world s)"
    and nobody: "\<And>w u. P w \<Longrightarrow> fst (auth_getUser sb w) \<noteq> Returns (Some u)"
  shows "calls (snd (openModal env pr schedule (m, s))) =
           calls s @ [Select ''pins'' (pins_query (prop_username pr)), AuthGetUser]"
proof -
  have ne: "prop_username pr \<noteq> []"
    using g by (auto simp: match_guest_def)
  have n: "no_user (fst (auth_getUser sb w))" if "P w" for w
    using nobody [OF that] by (auto simp: no_user_def split: outcome.splits option.splits)
  let ?st0 = "\<lparr>fetchTask = AwaitPins None, authTask = AwaitUser None, ui = m\<lparr>loading := True\<rparr>,
              system = issue AuthGetUser (issue (Select ''pins'' (pins_query (prop_username pr))) s)\<rparr>"
  have "calls (system (fold (step env sb pr) (schedule @ completion) ?st0)) = calls (system ?st0)"
    using run_signed_out [where st = ?st0 and evs = "schedule @ completion", OF _ pres n] g p
    by (simp add: isGuestUser_def guest_fetch_def signed_out_auth_def)
  then show ?thesis
    by (simp add: openModal_client [OF o ne sb])
qed

lemma open_signed_in:
  assumes g: "match_guest (prop_username pr)" and o: "prop_isOpen pr" and sb: "supabase env = Some sb"
    and pres: "guest_open_preserves env sb P" and p: "P (world s)"
    and somebody: "\<And>w. P w \<Longrightarrow> fst (auth_getUser sb w) = Returns (Some user)"
  shows "calls (snd (openModal env pr schedule (m, s))) =
           calls s @ [Select ''pins'' (pins_query (prop_username pr)), AuthGetUser, AuthGetUser,
                      SelectSingle ''profiles'' (profile_by_id_query (user_id user))]"
proof -
  have ne: "prop_username pr \<noteq> []"
    using g by (auto simp: match_guest_def)
  let ?st0 = "\<lparr>fetchTask = AwaitPins None, authTask = AwaitUser None, ui = m\<lparr>loading := True\<rparr>,
              system = issue AuthGetUser (issue (Select ''pins'' (pins_query (prop_username pr))) s)\<rparr>"
  let ?L = "calls s @ [Select ''pins'' (pins_query (prop_username pr)), AuthGetUser]"
  let ?end = "fold (step env sb pr) (schedule @ completion) ?st0"
  have "signed_in_auth user ?L (authTask ?end) (calls (system ?end))"
    using run_signed_in [where st = ?st0 and evs = "schedule @ completion" and L = ?L, OF _ pres somebody] g p
    by (simp add: isGuestUser_def guest_fetch_def signed_in_auth_def)
  then have "calls (system ?end) = ?L @ [AuthGetUser, SelectSingle ''profiles'' (profile_by_id_query (user_id user))]"
    by (simp only: signed_in_auth_def completion_ends_auth auth_task.case)
  then show ?thesis
    by (simp add: openModal_client [OF o ne sb])
qed

lemma open_offline:
  assumes g: "match_guest (prop_username pr)" and "supabase env = None"
  shows "calls (snd (openModal env pr schedule (m, s))) = calls s"
  using assms(2) fetchProfileData_guest_calls [OF g, of env m s]
  by (simp add: openModal_def getUserPins_calls)

lemma pins_query_record:
  "pins_query u = \<lparr>columns = ''*'', filters = [(''username'', VStr u)], order_by = [(''created_at'', False)]\<rparr>"
  by (simp add: pins_query_def order_def eq_def select_def builder_def)

lemma profile_by_id_query_record:
  "profile_by_id_query i = \<lparr>columns = ''*'', filters = [(''id'', VStr i)], order_by = []\<rparr>"
  by (simp add: profile_by_id_query_def eq_def select_def builder_def)

text \<open>The in-memory backend keeps its session through these operations.\<close>

lemma memory_session_stable:
  "guest_open_preserves memory_env memory_client (\<lambda>w. store_session w = x)"
  by (simp add: guest_open_preserves_def memory_env_def memory_client_def memory_table_def ok_def failed_def
      split: list.splits)

lemma open_guest_signed_in_memory:
  "calls (snd (openModal memory_env guest_props schedule (m, \<lparr>world = w_alice, calls = []\<rparr>))) =
       [Select ''pins'' \<lparr>columns = ''*'', filters = [(''username'', VStr ''1234567'')],
                         order_by = [(''created_at'', False)]\<rparr>,
        AuthGetUser,
        AuthGetUser,
        SelectSingle ''profiles'' \<lparr>columns = ''*'', filters = [(''id'', VStr ''u1'')], order_by = []\<rparr>]"
proof -
  have g: "match_guest (prop_username guest_props)"
    by (simp add: guest_props_def match_guest_def is_digit_def)
  have o: "prop_isOpen guest_props"
    by (simp add: guest_props_def)
  have sb: "supabase memory_env = Some memory_client"
    by (simp add: memory_env_def)
  have p: "store_session (world \<lparr>world = w_alice, calls = []\<rparr>) = Some \<lparr>user_id = ''u1''\<rparr>"
    by (simp add: w_alice_def)
  have u: "fst (auth_getUser memory_client w) = Returns (Some \<lparr>user_id = ''u1''\<rparr>)"
    if "store_session w = Some \<lparr>user_id = ''u1''\<rparr>" for w
    using that by (simp add: memory_client_def)
  show ?thesis
    using open_signed_in [OF g o sb memory_session_stable p u, of schedule m]
    by (simp add: pins_query_record profile_by_id_query_record guest_props_def)
qed

text \<open>Each task, when the other does not run, is the function it was cut from.\<close>

lemma getCurrentUserProfile_steps:
  assumes sb: "supabase env = Some sb"
  shows "getCurrentUserProfile env s =
     (case respond (auth_getUser sb) (issue AuthGetUser s) of
        (Returns (Some user), s1) \<Rightarrow>
          (case respond (select_single (from_profiles sb) (profile_by_id_query (user_id user)))
                  (issue (SelectSingle ''profiles'' (profile_by_id_query (user_id user))) s1) of
             (out, s2) \<Rightarrow> (current_profile_row out, s2))
      | (out, s1) \<Rightarrow> (None, s1))"
  using sb
  by (simp add: getCurrentUserProfile_def request_issue profile_by_id_query_def current_profile_row_def Let_def
      split: prod.splits outcome.splits option.splits)

lemma auth_alone:
  assumes sb: "supabase env = Some sb"
  shows "fold (step env sb pr) [DeliverAuth, DeliverAuth, DeliverAuth]
           \<lparr>fetchTask = f, authTask = AwaitUser None, ui = m, system = issue AuthGetUser s\<rparr>
         = \<lparr>fetchTask = f, authTask = AuthDone, ui = fst (checkAuthStatus env (m, s)),
            system = snd (checkAuthStatus env (m, s))\<rparr>"
proof -
  obtain out s1 where a: "respond (auth_getUser sb) (issue AuthGetUser s) = (out, s1)"
    by (cases "respond (auth_getUser sb) (issue AuthGetUser s)")
  show ?thesis
  proof (cases "\<exists>user. out = Returns (Some user)")
    case False
    then have "out = Returns None \<or> (\<exists>err. out = Throws err)"
      by (cases out; cases "case out of Returns u \<Rightarrow> u | _ \<Rightarrow> None") auto
    then show ?thesis
      using sb a
      by (auto simp: step_def checkAuthStatus_def request_issue)
  next
    case True
    then obtain user where u: "out = Returns (Some user)"
      by blast
    obtain out2 s2 where b: "respond (auth_getUser sb) (issue AuthGetUser s1) = (out2, s2)"
      by (cases "respond (auth_getUser sb) (issue AuthGetUser s1)")
    show ?thesis
    proof (cases "\<exists>user2. out2 = Returns (Some user2)")
      case False
      then have "out2 = Returns None \<or> (\<exists>err. out2 = Throws err)"
        by (cases out2; cases "case out2 of Returns u \<Rightarrow> u | _ \<Rightarrow> None") auto
      then show ?thesis
        using sb a u b
        by (auto simp: step_def checkAuthStatus_def request_issue getCurrentUserProfile_steps [OF sb])
    next
      case True
      then obtain user2 where u2: "out2 = Returns (Some user2)"
        by blast
      obtain out3 s3 where c: "respond (select_single (from_profiles sb) (profile_by_id_query (user_id user2)))
                  (issue (SelectSingle ''profiles'' (profile_by_id_query (user_id user2))) s2) = (out3, s3)"
        by (cases "respond (select_single (from_profiles sb) (profile_by_id_query (user_id user2)))
                  (issue (SelectSingle ''profiles'' (profile_by_id_query (user_id user2))) s2)")
      show ?thesis
        using sb a u b u2 c
        by (simp add: step_def checkAuthStatus_def request_issue getCurrentUserProfile_steps [OF sb])
    qed
  qed
qed

lemma getUserPins_steps:
  assumes sb: "supabase env = Some sb"
  shows "getUserPins env u s =
     (case respond (select_rows (from_pins sb) (pins_query u)) (issue (Select ''pins'' (pins_query u)) s) of
        (Throws err, s1) \<Rightarrow> (Inl err, s1)
      | (Returns r, s1) \<Rightarrow> (Inr (case resp_data r of None \<Rightarrow> [] | Some pins \<Rightarrow> pins), s1))"
  using sb
  by (simp add: getUserPins_def request_issue pins_query_def Let_def
      split: prod.splits outcome.splits option.splits)

lemma getProfileByUsername_steps:
  assumes sb: "supabase env = Some sb"
  shows "getProfileByUsername env u s =
     (case respond (select_rows (from_profiles sb) (profile_by_username_query u))
             (issue (Select ''profiles'' (profile_by_username_query u)) s) of
        (out, s1) \<Rightarrow> (first_profile out, s1))"
  using sb
  by (simp add: getProfileByUsername_def request_issue profile_by_username_query_def first_profile_def Let_def
      split: prod.splits outcome.splits option.splits list.splits)

lemma fetch_alone:
  assumes sb: "supabase env = Some sb"
  shows "fold (step env sb pr) [DeliverFetch, DeliverFetch, DeliverFetch]
           \<lparr>fetchTask = AwaitPins None, authTask = c, ui = m\<lparr>loading := True\<rparr>,
            system = issue (Select ''pins'' (pins_query (prop_username pr))) s\<rparr>
         = \<lparr>fetchTask = FetchDone, authTask = c, ui = fst (fetchProfileData env pr (m, s)),
            system = snd (fetchProfileData env pr (m, s))\<rparr>"
proof -
  obtain out s1 where a: "respond (select_rows (from_pins sb) (pins_query (prop_username pr)))
                            (issue (Select ''pins'' (pins_query (prop_username pr))) s) = (out, s1)"
    by (cases "respond (select_rows (from_pins sb) (pins_query (prop_username pr)))
                            (issue (Select ''pins'' (pins_query (prop_username pr))) s)")
  show ?thesis
  proof (cases out)
    case (Throws err)
    then show ?thesis
      using a by (simp add: step_def fetchProfileData_def getUserPins_steps [OF sb])
  next
    case (Returns r)
    show ?thesis
    proof (cases "isGuestUser pr")
      case True
      then show ?thesis
        using a Returns
        by (simp add: step_def fetchProfileData_def getUserPins_steps [OF sb] case_prod_unfold Let_def)
    next
      case False
      show ?thesis
      proof (cases "isOwnProfile pr")
        case own: True
        obtain out2 s2 where b: "respond (auth_getUser sb) (issue AuthGetUser s1) = (out2, s2)"
          by (cases "respond (auth_getUser sb) (issue AuthGetUser s1)")
        show ?thesis
        proof (cases "\<exists>user. out2 = Returns (Some user)")
          case no_user: False
          then have "out2 = Returns None \<or> (\<exists>err. out2 = Throws err)"
            by (cases out2; cases "case out2 of Returns u \<Rightarrow> u | _ \<Rightarrow> None") auto
          then show ?thesis
            using a Returns False own b
            by (auto simp: step_def fetchProfileData_def getUserPins_steps [OF sb]
                getCurrentUserProfile_steps [OF sb] profile_fetched_def Let_def)
        next
          case True
          then obtain user where u: "out2 = Returns (Some user)"
            by blast
          obtain out3 s3 where c: "respond (select_single (from_profiles sb) (profile_by_id_query (user_id user)))
                  (issue (SelectSingle ''profiles'' (profile_by_id_query (user_id user))) s2) = (out3, s3)"
            by (cases "respond (select_single (from_profiles sb) (profile_by_id_query (user_id user)))
                  (issue (SelectSingle ''profiles'' (profile_by_id_query (user_id user))) s2)")
          show ?thesis
            using a Returns False own b u c
            by (cases "current_profile_row out3")
               (simp_all add: step_def fetchProfileData_def getUserPins_steps [OF sb]
                getCurrentUserProfile_steps [OF sb] profile_fetched_def Let_def)
        qed
      next
        case other: False
        obtain out2 s2 where b: "respond (select_rows (from_profiles sb) (profile_by_username_query (prop_username pr)))
             (issue (Select ''profiles'' (profile_by_username_query (prop_username pr))) s1) = (out2, s2)"
          by (cases "respond (select_rows (from_profiles sb) (profile_by_username_query (prop_username pr)))
             (issue (Select ''profiles'' (profile_by_username_query (prop_username pr))) s1)")
        show ?thesis
          using a Returns False other b
          by (cases "first_profile out2")
             (simp_all add: step_def fetchProfileData_def getUserPins_steps [OF sb]
              getProfileByUsername_steps [OF sb] profile_fetched_def Let_def)
      qed
    qed
  qed
qed

text \<open>
  Both tasks set \<open>userProfile\<close>, and the delivery that comes last decides it. On the guest
  username \<open>1234567\<close> with alice signed in, the modal ends with alice's row when the pins
  arrive first, and with the guest record when they arrive last.
\<close>

lemma fetch_delivery_sets_profile:
  assumes "isGuestUser pr" and "fetchTask st = AwaitPins (Some (Returns r))"
  shows "userProfile (ui (step env sb pr DeliverFetch st)) =
           Some (Mock (mockProfile (prop_username pr)
                   (fst (date_toISOString env (world (system st))))
                   (fst (date_toISOString env (snd (date_toISOString env (world (system st))))))))"
  using assms
  by (simp add: step_def runtime_respond respond_def case_prod_unfold Let_def)

lemma auth_delivery_sets_profile:
  assumes "authTask st = AwaitProfileRow q (Some out)"
  shows "userProfile (ui (step env sb pr DeliverAuth st)) = map_option FromDb (current_profile_row out)"
  using assms
  by (simp add: step_def)

lemma delivery_after_end:
  "fetchTask st = FetchDone \<Longrightarrow> step env sb pr DeliverFetch st = st"
  "authTask st = AuthDone \<Longrightarrow> step env sb pr DeliverAuth st = st"
  by (simp_all add: step_def)


lemma memory_deliver_fetch:
  "step memory_env memory_client guest_props DeliverFetch
     \<lparr>fetchTask = AwaitPins None, authTask = c, ui = m, system = \<lparr>world = w_alice, calls = cs\<rparr>\<rparr>
   = \<lparr>fetchTask = FetchDone, authTask = c,
      ui = m\<lparr>userPins := [],
             userProfile := Some (Mock (mockProfile ''1234567'' ''2024-05-01T10:00:00.000Z'' ''2024-05-01T10:00:00.000Z'')),
             loading := False\<rparr>,
      system = \<lparr>world = w_alice, calls = cs\<rparr>\<rparr>"
  by (simp add: step_def respond_def runtime_def isGuestUser_def match_guest_def is_digit_def
      memory_env_def memory_client_def memory_table_def run_select_def pins_query_def matches_def
      eq_def order_def select_def builder_def ok_def guest_props_def w_alice_def w_blog_def w0_def Let_def)

lemma memory_checkAuthStatus:
  "checkAuthStatus memory_env (m, \<lparr>world = w_alice, calls = cs\<rparr>) =
     (m\<lparr>isAuthenticated := True, userProfile := Some (FromDb alice)\<rparr>,
      \<lparr>world = w_alice,
       calls = cs @ [AuthGetUser, AuthGetUser,
                     SelectSingle ''profiles'' \<lparr>columns = ''*'', filters = [(''id'', VStr ''u1'')], order_by = []\<rparr>]\<rparr>)"
  by (simp add: checkAuthStatus_def getCurrentUserProfile_def request_def Let_def
      memory_env_def memory_client_def memory_table_def run_select_def matches_def
      eq_def select_def builder_def ok_def failed_def w_alice_def w_blog_def w0_def alice_def profile_col_def)


lemma memory_fetch_run:
  "fold (step memory_env memory_client guest_props) [DeliverFetch, DeliverFetch, DeliverFetch]
     \<lparr>fetchTask = AwaitPins None, authTask = c, ui = m, system = \<lparr>world = w_alice, calls = cs\<rparr>\<rparr>
   = \<lparr>fetchTask = FetchDone, authTask = c,
      ui = m\<lparr>userPins := [],
             userProfile := Some (Mock (mockProfile ''1234567'' ''2024-05-01T10:00:00.000Z'' ''2024-05-01T10:00:00.000Z'')),
             loading := False\<rparr>,
      system = \<lparr>world = w_alice, calls = cs\<rparr>\<rparr>"
  by (simp add: memory_deliver_fetch delivery_after_end)

lemma memory_auth_run:
  "fold (step memory_env memory_client guest_props) [DeliverAuth, DeliverAuth, DeliverAuth]
     \<lparr>fetchTask = f, authTask = AwaitUser None, ui = m,
      system = \<lparr>world = w_alice, calls = [c, AuthGetUser]\<rparr>\<rparr>
   = \<lparr>fetchTask = f, authTask = AuthDone,
      ui = m\<lparr>isAuthenticated := True, userProfile := Some (FromDb alice)\<rparr>,
      system = \<lparr>world = w_alice,
                calls = [c, AuthGetUser, AuthGetUser,
                         SelectSingle ''profiles'' \<lparr>columns = ''*'', filters = [(''id'', VStr ''u1'')],
                                                     order_by = []\<rparr>]\<rparr>\<rparr>"
proof -
  have sb: "supabase memory_env = Some memory_client"
    by (simp add: memory_env_def)
  have i: "\<lparr>world = w_alice, calls = [c, AuthGetUser]\<rparr> = issue AuthGetUser \<lparr>world = w_alice, calls = [c]\<rparr>"
    by (simp add: issue_def)
  show ?thesis
    unfolding i auth_alone [OF sb] memory_checkAuthStatus
    by (simp add: issue_def)
qed

lemma memory_auth_ended:
  "fold (step env sb pr) [DeliverAuth, DeliverAuth, DeliverAuth]
     \<lparr>fetchTask = f, authTask = AuthDone, ui = m, system = s\<rparr>
   = \<lparr>fetchTask = f, authTask = AuthDone, ui = m, system = s\<rparr>"
  by (simp add: delivery_after_end)

lemma open_profile_race:
  "userProfile (fst (openModal memory_env guest_props [] (m_init, \<lparr>world = w_alice, calls = []\<rparr>)))
     = Some (FromDb alice)
   \<and> userProfile (fst (openModal memory_env guest_props [DeliverAuth, DeliverAuth, DeliverAuth]
                         (m_init, \<lparr>world = w_alice, calls = []\<rparr>)))
     = Some (Mock (mockProfile ''1234567'' ''2024-05-01T10:00:00.000Z'' ''2024-05-01T10:00:00.000Z''))"
proof -
  have c: "completion = [DeliverFetch, DeliverFetch, DeliverFetch] @ [DeliverAuth, DeliverAuth, DeliverAuth]"
    by (simp add: completion_def)
  have i: "issue AuthGetUser (issue q \<lparr>world = w_alice, calls = []\<rparr>) =
             \<lparr>world = w_alice, calls = [q, AuthGetUser]\<rparr>" for q
    by (simp add: issue_def)
  have o: "prop_isOpen guest_props \<and> prop_username guest_props \<noteq> []"
    by (simp add: guest_props_def)
  have sb: "supabase memory_env = Some memory_client"
    by (simp add: memory_env_def)
  have a: "userProfile (fst (openModal memory_env guest_props [] (m_init, \<lparr>world = w_alice, calls = []\<rparr>)))
     = Some (FromDb alice)"
    unfolding openModal_def Let_def c
    by (simp only: o sb i prod.case option.case if_True simp_thms append_Nil fold_append o_apply
        memory_fetch_run memory_auth_run fst_conv effect.select_convs modal.select_convs modal.update_convs)
       simp
  have b: "userProfile (fst (openModal memory_env guest_props [DeliverAuth, DeliverAuth, DeliverAuth]
                         (m_init, \<lparr>world = w_alice, calls = []\<rparr>)))
     = Some (Mock (mockProfile ''1234567'' ''2024-05-01T10:00:00.000Z'' ''2024-05-01T10:00:00.000Z''))"
    unfolding openModal_def Let_def c
    by (simp only: o sb i prod.case option.case if_True simp_thms append_Nil fold_append o_apply
        memory_fetch_run memory_auth_run memory_auth_ended fst_conv effect.select_convs)
       simp
  show ?thesis using a b by (intro conjI)
qed

text \<open>
  C6, as the code has it. For a username of exactly seven digits, \<open>fetchProfileData\<close>
  issues no call on the profiles table: its only backend call is the query on the pins
  (none at all without a client), and unless that query throws it sets the profile to a
  guest record built locally from the username and the clock. Opening the modal on such
  a username, whatever the order in which the replies arrive: without a client no call is
  made; with a client and nobody signed in, the calls are the query on the pins and one
  \<open>auth.getUser()\<close>, and none on the profiles table; with a user signed in,
  \<open>checkAuthStatus\<close> goes on to a second \<open>auth.getUser()\<close> and fetches that user's row of
  the profiles table.
\<close>

theorem guest_fetchProfileData_skips_profiles:
  assumes "match_guest (prop_username pr)"
  shows "calls (snd (fetchProfileData env pr (m, s))) =
           calls s @ (case supabase env of
                        None \<Rightarrow> []
                      | Some sb \<Rightarrow> [Select ''pins'' \<lparr>columns = ''*'',
                                                     filters = [(''username'', VStr (prop_username pr))],
                                                     order_by = [(''created_at'', False)]\<rparr>])
       \<and> (\<forall>c \<in> set (drop (length (calls s)) (calls (snd (fetchProfileData env pr (m, s))))).
              call_table c \<noteq> Some ''profiles'')
       \<and> (\<forall>pins. fst (getUserPins env (prop_username pr) s) = Inr pins \<longrightarrow>
             (\<exists>created updated. userProfile (fst (fetchProfileData env pr (m, s)))
                = Some (Mock (mockProfile (prop_username pr) created updated))))
       \<and> (supabase env = None \<longrightarrow> calls (snd (openModal env pr schedule (m, s))) = calls s)
       \<and> (prop_isOpen pr \<and> supabase env = Some sb \<and> guest_open_preserves env sb P \<and> P (world s)
            \<and> (\<forall>w u. P w \<longrightarrow> fst (auth_getUser sb w) \<noteq> Returns (Some u)) \<longrightarrow>
            calls (snd (openModal env pr schedule (m, s))) =
              calls s @ [Select ''pins'' \<lparr>columns = ''*'',
                                           filters = [(''username'', VStr (prop_username pr))],
                                           order_by = [(''created_at'', False)]\<rparr>,
                         AuthGetUser])
       \<and> (prop_isOpen pr \<and> supabase env = Some sb \<and> guest_open_preserves env sb P \<and> P (world s)
            \<and> (\<forall>w. P w \<longrightarrow> fst (auth_getUser sb w) = Returns (Some user)) \<longrightarrow>
            calls (snd (openModal env pr schedule (m, s))) =
              calls s @ [Select ''pins'' \<lparr>columns = ''*'',
                                           filters = [(''username'', VStr (prop_username pr))],
                                           order_by = [(''created_at'', False)]\<rparr>,
                         AuthGetUser,
                         AuthGetUser,
                         SelectSingle ''profiles'' \<lparr>columns = ''*'', filters = [(''id'', VStr (user_id user))],
                                                     order_by = []\<rparr>])"
proof -
  have a: "calls (snd (fetchProfileData env pr (m, s))) =
           calls s @ (case supabase env of
                        None \<Rightarrow> []
                      | Some sb \<Rightarrow> [Select ''pins'' \<lparr>columns = ''*'',
                                                     filters = [(''username'', VStr (prop_username pr))],
                                                     order_by = [(''created_at'', False)]\<rparr>])"
    by (simp add: fetchProfileData_guest_calls [OF assms] getUserPins_calls)
  have b: "\<forall>c \<in> set (drop (length (calls s)) (calls (snd (fetchProfileData env pr (m, s))))).
              call_table c \<noteq> Some ''profiles''"
    by (simp add: a call_table_def split: option.splits)
  have c: "\<forall>pins. fst (getUserPins env (prop_username pr) s) = Inr pins \<longrightarrow>
             (\<exists>created updated. userProfile (fst (fetchProfileData env pr (m, s)))
                = Some (Mock (mockProfile (prop_username pr) created updated)))"
    using fetchProfileData_guest_profile [OF assms, of env s _ m] by blast
  have d: "supabase env = None \<longrightarrow> calls (snd (openModal env pr schedule (m, s))) = calls s"
    using open_offline [OF assms] by blast
  have e: "prop_isOpen pr \<and> supabase env = Some sb \<and> guest_open_preserves env sb P \<and> P (world s)
            \<and> (\<forall>w u. P w \<longrightarrow> fst (auth_getUser sb w) \<noteq> Returns (Some u)) \<longrightarrow>
            calls (snd (openModal env pr schedule (m, s))) =
              calls s @ [Select ''pins'' (pins_query (prop_username pr)), AuthGetUser]"
    using open_signed_out [OF assms, of env sb P s schedule m] by blast
  have f: "prop_isOpen pr \<and> supabase env = Some sb \<and> guest_open_preserves env sb P \<and> P (world s)
            \<and> (\<forall>w. P w \<longrightarrow> fst (auth_getUser sb w) = Returns (Some user)) \<longrightarrow>
            calls (snd (openModal env pr schedule (m, s))) =
              calls s @ [Select ''pins'' (pins_query (prop_username pr)), AuthGetUser, AuthGetUser,
                         SelectSingle ''profiles'' (profile_by_id_query (user_id user))]"
    using open_signed_in [OF assms, of env sb P s user schedule m] by blast
  show ?thesis
    using a b c d e [unfolded pins_query_record] f [unfolded pins_query_record profile_by_id_query_record]
    by (intro conjI)
qed

theorem guest_fetchProfileData_skips_profiles_witness:
  "match_guest (prop_username guest_props) \<and> prop_isOpen guest_props
   \<and> supabase memory_env = Some memory_client
   \<and> guest_open_preserves memory_env memory_client (\<lambda>w. store_session w = None)
   \<and> guest_open_preserves memory_env memory_client (\<lambda>w. store_session w = Some \<lparr>user_id = ''u1''\<rparr>)
   \<and> store_session w_blog = None \<and> store_session w_alice = Some \<lparr>user_id = ''u1''\<rparr>
   \<and> calls (snd (fetchProfileData memory_env guest_props (m_init, \<lparr>world = w_alice, calls = []\<rparr>))) =
       [Select ''pins'' \<lparr>columns = ''*'', filters = [(''username'', VStr ''1234567'')],
                         order_by = [(''created_at'', False)]\<rparr>]
   \<and> userProfile (fst (fetchProfileData memory_env guest_props (m_init, \<lparr>world = w_alice, calls = []\<rparr>)))
       = Some (Mock (mockProfile ''1234567'' ''2024-05-01T10:00:00.000Z'' ''2024-05-01T10:00:00.000Z''))
   \<and> calls (snd (openModal memory_env guest_props [AnswerAuth, DeliverFetch]
                     (m_init, \<lparr>world = w_blog, calls = []\<rparr>))) =
       [Select ''pins'' \<lparr>columns = ''*'', filters = [(''username'', VStr ''1234567'')],
                         order_by = [(''created_at'', False)]\<rparr>,
        AuthGetUser]
   \<and> calls (snd (openModal memory_env guest_props [DeliverAuth, AnswerFetch]
                     (m_init, \<lparr>world = w_alice, calls = []\<rparr>))) =
       [Select ''pins'' \<lparr>columns = ''*'', filters = [(''username'', VStr ''1234567'')],
                         order_by = [(''created_at'', False)]\<rparr>,
        AuthGetUser,
        AuthGetUser,
        SelectSingle ''profiles'' \<lparr>columns = ''*'', filters = [(''id'', VStr ''u1'')], order_by = []\<rparr>]
   \<and> supabase offline_env = None
   \<and> calls (snd (openModal offline_env guest_props [DeliverFetch]
                     (m_init, \<lparr>world = w_alice, calls = []\<rparr>))) = []"
proof -
  have h: "match_guest (prop_username guest_props)"
    by (simp add: guest_props_def match_guest_def is_digit_def)
  have o: "prop_isOpen guest_props"
    by (simp add: guest_props_def)
  have sb: "supabase memory_env = Some memory_client"
    by (simp add: memory_env_def)
  have w1: "store_session w_blog = None" and w2: "store_session w_alice = Some \<lparr>user_id = ''u1''\<rparr>"
    by (simp_all add: w_alice_def w_blog_def w0_def)
  have n: "\<forall>w u. store_session w = None \<longrightarrow> fst (auth_getUser memory_client w) \<noteq> Returns (Some u)"
    by (simp add: memory_client_def)
  have u: "\<forall>w. store_session w = Some \<lparr>user_id = ''u1''\<rparr> \<longrightarrow>
             fst (auth_getUser memory_client w) = Returns (Some \<lparr>user_id = ''u1''\<rparr>)"
    by (simp add: memory_client_def)
  have p: "userProfile (fst (fetchProfileData memory_env guest_props (m_init, \<lparr>world = w_alice, calls = []\<rparr>)))
       = Some (Mock (mockProfile ''1234567'' ''2024-05-01T10:00:00.000Z'' ''2024-05-01T10:00:00.000Z''))"
    unfolding fetchProfileData_guest [OF h]
    by (simp add: getUserPins_def memory_env_def memory_client_def
        memory_table_def request_def runtime_def ok_def Let_def guest_props_def w_alice_def w_blog_def w0_def)
  note out = guest_fetchProfileData_skips_profiles [OF h, where env = memory_env and sb = memory_client
      and P = "\<lambda>w. store_session w = None" and s = "\<lparr>world = w_blog, calls = []\<rparr>"
      and schedule = "[AnswerAuth, DeliverFetch]" and m = m_init]
  note inn = guest_fetchProfileData_skips_profiles [OF h, where env = memory_env and sb = memory_client
      and P = "\<lambda>w. store_session w = Some \<lparr>user_id = ''u1''\<rparr>" and s = "\<lparr>world = w_alice, calls = []\<rparr>"
      and schedule = "[DeliverAuth, AnswerFetch]" and m = m_init and user = "\<lparr>user_id = ''u1''\<rparr>"]
  have a: "calls (snd (openModal memory_env guest_props [AnswerAuth, DeliverFetch]
                     (m_init, \<lparr>world = w_blog, calls = []\<rparr>))) =
       [Select ''pins'' \<lparr>columns = ''*'', filters = [(''username'', VStr ''1234567'')],
                         order_by = [(''created_at'', False)]\<rparr>,
        AuthGetUser]"
    using out o sb w1 n memory_session_stable [of None]
    by (simp add: guest_props_def)
  have b: "calls (snd (openModal memory_env guest_props [DeliverAuth, AnswerFetch]
                     (m_init, \<lparr>world = w_alice, calls = []\<rparr>))) =
       [Select ''pins'' \<lparr>columns = ''*'', filters = [(''username'', VStr ''1234567'')],
                         order_by = [(''created_at'', False)]\<rparr>,
        AuthGetUser,
        AuthGetUser,
        SelectSingle ''profiles'' \<lparr>columns = ''*'', filters = [(''id'', VStr ''u1'')], order_by = []\<rparr>]"
    using inn o sb w2 u memory_session_stable [of "Some \<lparr>user_id = ''u1''\<rparr>"]
    by (simp add: guest_props_def)
  have c: "calls (snd (fetchProfileData memory_env guest_props (m_init, \<lparr>world = w_alice, calls = []\<rparr>))) =
       [Select ''pins'' \<lparr>columns = ''*'', filters = [(''username'', VStr ''1234567'')],
                         order_by = [(''created_at'', False)]\<rparr>]"
    using inn sb by (simp add: guest_props_def)
  note off = guest_fetchProfileData_skips_profiles [OF h, where env = offline_env
      and s = "\<lparr>world = w_alice, calls = []\<rparr>" and schedule = "[DeliverFetch]" and m = m_init]
  have n0: "supabase offline_env = None"
    by (simp add: offline_env_def)
  have d: "calls (snd (openModal offline_env guest_props [DeliverFetch]
                     (m_init, \<lparr>world = w_alice, calls = []\<rparr>))) = []"
    using off n0 by simp
  show ?thesis
    using h o sb w1 w2 p a b c n0 d memory_session_stable [of None]
      memory_session_stable [of "Some \<lparr>user_id = ''u1''\<rparr>"]
    by (intro conjI)
qed

text \<open>
  C6 as stated fails on the opening of the modal: the effect also starts
  \<open>checkAuthStatus\<close>, and with a signed-in user that fetches the user's row of the
  profiles table, here for the guest username \<open>1234567\<close>.
\<close>

theorem guest_open_queries_profiles_counterexample:
  "match_guest (prop_username guest_props)
   \<and> calls (snd (openModal memory_env guest_props [] (m_init, \<lparr>world = w_alice, calls = []\<rparr>))) =
       [Select ''pins'' \<lparr>columns = ''*'', filters = [(''username'', VStr ''1234567'')],
                         order_by = [(''created_at'', False)]\<rparr>,
        AuthGetUser,
        AuthGetUser,
        SelectSingle ''profiles'' \<lparr>columns = ''*'', filters = [(''id'', VStr ''u1'')], order_by = []\<rparr>]"
  using open_guest_signed_in_memory [of "[]" m_init]
  by (simp add: guest_props_def match_guest_def is_digit_def)

subsection \<open>Choosing a profile picture\<close>

lemma getCurrentUserProfile_appends: "\<exists>cs. calls (snd (getCurrentUserProfile env s)) = calls s @ cs"
  by (auto simp: getCurrentUserProfile_def request_def Let_def
       split: prod.splits outcome.splits option.splits)

lemma getProfileByUsername_appends: "\<exists>cs. calls (snd (getProfileByUsername env u s)) = calls s @ cs"
  by (auto simp: getProfileByUsername_def request_def Let_def
       split: prod.splits outcome.splits option.splits list.splits)

lemma fetchProfileData_appends:
  "\<exists>cs. calls (snd (fetchProfileData env pr (m, s))) = calls (snd (getUserPins env (prop_username pr) s)) @ cs"
proof (cases "getUserPins env (prop_username pr) s")
  case (Pair r s1)
  show ?thesis
  proof (cases r)
    case (Inl err)
    then show ?thesis using Pair by (simp add: fetchProfileData_def)
  next
    case (Inr pins)
    show ?thesis
    proof (cases "isGuestUser pr")
      case True
      then show ?thesis
        using Pair Inr by (simp add: fetchProfileData_def runtime_def Let_def split: prod.splits)
    next
      case False
      then show ?thesis
        using Pair Inr getCurrentUserProfile_appends [of env s1]
          getProfileByUsername_appends [of env "prop_username pr" s1]
        by (auto simp: fetchProfileData_def Let_def split: prod.splits option.splits)
    qed
  qed
qed

lemma uploadImage_appends:
  assumes "supabase env = Some sb"
  shows "\<exists>key. calls (snd (uploadImage env file userId bucketName s)) =
           calls s @ [StorageUpload bucketName key file \<lparr>cacheControl = ''3600'', upsert = False\<rparr>]"
proof -
  obtain now w1 where a: "date_now env (world s) = (now, w1)"
    by (cases "date_now env (world s)")
  obtain rnd w2 where b: "random_toString36 env w1 = (rnd, w2)"
    by (cases "random_toString36 env w1")
  show ?thesis
    using uploadImage_calls [OF assms a b] by blast
qed

lemma getImageUrl_calls:
  assumes "supabase env = Some sb"
  shows "calls (snd (getImageUrl env pth bucketName s)) = calls s @ [StorageGetPublicUrl bucketName pth]"
  using assms
  by (auto simp: getImageUrl_def request_def split: prod.splits outcome.splits)

lemma picture_rejected:
  assumes "5 * 1024 * 1024 < file_size file \<or> \<not> startsWith (file_type file) ''image/''"
  shows "handleProfilePictureChange env pr (Some file) (m, s) =
           (if isAuthenticated m \<and> userProfile m \<noteq> None \<and> \<not> isGuestUser pr
            then alert (if \<not> startsWith (file_type file) ''image/'' then ''Please select an image file''
                        else ''Image size must be less than 5MB'') m
            else m, s)"
  using assms
  by (auto simp: handleProfilePictureChange_def split: option.splits)

lemma picture_accepted:
  assumes "file_size file \<le> 5 * 1024 * 1024" and "startsWith (file_type file) ''image/''"
    and "isAuthenticated m" and "userProfile m = Some up" and "\<not> isGuestUser pr"
  shows "handleProfilePictureChange env pr (Some file) (m, s) =
     (case uploadImage env file (profile_view_id up) ''profile-pictures'' s of
        (None, s1) \<Rightarrow> (pictureFailed (m\<lparr>isUploadingProfilePicture := True\<rparr>), s1)
      | (Some pth, s1) \<Rightarrow>
          if pth = [] then (pictureFailed (m\<lparr>isUploadingProfilePicture := True\<rparr>), s1)
          else
          (case getImageUrl env pth ''profile-pictures'' s1 of
             (Inl err, s2) \<Rightarrow> (pictureFailed (m\<lparr>isUploadingProfilePicture := True\<rparr>), s2)
           | (Inr url, s2) \<Rightarrow>
               (case updateUserProfile env (profile_view_id up) [(''profile_picture_url'', VStr url)] s2 of
                  (False, s3) \<Rightarrow> (pictureFailed (m\<lparr>isUploadingProfilePicture := True\<rparr>), s3)
                | (True, s3) \<Rightarrow>
                    (case fetchProfileData env pr (m\<lparr>isUploadingProfilePicture := True\<rparr>, s3) of
                       (m4, s4) \<Rightarrow>
                         ((alert ''Profile picture updated successfully!'' m4)
                            \<lparr>isUploadingProfilePicture := False\<rparr>, s4)))))"
  using assms
  by (simp add: handleProfilePictureChange_def Let_def)

lemma fetchProfileData_alerts: "alerts (fst (fetchProfileData env pr (m, s))) = alerts m"
proof (cases "getUserPins env (prop_username pr) s")
  case (Pair r s1)
  show ?thesis
  proof (cases r)
    case (Inl err)
    then show ?thesis using Pair by (simp add: fetchProfileData_def)
  next
    case (Inr pins)
    show ?thesis
    proof (cases "isGuestUser pr")
      case True
      then show ?thesis
        using Pair Inr by (simp add: fetchProfileData_def Let_def split: prod.splits)
    next
      case False
      then show ?thesis
        using Pair Inr
        by (simp add: fetchProfileData_def Let_def split: prod.splits option.splits)
    qed
  qed
qed

lemma picture_steps:
  assumes "file_size file \<le> 5 * 1024 * 1024" and "startsWith (file_type file) ''image/''"
    and "isAuthenticated m" and "userProfile m = Some up" and "\<not> isGuestUser pr"
    and u: "uploadImage env file (profile_view_id up) ''profile-pictures'' s = (r1, s1)"
  shows "r1 = None \<or> r1 = Some [] \<Longrightarrow>
           handleProfilePictureChange env pr (Some file) (m, s)
             = (pictureFailed (m\<lparr>isUploadingProfilePicture := True\<rparr>), s1)"
    and "r1 = Some pth \<Longrightarrow> pth \<noteq> [] \<Longrightarrow> getImageUrl env pth ''profile-pictures'' s1 = (Inl err, s2) \<Longrightarrow>
           handleProfilePictureChange env pr (Some file) (m, s)
             = (pictureFailed (m\<lparr>isUploadingProfilePicture := True\<rparr>), s2)"
    and "r1 = Some pth \<Longrightarrow> pth \<noteq> [] \<Longrightarrow> getImageUrl env pth ''profile-pictures'' s1 = (Inr url, s2) \<Longrightarrow>
         updateUserProfile env (profile_view_id up) [(''profile_picture_url'', VStr url)] s2 = (r3, s3) \<Longrightarrow>
           handleProfilePictureChange env pr (Some file) (m, s)
             = (if r3
                then (case fetchProfileData env pr (m\<lparr>isUploadingProfilePicture := True\<rparr>, s3) of
                        (m4, s4) \<Rightarrow> ((alert ''Profile picture updated successfully!'' m4)
                                        \<lparr>isUploadingProfilePicture := False\<rparr>, s4))
                else (pictureFailed (m\<lparr>isUploadingProfilePicture := True\<rparr>), s3))"
  using u by (auto simp: picture_accepted [OF assms(1-5)])

text \<open>
  C7, as the code has it. A selected file larger than 5MB (\<open>5 * 1024 * 1024\<close> bytes),
  or whose type does not start with \<open>image/\<close>, never reaches the backend: the handler
  returns the system as it was, with one alert when it is active (the user is
  authenticated, a profile is loaded, the username is not a guest's) and silently
  otherwise. When the handler is active and the client present, a valid image of at most
  5MB goes to the upload, which is the one call so far. If the upload gives no path the
  handler stops there with the failure alert. Otherwise the public URL is fetched, the
  one further call; if that throws the handler stops there. Otherwise the profile is
  updated, the one further call; if the update fails the handler stops there. Otherwise
  the profile data is fetched again, starting with the pins, and the success alert is
  shown. The result of the handler is given in each case, so no step runs after a step
  that failed.
\<close>

theorem picture_validated_before_upload:
  "(5 * 1024 * 1024 < file_size file \<or> \<not> startsWith (file_type file) ''image/'' \<longrightarrow>
      handleProfilePictureChange env pr (Some file) (m, s) =
        (if isAuthenticated m \<and> userProfile m \<noteq> None \<and> \<not> isGuestUser pr
         then alert (if \<not> startsWith (file_type file) ''image/'' then ''Please select an image file''
                     else ''Image size must be less than 5MB'') m
         else m, s))
   \<and> (file_size file \<le> 5 * 1024 * 1024 \<and> startsWith (file_type file) ''image/''
        \<and> isAuthenticated m \<and> userProfile m = Some up \<and> \<not> isGuestUser pr \<and> supabase env = Some sb
        \<and> uploadImage env file (profile_view_id up) ''profile-pictures'' s = (r1, s1) \<longrightarrow>
        (\<exists>key. calls s1 = calls s @ [StorageUpload ''profile-pictures'' key file
                                        \<lparr>cacheControl = ''3600'', upsert = False\<rparr>])
        \<and> (r1 = None \<or> r1 = Some [] \<longrightarrow>
             handleProfilePictureChange env pr (Some file) (m, s)
               = (pictureFailed (m\<lparr>isUploadingProfilePicture := True\<rparr>), s1))
        \<and> (r1 = Some pth \<and> pth \<noteq> [] \<and> getImageUrl env pth ''profile-pictures'' s1 = (r2, s2) \<longrightarrow>
             calls s2 = calls s1 @ [StorageGetPublicUrl ''profile-pictures'' pth]
             \<and> (\<forall>err. r2 = Inl err \<longrightarrow>
                   handleProfilePictureChange env pr (Some file) (m, s)
                     = (pictureFailed (m\<lparr>isUploadingProfilePicture := True\<rparr>), s2))
             \<and> (r2 = Inr url
                  \<and> updateUserProfile env (profile_view_id up) [(''profile_picture_url'', VStr url)] s2 = (r3, s3) \<longrightarrow>
                  (\<exists>now. calls s3 = calls s2 @ [Update ''profiles''
                              (spread_set [(''profile_picture_url'', VStr url)] ''updated_at'' (VStr now))
                              (eq ''id'' (VStr (profile_view_id up)) builder)])
                  \<and> (\<not> r3 \<longrightarrow>
                        handleProfilePictureChange env pr (Some file) (m, s)
                          = (pictureFailed (m\<lparr>isUploadingProfilePicture := True\<rparr>), s3))
                  \<and> (r3 \<longrightarrow>
                        handleProfilePictureChange env pr (Some file) (m, s)
                          = (case fetchProfileData env pr (m\<lparr>isUploadingProfilePicture := True\<rparr>, s3) of
                               (m4, s4) \<Rightarrow> ((alert ''Profile picture updated successfully!'' m4)
                                               \<lparr>isUploadingProfilePicture := False\<rparr>, s4))
                        \<and> (\<exists>cs. calls (snd (handleProfilePictureChange env pr (Some file) (m, s))) =
                               calls s3 @ Select ''pins'' \<lparr>columns = ''*'',
                                                          filters = [(''username'', VStr (prop_username pr))],
                                                          order_by = [(''created_at'', False)]\<rparr> # cs)
                        \<and> alerts (fst (handleProfilePictureChange env pr (Some file) (m, s)))
                            = alerts m @ [''Profile picture updated successfully!'']))))"
proof (intro conjI impI allI)
  assume "5 * 1024 * 1024 < file_size file \<or> \<not> startsWith (file_type file) ''image/''"
  then show "handleProfilePictureChange env pr (Some file) (m, s) =
        (if isAuthenticated m \<and> userProfile m \<noteq> None \<and> \<not> isGuestUser pr
         then alert (if \<not> startsWith (file_type file) ''image/'' then ''Please select an image file''
                     else ''Image size must be less than 5MB'') m
         else m, s)"
    by (rule picture_rejected)
next
  let ?m1 = "m\<lparr>isUploadingProfilePicture := True\<rparr>"
  let ?h = "handleProfilePictureChange env pr (Some file) (m, s)"
  assume a: "file_size file \<le> 5 * 1024 * 1024 \<and> startsWith (file_type file) ''image/''
        \<and> isAuthenticated m \<and> userProfile m = Some up \<and> \<not> isGuestUser pr \<and> supabase env = Some sb
        \<and> uploadImage env file (profile_view_id up) ''profile-pictures'' s = (r1, s1)"
  then have g: "file_size file \<le> 5 * 1024 * 1024" "startsWith (file_type file) ''image/''"
      "isAuthenticated m" "userProfile m = Some up" "\<not> isGuestUser pr"
    and sb: "supabase env = Some sb"
    and u: "uploadImage env file (profile_view_id up) ''profile-pictures'' s = (r1, s1)"
    by simp_all
  show "\<exists>key. calls s1 = calls s @ [StorageUpload ''profile-pictures'' key file
                                        \<lparr>cacheControl = ''3600'', upsert = False\<rparr>]"
    using uploadImage_appends [OF sb, of "file" "profile_view_id up" "''profile-pictures''" s] u by simp
  {
    assume "r1 = None \<or> r1 = Some []"
    then show "?h = (pictureFailed ?m1, s1)"
      by (rule picture_steps(1) [OF g u])
  }
  {
    assume b: "r1 = Some pth \<and> pth \<noteq> [] \<and> getImageUrl env pth ''profile-pictures'' s1 = (r2, s2)"
    show "calls s2 = calls s1 @ [StorageGetPublicUrl ''profile-pictures'' pth]"
      using getImageUrl_calls [OF sb, of pth "''profile-pictures''" s1] b by simp
    {
      fix err assume "r2 = Inl err"
      then show "?h = (pictureFailed ?m1, s2)"
        using picture_steps(2) [OF g u, of pth err s2] b by simp
    }
    {
      assume c: "r2 = Inr url
                  \<and> updateUserProfile env (profile_view_id up) [(''profile_picture_url'', VStr url)] s2 = (r3, s3)"
      have e: "?h = (if r3
                then (case fetchProfileData env pr (?m1, s3) of
                        (m4, s4) \<Rightarrow> ((alert ''Profile picture updated successfully!'' m4)
                                        \<lparr>isUploadingProfilePicture := False\<rparr>, s4))
                else (pictureFailed ?m1, s3))"
        using picture_steps(3) [OF g u, of pth url s2 r3 s3] b c by simp
      show "\<exists>now. calls s3 = calls s2 @ [Update ''profiles''
                              (spread_set [(''profile_picture_url'', VStr url)] ''updated_at'' (VStr now))
                              (eq ''id'' (VStr (profile_view_id up)) builder)]"
        using updateUserProfile_calls [OF sb, of "profile_view_id up" "[(''profile_picture_url'', VStr url)]" s2] c
        by auto
      {
        assume "\<not> r3"
        then show "?h = (pictureFailed ?m1, s3)"
          by (simp add: e)
      }
      {
        assume r3
        then show e': "?h = (case fetchProfileData env pr (?m1, s3) of
                               (m4, s4) \<Rightarrow> ((alert ''Profile picture updated successfully!'' m4)
                                               \<lparr>isUploadingProfilePicture := False\<rparr>, s4))"
          by (simp add: e)
        obtain m4 s4 where f: "fetchProfileData env pr (?m1, s3) = (m4, s4)"
          by (cases "fetchProfileData env pr (?m1, s3)")
        have "calls (snd (getUserPins env (prop_username pr) s3)) =
                calls s3 @ [Select ''pins'' \<lparr>columns = ''*'',
                                             filters = [(''username'', VStr (prop_username pr))],
                                             order_by = [(''created_at'', False)]\<rparr>]"
          using sb by (simp add: getUserPins_calls)
        then obtain cs where "calls s4 = calls s3 @ Select ''pins'' \<lparr>columns = ''*'',
                                                          filters = [(''username'', VStr (prop_username pr))],
                                                          order_by = [(''created_at'', False)]\<rparr> # cs"
          using fetchProfileData_appends [of env pr ?m1 s3] f by auto
        then show "\<exists>cs. calls (snd ?h) =
                               calls s3 @ Select ''pins'' \<lparr>columns = ''*'',
                                                          filters = [(''username'', VStr (prop_username pr))],
                                                          order_by = [(''created_at'', False)]\<rparr> # cs"
          by (simp add: e' f)
        have "alerts m4 = alerts ?m1"
          using fetchProfileData_alerts [of env pr ?m1 s3] f by simp
        then show "alerts (fst ?h) = alerts m @ [''Profile picture updated successfully!'']"
          by (simp add: e' f alert_def)
      }
    }
  }
qed


theorem picture_validated_before_upload_witness:
  "5 * 1024 * 1024 < file_size big_photo
   \<and> handleProfilePictureChange memory_env alice_props (Some big_photo) (m_alice, \<lparr>world = w_alice, calls = []\<rparr>)
       = (alert ''Image size must be less than 5MB'' m_alice, \<lparr>world = w_alice, calls = []\<rparr>)
   \<and> file_size photo \<le> 5 * 1024 * 1024 \<and> startsWith (file_type photo) ''image/''
   \<and> isAuthenticated m_alice \<and> userProfile m_alice = Some (FromDb alice) \<and> \<not> isGuestUser alice_props
   \<and> supabase memory_env = Some memory_client
   \<and> handleProfilePictureChange memory_env alice_props (Some photo) (m_alice, \<lparr>world = w_taken, calls = []\<rparr>)
       = (pictureFailed (m_alice\<lparr>isUploadingProfilePicture := True\<rparr>),
          \<lparr>world = w_taken,
           calls = [StorageUpload ''profile-pictures'' ''u1/1714557600000-k3j9x2a.png'' photo
                      \<lparr>cacheControl = ''3600'', upsert = False\<rparr>]\<rparr>)
   \<and> fst (uploadImage memory_env photo ''u1'' ''profile-pictures'' \<lparr>world = w_alice, calls = []\<rparr>)
       = Some ''u1/1714557600000-k3j9x2a.png''
   \<and> alerts (fst (handleProfilePictureChange memory_env alice_props (Some photo)
                     (m_alice, \<lparr>world = w_alice, calls = []\<rparr>)))
       = [''Profile picture updated successfully!'']"
proof -
  let ?s = "\<lparr>world = w_alice, calls = []\<rparr>"
  let ?t = "\<lparr>world = w_taken, calls = []\<rparr>"
  let ?key = "''u1/1714557600000-k3j9x2a.png''"
  let ?url = "''https://backend.example/storage/v1/object/public/profile-pictures/u1/1714557600000-k3j9x2a.png''"
  let ?s1 = "\<lparr>world = w_alice\<lparr>store_objects := [(''profile-pictures'', ?key)]\<rparr>,
              calls = [StorageUpload ''profile-pictures'' ?key photo \<lparr>cacheControl = ''3600'', upsert = False\<rparr>]\<rparr>"
  let ?t1 = "\<lparr>world = w_taken,
              calls = [StorageUpload ''profile-pictures'' ?key photo \<lparr>cacheControl = ''3600'', upsert = False\<rparr>]\<rparr>"
  let ?s2 = "snd (getImageUrl memory_env ?key ''profile-pictures'' ?s1)"
  let ?s3 = "snd (updateUserProfile memory_env ''u1'' [(''profile_picture_url'', VStr ?url)] ?s2)"
  have big: "5 * 1024 * 1024 < file_size big_photo"
    by (simp add: big_photo_def)
  have g1: "file_size photo \<le> 5 * 1024 * 1024" and g2: "startsWith (file_type photo) ''image/''"
    by (simp_all add: photo_def startsWith_def)
  have g3: "isAuthenticated m_alice" and g4: "userProfile m_alice = Some (FromDb alice)"
    by (simp_all add: m_alice_def m_init_def)
  have g5: "\<not> isGuestUser alice_props"
    by (simp add: isGuestUser_def alice_props_def match_guest_def)
  have g6: "supabase memory_env = Some memory_client"
    by (simp add: memory_env_def)
  have uid: "profile_view_id (FromDb alice) = ''u1''"
    by (simp add: profile_view_id_def alice_def)
  have d: "dec 1714557600000 = ''1714557600000''"
    by (simp add: dec.simps digit_char_def)
  have ext: "fileExt photo = ''png''"
    by (simp add: fileExt_def photo_def)
  have u: "uploadImage memory_env photo ''u1'' ''profile-pictures'' ?s = (Some ?key, ?s1)"
    by (simp add: uploadImage_def runtime_def request_def Let_def memory_env_def memory_client_def ok_def
        d ext w_alice_def w_blog_def w0_def)
  have v: "uploadImage memory_env photo ''u1'' ''profile-pictures'' ?t = (None, ?t1)"
    by (simp add: uploadImage_def runtime_def request_def Let_def memory_env_def memory_client_def failed_def
        d ext w_taken_def w_alice_def w_blog_def w0_def)
  have g: "getImageUrl memory_env ?key ''profile-pictures'' ?s1 = (Inr ?url, ?s2)"
    by (simp add: getImageUrl_def request_def memory_env_def memory_client_def)
  have p: "updateUserProfile memory_env ''u1'' [(''profile_picture_url'', VStr ?url)] ?s2 = (True, ?s3)"
    by (simp add: updateUserProfile_def runtime_def request_def Let_def memory_env_def memory_client_def
        memory_table_def ok_def split: prod.splits)
  note inst = picture_validated_before_upload [where env = memory_env and pr = alice_props and m = m_alice
      and up = "FromDb alice" and sb = memory_client]
  have a: "handleProfilePictureChange memory_env alice_props (Some big_photo) (m_alice, ?s)
       = (alert ''Image size must be less than 5MB'' m_alice, ?s)"
    using inst [where ?file = big_photo and s = ?s] big g3 g4 g5
    by (simp add: big_photo_def startsWith_def)
  have b: "handleProfilePictureChange memory_env alice_props (Some photo) (m_alice, ?t)
       = (pictureFailed (m_alice\<lparr>isUploadingProfilePicture := True\<rparr>), ?t1)"
    using inst [where ?file = photo and s = ?t and ?r1.0 = None and ?s1.0 = ?t1] g1 g2 g3 g4 g5 g6 v
    by (simp add: uid)
  have u': "uploadImage memory_env photo (profile_view_id (FromDb alice)) ''profile-pictures'' ?s = (Some ?key, ?s1)"
    unfolding uid by (rule u)
  have p': "updateUserProfile memory_env (profile_view_id (FromDb alice)) [(''profile_picture_url'', VStr ?url)] ?s2
              = (True, ?s3)"
    unfolding uid by (rule p)
  have ne: "?key \<noteq> []"
    by simp
  have hyp1: "file_size photo \<le> 5 * 1024 * 1024 \<and> startsWith (file_type photo) ''image/''
        \<and> isAuthenticated m_alice \<and> userProfile m_alice = Some (FromDb alice) \<and> \<not> isGuestUser alice_props
        \<and> supabase memory_env = Some memory_client
        \<and> uploadImage memory_env photo (profile_view_id (FromDb alice)) ''profile-pictures'' ?s = (Some ?key, ?s1)"
    using g1 g2 g3 g4 g5 g6 u' by (intro conjI)
  have hyp2: "Some ?key = Some ?key \<and> ?key \<noteq> []
        \<and> getImageUrl memory_env ?key ''profile-pictures'' ?s1 = (Inr ?url, ?s2)"
    using ne g by (intro conjI refl)
  have hyp3: "Inr ?url = Inr ?url
        \<and> updateUserProfile memory_env (profile_view_id (FromDb alice)) [(''profile_picture_url'', VStr ?url)] ?s2
            = (True, ?s3)"
    using p' by (intro conjI refl)
  note step1 = inst [where ?file = photo and s = ?s and ?r1.0 = "Some ?key" and ?s1.0 = ?s1 and pth = ?key
        and ?r2.0 = "Inr ?url" and ?s2.0 = ?s2 and url = ?url and ?r3.0 = True and ?s3.0 = ?s3,
        THEN conjunct2, THEN mp, OF hyp1]
  note step2 = step1 [THEN conjunct2, THEN conjunct2, THEN mp, OF hyp2]
  note step3 = step2 [THEN conjunct2, THEN conjunct2, THEN mp, OF hyp3]
  note step4 = step3 [THEN conjunct2, THEN conjunct2, THEN mp, OF TrueI]
  have c0: "alerts (fst (handleProfilePictureChange memory_env alice_props (Some photo) (m_alice, ?s)))
       = alerts m_alice @ [''Profile picture updated successfully!'']"
    by (rule step4 [THEN conjunct2, THEN conjunct2])
  have c: "alerts (fst (handleProfilePictureChange memory_env alice_props (Some photo) (m_alice, ?s)))
       = [''Profile picture updated successfully!'']"
    using c0 by (simp add: m_alice_def m_init_def)
  show ?thesis
    using big a g1 g2 g3 g4 g5 g6 b c u by simp
qed

text \<open>
  C7 as stated fails where the handler is not active: a signed-in user without a
  loaded profile selects a 6MB file, and the handler returns without an alert.
\<close>

theorem picture_silent_return_counterexample:
  "5 * 1024 * 1024 < file_size big_photo
   \<and> handleProfilePictureChange memory_env alice_props (Some big_photo)
         (m_init\<lparr>isAuthenticated := True\<rparr>, \<lparr>world = w_alice, calls = []\<rparr>)
       = (m_init\<lparr>isAuthenticated := True\<rparr>, \<lparr>world = w_alice, calls = []\<rparr>)
   \<and> alerts (m_init\<lparr>isAuthenticated := True\<rparr>) = []"
  by (simp add: handleProfilePictureChange_def m_init_def big_photo_def)

end
